theory Spec2Isabelle
  imports Complex_Main
begin

section \<open>The physics model of web-condx (physics.js)\<close>

text \<open>
  The embedding follows the current \<^verbatim>\<open>physics.js\<close> (the copy with the season
  parameter and \<^verbatim>\<open>step_km = 1.0\<close>). There are two embeddings of its numbers.

  In the first, which covers the whole file, a JavaScript number is a real number:
  rounding, infinities and NaN are outside it, and a statement on it is about the
  arithmetic the code writes down, carried out exactly. Where JavaScript would
  produce an infinity or NaN (a division by zero, as for the frequency 0 or the tilt
  distance 0, or the square root of a negative density) the HOL functions return a
  number: \<open>x / 0 = 0\<close> and \<open>sqrt (- x) = - sqrt x\<close>.
  \<^verbatim>\<open>Math.sqrt\<close>, \<^verbatim>\<open>Math.exp\<close>, \<^verbatim>\<open>Math.sin\<close>, \<^verbatim>\<open>Math.cos\<close>, \<^verbatim>\<open>Math.abs\<close>,
  \<^verbatim>\<open>Math.sign\<close>, \<^verbatim>\<open>Math.max\<close>, \<^verbatim>\<open>Math.min\<close> and \<^verbatim>\<open>Math.floor\<close> are the HOL
  functions \<open>sqrt\<close>, \<open>exp\<close>, \<open>sin\<close>, \<open>cos\<close>, \<open>abs\<close>, \<open>sgn\<close>, \<open>max\<close>, \<open>min\<close> and
  \<open>floor\<close>; \<^verbatim>\<open>Math.pow(v, 2)\<close> is \<open>v\<^sup>2\<close>; a string is a \<open>string\<close> and \<^verbatim>\<open>===\<close> on
  strings is equality.

  The second embedding keeps the special values: a number is a real number,
  \<^verbatim>\<open>Infinity\<close>, \<^verbatim>\<open>-Infinity\<close> or \<^verbatim>\<open>NaN\<close>. It covers \<^verbatim>\<open>refractiveIndex\<close>, the two
  functions that supply its arguments, and \<^verbatim>\<open>traceRaySphericalWithPath\<close>. What is
  claimed of \<^verbatim>\<open>refractiveIndex\<close> for every argument is settled on it, and so is
  every input at which the code meets a special value.
\<close>

subsection \<open>Constants\<close>

definition R_E :: real where
  "R_E = 6371.0"

text \<open>The speed of light, \<^verbatim>\<open>const c\<close> in the source.\<close>

definition c_light :: real where
  "c_light = 300000000"

subsection \<open>Chapman layers\<close>

definition chapmanLayerSingle :: "real \<Rightarrow> real \<Rightarrow> real \<Rightarrow> real \<Rightarrow> real" where
  "chapmanLayerSingle z N_peak z_peak H =
     (let reduced_z = (z - z_peak) / H;
          exponent = 1.0 - reduced_z - exp (- reduced_z)
      in N_peak * exp exponent)"

definition chapmanLayer :: "real list \<Rightarrow> real \<Rightarrow> real \<Rightarrow> real \<Rightarrow> real list" where
  "chapmanLayer z N_peak z_peak H =
     map (\<lambda>altitude.
            let reduced_z = (altitude - z_peak) / H;
                exponent = 1.0 - reduced_z - exp (- reduced_z)
            in N_peak * exp exponent) z"

subsection \<open>Layer parameters derived from foF2 and the season\<close>

text \<open>
  \<^verbatim>\<open>makeIonosphereForFoF2\<close> and \<^verbatim>\<open>electronDensitySingle\<close> compute the same local
  variables with the same code; each local is one definition here, named as in the
  source. \<open>h_F2_regime\<close> is \<^verbatim>\<open>h_F2\<close> before the seasonal offset, \<open>h_F2\<close> is its
  final value after the offset and the second clamp.
\<close>

definition Ne_F2_peak :: "real \<Rightarrow> real" where
  "Ne_F2_peak foF2 = (let f_F2_Hz = foF2 * 1000000 in (f_F2_Hz / 8.98)\<^sup>2)"

definition h_F2_regime :: "real \<Rightarrow> real" where
  "h_F2_regime foF2 =
     (if foF2 < 4.5 then max 260.0 (min 350.0 (260.0 + (4.5 - foF2) * 36.0))
      else if foF2 < 7.0 then
        (let transition_factor = (foF2 - 4.5) / 2.5 in 300.0 - transition_factor * 20.0)
      else max 250.0 (min 300.0 (300.0 - (foF2 - 7.0) * 2.0)))"

definition seasonal_offset :: "real \<Rightarrow> string \<Rightarrow> real" where
  "seasonal_offset foF2 season =
     (if foF2 \<ge> 7.0 then
        (if season = ''summer'' then - 10.0 else if season = ''winter'' then 10.0 else 0.0)
      else if foF2 \<ge> 4.5 then
        (if season = ''summer'' then - 10.0 else if season = ''winter'' then 15.0 else 0.0)
      else
        (if season = ''summer'' then - 10.0 else if season = ''winter'' then 15.0 else 0.0))"

definition h_F2 :: "real \<Rightarrow> string \<Rightarrow> real" where
  "h_F2 foF2 season =
     (let h = h_F2_regime foF2 + seasonal_offset foF2 season
      in if foF2 < 4.5 then max 260.0 (min 360.0 h)
         else if foF2 < 7.0 then max 280.0 (min 320.0 h)
         else max 240.0 (min 330.0 h))"

definition D_factor :: "real \<Rightarrow> real" where
  "D_factor foF2 =
     (if foF2 < 5.0 then 0.0 else if foF2 < 8.0 then (foF2 - 5.0) / 3.0 else 1.0)"

definition Ne_D_peak :: "real \<Rightarrow> real" where
  "Ne_D_peak foF2 = 1500000000 * D_factor foF2"

definition F1_factor :: "real \<Rightarrow> real" where
  "F1_factor foF2 =
     (if foF2 < 4.5 then 0.0 else if foF2 < 7.0 then (foF2 - 4.5) / 2.5 else 1.0)"

definition Ne_F1_peak :: "real \<Rightarrow> real" where
  "Ne_F1_peak foF2 = 600000000000 * F1_factor foF2"

definition E_factor :: "real \<Rightarrow> real" where
  "E_factor foF2 = 0.5 + 0.5 * min 1.0 (foF2 / 12.0)"

definition Ne_E_peak :: "real \<Rightarrow> real" where
  "Ne_E_peak foF2 = 80000000000 * E_factor foF2"

definition F2_scale_height :: "real \<Rightarrow> string \<Rightarrow> real" where
  "F2_scale_height foF2 season =
     (let H = (if foF2 < 4.5 then 70.0
               else if foF2 < 7.0 then
                 (let transition_factor = (foF2 - 4.5) / 2.5 in 70.0 - transition_factor * 15.0)
               else 55.0)
      in if season = ''winter'' then H * 1.2
         else if season = ''summer'' then H * 0.8
         else H)"

subsection \<open>Electron density\<close>

text \<open>
  The altitude array \<^verbatim>\<open>z\<close> is a list; the closing \<^verbatim>\<open>z.map((_, i) => ...)\<close> reads the
  four layer arrays at every index of \<^verbatim>\<open>z\<close>, all of them in range.
\<close>

definition makeIonosphereForFoF2 :: "real list \<Rightarrow> real \<Rightarrow> string \<Rightarrow> real list" where
  "makeIonosphereForFoF2 z foF2 season =
     (let Ne_D = chapmanLayer z (Ne_D_peak foF2) 75.0 8.0;
          Ne_E = chapmanLayer z (Ne_E_peak foF2) 110.0 15.0;
          Ne_F1 = chapmanLayer z (Ne_F1_peak foF2) 190.0 30.0;
          Ne_F2 = chapmanLayer z (Ne_F2_peak foF2) (h_F2 foF2 season) (F2_scale_height foF2 season)
      in map (\<lambda>i. Ne_D ! i + Ne_E ! i + Ne_F1 ! i + Ne_F2 ! i) [0..<length z])"

definition makeTiltedIonosphere2D ::
  "real list \<Rightarrow> real \<Rightarrow> real \<Rightarrow> real \<Rightarrow> real \<Rightarrow> string \<Rightarrow> real list" where
  "makeTiltedIonosphere2D z x foF2_at_tx foF2_at_distance tilt_distance season =
     (let foF2_local = foF2_at_tx + (foF2_at_distance - foF2_at_tx) * (x / tilt_distance);
          foF2_clamped = max 2.0 (min 25.0 foF2_local)
      in makeIonosphereForFoF2 z foF2_clamped season)"

definition electronDensitySingle :: "real \<Rightarrow> real \<Rightarrow> string \<Rightarrow> real" where
  "electronDensitySingle z foF2 season =
     (let Ne_D = chapmanLayerSingle z (Ne_D_peak foF2) 75.0 8.0;
          Ne_E = chapmanLayerSingle z (Ne_E_peak foF2) 110.0 15.0;
          Ne_F1 = chapmanLayerSingle z (Ne_F1_peak foF2) 190.0 30.0;
          Ne_F2 = chapmanLayerSingle z (Ne_F2_peak foF2) (h_F2 foF2 season)
                    (F2_scale_height foF2 season)
      in Ne_D + Ne_E + Ne_F1 + Ne_F2)"

definition electronDensity2DSingle ::
  "real \<Rightarrow> real \<Rightarrow> real \<Rightarrow> real \<Rightarrow> real \<Rightarrow> string \<Rightarrow> real" where
  "electronDensity2DSingle z x foF2_at_tx foF2_at_distance tilt_distance season =
     (let foF2_local = foF2_at_tx + (foF2_at_distance - foF2_at_tx) * (x / tilt_distance);
          foF2_clamped = max 2.0 (min 25.0 foF2_local)
      in electronDensitySingle z foF2_clamped season)"

subsection \<open>Plasma frequency, collision frequency, refractive index\<close>

definition plasmaFrequencyFromNe :: "real \<Rightarrow> real" where
  "plasmaFrequencyFromNe Ne =
     (let e = 1.602176634 / 10 ^ 19;
          m_e = 9.1093837015 / 10 ^ 31;
          eps_0 = 8.8541878128 / 10 ^ 12
      in sqrt (Ne * e * e / (eps_0 * m_e)) / (2.0 * pi))"

definition collisionFrequency :: "real \<Rightarrow> real" where
  "collisionFrequency z =
     (if z < 90.0 then 350000 * exp (- (z - 70.0) / 8.0)
      else if z < 150.0 then 100000 * exp (- (z - 90.0) / 20.0)
      else 1000)"

text \<open>
  \<^verbatim>\<open>Math.atan2(y, x)\<close> on real numbers: the angle of the point \<open>(x, y)\<close> in
  \<open>(-\<pi>, \<pi>]\<close>, and 0 at the origin.
\<close>

definition atan2 :: "real \<Rightarrow> real \<Rightarrow> real" where
  "atan2 y x =
     (if x > 0 then arctan (y / x)
      else if x < 0 then (if y \<ge> 0 then arctan (y / x) + pi else arctan (y / x) - pi)
      else if y > 0 then pi / 2
      else if y < 0 then - (pi / 2)
      else 0)"

text \<open>The object \<^verbatim>\<open>{real: ..., imag: ...}\<close> that \<^verbatim>\<open>refractiveIndex\<close> returns.\<close>

record complex_n =
  real_c :: real
  imag_c :: real

definition refractiveIndex :: "real \<Rightarrow> real \<Rightarrow> real \<Rightarrow> complex_n" where
  "refractiveIndex Ne freq_Hz nu =
     (let omega = 2.0 * pi * freq_Hz;
          omega_p = 2.0 * pi * plasmaFrequencyFromNe Ne;
          X = (omega_p / omega)\<^sup>2;
          Z = nu / omega;
          denom = 1.0 + Z * Z;
          n_sq_real = 1.0 - X / denom;
          n_sq_imag = X * Z / denom;
          magnitude = sqrt (sqrt (n_sq_real * n_sq_real + n_sq_imag * n_sq_imag));
          phase = atan2 n_sq_imag n_sq_real / 2.0
      in \<lparr>real_c = magnitude * cos phase, imag_c = magnitude * sin phase\<rparr>)"

definition absorptionCoefficient :: "real \<Rightarrow> real \<Rightarrow> real \<Rightarrow> real" where
  "absorptionCoefficient Ne freq_Hz nu =
     (let omega = 2.0 * pi * freq_Hz;
          n = refractiveIndex Ne freq_Hz nu;
          n_sq_imag = 2.0 * real_c n * imag_c n;
          alpha_per_m = (omega / (2.0 * c_light)) * \<bar>n_sq_imag\<bar> / max (real_c n) (1 / 10 ^ 10)
      in alpha_per_m * 1000.0)"

section \<open>The ray tracers\<close>

subsection \<open>Results and loop state\<close>

text \<open>
  The object a tracer returns. The 1D tracers return no \<^verbatim>\<open>azimuths\<close>, the tracers
  without absorption no \<^verbatim>\<open>total_loss_dB\<close>: a property the object does not have is
  \<open>None\<close>. The status is the string the source writes.
\<close>

record RayTraceResult =
  distances :: "real list"
  altitudes :: "real list"
  azimuths :: "real list option"
  total_loss_dB :: "real option"
  status :: string

text \<open>
  The variables a tracer's loop assigns to, as a record passed from one iteration to
  the next; field \<open>s_v\<close> is the source's variable \<^verbatim>\<open>v\<close>. \<open>ray_state\<close> is the state of
  \<^verbatim>\<open>traceRaySphericalWithPath\<close>; the other tracers add their variables to it.
\<close>

record ray_state =
  s_r :: real
  s_theta :: real
  s_going_up :: bool
  s_distances :: "real list"
  s_altitudes :: "real list"

record ray_state_abs = ray_state +
  s_total_loss_nepers :: real

record ray_state_2d = ray_state +
  s_x :: real
  s_phi :: real
  s_azimuths :: "real list"

record ray_state_2d_abs = ray_state_2d +
  s_total_loss_nepers_2d :: real

definition step_km :: real where
  "step_km = 1.0"

text \<open>The default value of the parameter \<^verbatim>\<open>max_distance_km\<close>.\<close>

definition default_max_distance_km :: real where
  "default_max_distance_km = 10000.0"

subsection \<open>The for loop\<close>

text \<open>
  \<^verbatim>\<open>for (let step = 0; step < max_steps; step++) { ... }\<close> with a body that may
  \<^verbatim>\<open>return\<close>: the body maps the counter and the state to \<open>Inl result\<close> (the function
  returns from inside the loop) or to \<open>Inr state\<close> (the iteration completes). The loop
  yields the value of \<^verbatim>\<open>step\<close> when it is left, and either the result returned from
  inside or the state with which the loop condition failed.
\<close>

function for_loop :: "int \<Rightarrow> (nat \<Rightarrow> 's \<Rightarrow> 'r + 's) \<Rightarrow> nat \<Rightarrow> 's \<Rightarrow> nat \<times> ('r + 's)" where
  "for_loop max_steps body step st =
     (if int step < max_steps then
        (case body step st of
           Inl res \<Rightarrow> (step, Inl res)
         | Inr st' \<Rightarrow> for_loop max_steps body (Suc step) st')
      else (step, Inr st))"
  by pat_completeness auto
termination
  by (relation "measure (\<lambda>(max_steps, body, step, st). nat (max_steps - int step))") auto

declare for_loop.simps [simp del]

text \<open>
  How many times the body was entered: \<^verbatim>\<open>step + 1\<close> when the function returned
  inside iteration \<^verbatim>\<open>step\<close>, \<^verbatim>\<open>step\<close> when the loop condition failed.
\<close>

definition iterations :: "nat \<times> ('r + 's) \<Rightarrow> nat" where
  "iterations out = (case out of (step, Inl res) \<Rightarrow> Suc step | (step, Inr st) \<Rightarrow> step)"

subsection \<open>The code the four tracers share\<close>

text \<open>The object \<^verbatim>\<open>n_squared\<close> built from \<^verbatim>\<open>n_complex\<close>.\<close>

definition n_squared :: "complex_n \<Rightarrow> complex_n" where
  "n_squared n_complex =
     \<lparr>real_c = real_c n_complex * real_c n_complex - imag_c n_complex * imag_c n_complex,
      imag_c = 2 * real_c n_complex * imag_c n_complex\<rparr>"

text \<open>
  From \<^verbatim>\<open>let sin_psi;\<close> to the end of the reflection test (the same lines in the four
  tracers): the ray angle from the conserved ray parameter \<open>b\<close>, and the first escape
  test. \<open>None\<close> is the \<^verbatim>\<open>return\<close> with status \<^verbatim>\<open>'escapes'\<close>; otherwise the values of
  \<^verbatim>\<open>going_up\<close> and \<^verbatim>\<open>sin_psi\<close> after the block.
\<close>

definition ray_direction ::
  "real \<Rightarrow> real \<Rightarrow> real \<Rightarrow> bool \<Rightarrow> real \<Rightarrow> real \<Rightarrow> (bool \<times> real) option" where
  "ray_direction z b r going_up n_real n2_real =
     (let (going_up, sin_psi) =
            (if \<bar>n_real\<bar> < 1 / 10 ^ 8 then (False, 1.0)
             else (if n2_real \<le> 0 then False else going_up, b / (n_real * r)))
      in if \<bar>sin_psi\<bar> \<ge> 1.0 then
           (if z > 600 \<and> going_up then None
            else Some (False, sgn sin_psi * 0.999))
         else Some (going_up, sin_psi))"

text \<open>The step length \<^verbatim>\<open>adaptive_step\<close>, halved near the turning point.\<close>

definition adaptive_step :: "real \<Rightarrow> real \<Rightarrow> real" where
  "adaptive_step n_real sin_psi =
     (if n_real < 0.1 \<or> \<bar>sin_psi\<bar> > 0.95 then step_km * 0.5 else step_km)"

text \<open>
  The same block continued to the assignments \<^verbatim>\<open>r += dr; theta += d_theta\<close> (the
  accumulation of loss and azimuth that two of the tracers insert in between reads
  \<^verbatim>\<open>adaptive_step\<close> and \<^verbatim>\<open>sin_psi\<close> and changes none of these variables). \<open>None\<close> is
  a \<^verbatim>\<open>return\<close> with status \<^verbatim>\<open>'escapes'\<close>; otherwise the new \<^verbatim>\<open>going_up\<close>, \<^verbatim>\<open>sin_psi\<close>,
  \<^verbatim>\<open>adaptive_step\<close>, \<^verbatim>\<open>r\<close> and \<^verbatim>\<open>theta\<close> (a local constant whose name is a definition's
  here carries the suffix \<open>_v\<close>).
\<close>

definition ray_step ::
  "real \<Rightarrow> real \<Rightarrow> real \<Rightarrow> real \<Rightarrow> bool \<Rightarrow> real \<Rightarrow> real
     \<Rightarrow> (bool \<times> real \<times> real \<times> real \<times> real) option" where
  "ray_step z b r theta going_up n_real n2_real =
     (case ray_direction z b r going_up n_real n2_real of
        None \<Rightarrow> None
      | Some (going_up, sin_psi) \<Rightarrow>
          if z > 800 \<and> going_up then None
          else
            let cos_psi = sqrt (1 - sin_psi * sin_psi);
                adaptive_step_v = adaptive_step n_real sin_psi;
                dr = adaptive_step_v * cos_psi * (if going_up then 1 else - 1);
                d_theta = adaptive_step_v * sin_psi / r
            in Some (going_up, sin_psi, adaptive_step_v, r + dr, theta + d_theta))"

text \<open>The Sen-Wyller coefficient \<^verbatim>\<open>alpha\<close> of the two absorption tracers.\<close>

definition alpha :: "real \<Rightarrow> complex_n \<Rightarrow> real" where
  "alpha omega n_complex =
     (omega / (2.0 * c_light)) * \<bar>imag_c (n_squared n_complex)\<bar>
       / max (real_c n_complex) (1 / 10 ^ 10)"

text \<open>
  The electron density of the 1D tracers, \<^verbatim>\<open>const Ne = z >= 0 ? ionosphere_func(z) : 0\<close>,
  and their refractive index at altitude \<open>z\<close>.
\<close>

definition Ne_1D :: "(real \<Rightarrow> real) \<Rightarrow> real \<Rightarrow> real" where
  "Ne_1D ionosphere_func z = (if z \<ge> 0 then ionosphere_func z else 0)"

definition n_complex_1D :: "real \<Rightarrow> (real \<Rightarrow> real) \<Rightarrow> real \<Rightarrow> complex_n" where
  "n_complex_1D freq_Hz ionosphere_func z =
     (let Ne = Ne_1D ionosphere_func z;
          nu = collisionFrequency (max 0 z)
      in refractiveIndex Ne freq_Hz nu)"

text \<open>
  The closure \<^verbatim>\<open>getRefractiveIndex\<close> of the 2D tracers with the variables it captures,
  and the density \<^verbatim>\<open>Ne\<close> it computes.
\<close>

definition Ne_2D :: "real \<Rightarrow> real \<Rightarrow> real \<Rightarrow> string \<Rightarrow> real \<Rightarrow> real \<Rightarrow> real" where
  "Ne_2D foF2_at_tx foF2_at_distance tilt_distance season z x_dist =
     (if z \<ge> 0 \<and> z \<le> 600 then
        electronDensity2DSingle z x_dist foF2_at_tx foF2_at_distance tilt_distance season
      else 0)"

definition getRefractiveIndex ::
  "real \<Rightarrow> real \<Rightarrow> real \<Rightarrow> real \<Rightarrow> string \<Rightarrow> real \<Rightarrow> real \<Rightarrow> complex_n" where
  "getRefractiveIndex freq_Hz foF2_at_tx foF2_at_distance tilt_distance season z x_dist =
     (let Ne = Ne_2D foF2_at_tx foF2_at_distance tilt_distance season z x_dist;
          nu = collisionFrequency (max 0 z)
      in refractiveIndex Ne freq_Hz nu)"

text \<open>
  The horizontal gradient \<^verbatim>\<open>dn_dx\<close> and the azimuth increment \<^verbatim>\<open>dphi\<close> of the 2D
  tracers; \<open>gri\<close> is the closure \<^verbatim>\<open>getRefractiveIndex\<close>.
\<close>

definition dn_dx :: "(real \<Rightarrow> real \<Rightarrow> complex_n) \<Rightarrow> real \<Rightarrow> real \<Rightarrow> real \<Rightarrow> real" where
  "dn_dx gri z x n_real =
     (let dx_sample = (if n_real < 0.1 then 0.5 else 1.0)
      in if x > dx_sample then
           (let n_plus = gri z (x + dx_sample);
                n_minus = gri z (x - dx_sample)
            in (real_c n_plus - real_c n_minus) / (2 * dx_sample))
         else if x > 0 then
           (let n_plus = gri z (x + dx_sample)
            in (real_c n_plus - n_real) / dx_sample)
         else 0.0)"

definition dphi :: "real \<Rightarrow> real \<Rightarrow> real \<Rightarrow> real \<Rightarrow> real" where
  "dphi dn_dx_v n_real sin_psi adaptive_step_v =
     (let sin_psi_abs = \<bar>sin_psi\<bar>
      in if sin_psi_abs > 0.1 \<and> n_real > 0.05 then
           (let dphi_ds = - (1.0 / n_real) * dn_dx_v / sin_psi_abs;
                smoothing_factor =
                  (if sin_psi_abs > 0.9 then max 0.0 (min 1.0 ((1.0 - sin_psi_abs) / 0.1))
                   else 1.0);
                smoothing_factor =
                  (if n_real < 0.15 then
                     smoothing_factor * max 0.0 (min 1.0 ((n_real - 0.05) / 0.10))
                   else smoothing_factor)
            in dphi_ds * adaptive_step_v * smoothing_factor)
         else 0.0)"

subsection \<open>traceRaySphericalWithPath\<close>

definition result_path :: "ray_state \<Rightarrow> string \<Rightarrow> RayTraceResult" where
  "result_path st s =
     \<lparr>distances = s_distances st, altitudes = s_altitudes st, azimuths = None,
      total_loss_dB = None, status = s\<rparr>"

definition body_path ::
  "real \<Rightarrow> real \<Rightarrow> (real \<Rightarrow> real) \<Rightarrow> real \<Rightarrow> nat \<Rightarrow> ray_state \<Rightarrow> RayTraceResult + ray_state" where
  "body_path freq_Hz b ionosphere_func max_distance_km step st =
     (let z = s_r st - R_E
      in if z < 0.0 \<and> step > 10 then Inl (result_path st ''returns'')
         else
           let n_complex = n_complex_1D freq_Hz ionosphere_func z;
               n_real = real_c n_complex;
               n2_real = real_c (n_squared n_complex)
           in case ray_step z b (s_r st) (s_theta st) (s_going_up st) n_real n2_real of
                None \<Rightarrow> Inl (result_path st ''escapes'')
              | Some (going_up, sin_psi, adaptive_step_v, r, theta) \<Rightarrow>
                  let st' = st\<lparr>s_r := r, s_theta := theta, s_going_up := going_up,
                               s_distances := s_distances st @ [theta * R_E],
                               s_altitudes := s_altitudes st @ [r - R_E]\<rparr>
                  in if theta * R_E > max_distance_km then Inl (result_path st' ''stops'')
                     else Inr st')"

text \<open>The conserved ray parameter \<^verbatim>\<open>b\<close> of the 1D tracers.\<close>

definition ray_parameter_1D :: "real \<Rightarrow> real \<Rightarrow> (real \<Rightarrow> real) \<Rightarrow> real" where
  "ray_parameter_1D freq_Hz psi_0 ionosphere_func =
     (let r = R_E;
          z0 = 0.0;
          Ne0 = ionosphere_func z0;
          nu0 = collisionFrequency z0;
          n0 = real_c (refractiveIndex Ne0 freq_Hz nu0)
      in n0 * r * sin psi_0)"

definition init_path :: ray_state where
  "init_path =
     \<lparr>s_r = R_E, s_theta = 0.0, s_going_up = True, s_distances = [0.0], s_altitudes = [0.0]\<rparr>"

text \<open>The loop of the tracer, started on its initial values.\<close>

definition run_path ::
  "real \<Rightarrow> real \<Rightarrow> (real \<Rightarrow> real) \<Rightarrow> real \<Rightarrow> nat \<times> (RayTraceResult + ray_state)" where
  "run_path freq_MHz elevation_deg ionosphere_func max_distance_km =
     (let freq_Hz = freq_MHz * 1000000;
          psi_0 = elevation_deg * pi / 180.0;
          b = ray_parameter_1D freq_Hz psi_0 ionosphere_func;
          max_steps = \<lfloor>max_distance_km / step_km\<rfloor>
      in for_loop max_steps (body_path freq_Hz b ionosphere_func max_distance_km) 0 init_path)"

definition traceRaySphericalWithPath ::
  "real \<Rightarrow> real \<Rightarrow> (real \<Rightarrow> real) \<Rightarrow> real \<Rightarrow> RayTraceResult" where
  "traceRaySphericalWithPath freq_MHz elevation_deg ionosphere_func max_distance_km =
     (case snd (run_path freq_MHz elevation_deg ionosphere_func max_distance_km) of
        Inl res \<Rightarrow> res
      | Inr st \<Rightarrow> result_path st ''stops'')"

subsection \<open>traceRayWithAbsorption\<close>

definition result_abs :: "ray_state_abs \<Rightarrow> string \<Rightarrow> RayTraceResult" where
  "result_abs st s =
     \<lparr>distances = s_distances st, altitudes = s_altitudes st, azimuths = None,
      total_loss_dB = Some (s_total_loss_nepers st * 8.686), status = s\<rparr>"

definition body_abs ::
  "real \<Rightarrow> real \<Rightarrow> (real \<Rightarrow> real) \<Rightarrow> real \<Rightarrow> nat \<Rightarrow> ray_state_abs
     \<Rightarrow> RayTraceResult + ray_state_abs" where
  "body_abs freq_Hz b ionosphere_func max_distance_km step st =
     (let omega = 2.0 * pi * freq_Hz;
          z = s_r st - R_E
      in if z < 0.0 \<and> step > 10 then Inl (result_abs st ''returns'')
         else
           let n_complex = n_complex_1D freq_Hz ionosphere_func z;
               n_real = real_c n_complex;
               n2_real = real_c (n_squared n_complex);
               alpha_v = alpha omega n_complex
           in case ray_step z b (s_r st) (s_theta st) (s_going_up st) n_real n2_real of
                None \<Rightarrow> Inl (result_abs st ''escapes'')
              | Some (going_up, sin_psi, adaptive_step_v, r, theta) \<Rightarrow>
                  let path_length_m = adaptive_step_v * 1000.0;
                      st' = st\<lparr>s_r := r, s_theta := theta, s_going_up := going_up,
                               s_distances := s_distances st @ [theta * R_E],
                               s_altitudes := s_altitudes st @ [r - R_E],
                               s_total_loss_nepers :=
                                 s_total_loss_nepers st + alpha_v * path_length_m\<rparr>
                  in if theta * R_E > max_distance_km then Inl (result_abs st' ''stops'')
                     else Inr st')"

definition init_abs :: ray_state_abs where
  "init_abs =
     \<lparr>s_r = R_E, s_theta = 0.0, s_going_up = True, s_distances = [0.0], s_altitudes = [0.0],
      s_total_loss_nepers = 0.0\<rparr>"

definition run_abs ::
  "real \<Rightarrow> real \<Rightarrow> (real \<Rightarrow> real) \<Rightarrow> real \<Rightarrow> nat \<times> (RayTraceResult + ray_state_abs)" where
  "run_abs freq_MHz elevation_deg ionosphere_func max_distance_km =
     (let freq_Hz = freq_MHz * 1000000;
          psi_0 = elevation_deg * pi / 180.0;
          b = ray_parameter_1D freq_Hz psi_0 ionosphere_func;
          max_steps = \<lfloor>max_distance_km / step_km\<rfloor>
      in for_loop max_steps (body_abs freq_Hz b ionosphere_func max_distance_km) 0 init_abs)"

definition traceRayWithAbsorption ::
  "real \<Rightarrow> real \<Rightarrow> (real \<Rightarrow> real) \<Rightarrow> real \<Rightarrow> RayTraceResult" where
  "traceRayWithAbsorption freq_MHz elevation_deg ionosphere_func max_distance_km =
     (case snd (run_abs freq_MHz elevation_deg ionosphere_func max_distance_km) of
        Inl res \<Rightarrow> res
      | Inr st \<Rightarrow> result_abs st ''stops'')"

subsection \<open>traceRay2DWithTilts\<close>

definition result_tilts :: "ray_state_2d \<Rightarrow> string \<Rightarrow> RayTraceResult" where
  "result_tilts st s =
     \<lparr>distances = s_distances st, altitudes = s_altitudes st,
      azimuths = Some (map (\<lambda>a. a * 180.0 / pi) (s_azimuths st)),
      total_loss_dB = None, status = s\<rparr>"

definition body_tilts ::
  "real \<Rightarrow> real \<Rightarrow> real \<Rightarrow> real \<Rightarrow> real \<Rightarrow> string \<Rightarrow> real \<Rightarrow> nat \<Rightarrow> ray_state_2d
     \<Rightarrow> RayTraceResult + ray_state_2d" where
  "body_tilts freq_Hz b foF2_at_tx foF2_at_distance tilt_distance season max_distance_km step st =
     (let z = s_r st - R_E
      in if z < 0.0 \<and> step > 10 then Inl (result_tilts st ''returns'')
         else
           let gri = getRefractiveIndex freq_Hz foF2_at_tx foF2_at_distance tilt_distance season;
               n_complex = gri z (s_x st);
               n_real = real_c n_complex;
               n2_real = real_c (n_squared n_complex);
               dn_dx_v = dn_dx gri z (s_x st) n_real
           in case ray_step z b (s_r st) (s_theta st) (s_going_up st) n_real n2_real of
                None \<Rightarrow> Inl (result_tilts st ''escapes'')
              | Some (going_up, sin_psi, adaptive_step_v, r, theta) \<Rightarrow>
                  let dphi_v = dphi dn_dx_v n_real sin_psi adaptive_step_v;
                      d_theta = adaptive_step_v * sin_psi / s_r st;
                      x = s_x st + \<bar>d_theta * R_E\<bar>;
                      phi = s_phi st + dphi_v;
                      st' = st\<lparr>s_r := r, s_theta := theta, s_going_up := going_up,
                               s_distances := s_distances st @ [theta * R_E],
                               s_altitudes := s_altitudes st @ [r - R_E],
                               s_x := x, s_phi := phi,
                               s_azimuths := s_azimuths st @ [phi]\<rparr>
                  in if x > max_distance_km then Inl (result_tilts st' ''stops'')
                     else Inr st')"

text \<open>The conserved ray parameter \<^verbatim>\<open>b\<close> of the 2D tracers.\<close>

definition ray_parameter_2D ::
  "real \<Rightarrow> real \<Rightarrow> real \<Rightarrow> real \<Rightarrow> real \<Rightarrow> string \<Rightarrow> real" where
  "ray_parameter_2D freq_Hz psi_0 foF2_at_tx foF2_at_distance tilt_distance season =
     (let r = R_E;
          n_0 = real_c (getRefractiveIndex freq_Hz foF2_at_tx foF2_at_distance tilt_distance
                          season 0.0 0.0)
      in n_0 * r * sin psi_0)"

definition init_tilts :: ray_state_2d where
  "init_tilts =
     \<lparr>s_r = R_E, s_theta = 0.0, s_going_up = True, s_distances = [0.0], s_altitudes = [0.0],
      s_x = 0.0, s_phi = 0.0, s_azimuths = [0.0]\<rparr>"

definition run_tilts ::
  "real \<Rightarrow> real \<Rightarrow> real \<Rightarrow> real \<Rightarrow> real \<Rightarrow> real \<Rightarrow> string
     \<Rightarrow> nat \<times> (RayTraceResult + ray_state_2d)" where
  "run_tilts freq_MHz elevation_deg foF2_at_tx foF2_at_distance tilt_distance max_distance_km
       season =
     (let freq_Hz = freq_MHz * 1000000;
          psi_0 = elevation_deg * pi / 180.0;
          b = ray_parameter_2D freq_Hz psi_0 foF2_at_tx foF2_at_distance tilt_distance season;
          max_steps = \<lfloor>max_distance_km / step_km\<rfloor>
      in for_loop max_steps
           (body_tilts freq_Hz b foF2_at_tx foF2_at_distance tilt_distance season max_distance_km)
           0 init_tilts)"

definition traceRay2DWithTilts ::
  "real \<Rightarrow> real \<Rightarrow> real \<Rightarrow> real \<Rightarrow> real \<Rightarrow> real \<Rightarrow> string \<Rightarrow> RayTraceResult" where
  "traceRay2DWithTilts freq_MHz elevation_deg foF2_at_tx foF2_at_distance tilt_distance
       max_distance_km season =
     (case snd (run_tilts freq_MHz elevation_deg foF2_at_tx foF2_at_distance tilt_distance
                   max_distance_km season) of
        Inl res \<Rightarrow> res
      | Inr st \<Rightarrow> result_tilts st ''stops'')"

subsection \<open>traceRay2DWithAbsorption\<close>

definition result_2d_abs :: "ray_state_2d_abs \<Rightarrow> string \<Rightarrow> RayTraceResult" where
  "result_2d_abs st s =
     \<lparr>distances = s_distances st, altitudes = s_altitudes st,
      azimuths = Some (map (\<lambda>a. a * 180.0 / pi) (s_azimuths st)),
      total_loss_dB = Some (s_total_loss_nepers_2d st * 8.686), status = s\<rparr>"

definition body_2d_abs ::
  "real \<Rightarrow> real \<Rightarrow> real \<Rightarrow> real \<Rightarrow> real \<Rightarrow> string \<Rightarrow> real \<Rightarrow> nat \<Rightarrow> ray_state_2d_abs
     \<Rightarrow> RayTraceResult + ray_state_2d_abs" where
  "body_2d_abs freq_Hz b foF2_at_tx foF2_at_distance tilt_distance season max_distance_km step st =
     (let omega = 2.0 * pi * freq_Hz;
          z = s_r st - R_E
      in if z < 0.0 \<and> step > 10 then Inl (result_2d_abs st ''returns'')
         else
           let gri = getRefractiveIndex freq_Hz foF2_at_tx foF2_at_distance tilt_distance season;
               n_complex = gri z (s_x st);
               n_real = real_c n_complex;
               n2_real = real_c (n_squared n_complex);
               alpha_v = alpha omega n_complex;
               dn_dx_v = dn_dx gri z (s_x st) n_real
           in case ray_step z b (s_r st) (s_theta st) (s_going_up st) n_real n2_real of
                None \<Rightarrow> Inl (result_2d_abs st ''escapes'')
              | Some (going_up, sin_psi, adaptive_step_v, r, theta) \<Rightarrow>
                  let path_length_m = adaptive_step_v * 1000.0;
                      dphi_v = dphi dn_dx_v n_real sin_psi adaptive_step_v;
                      d_theta = adaptive_step_v * sin_psi / s_r st;
                      x = s_x st + \<bar>d_theta * R_E\<bar>;
                      phi = s_phi st + dphi_v;
                      st' = st\<lparr>s_r := r, s_theta := theta, s_going_up := going_up,
                               s_distances := s_distances st @ [theta * R_E],
                               s_altitudes := s_altitudes st @ [r - R_E],
                               s_x := x, s_phi := phi,
                               s_azimuths := s_azimuths st @ [phi],
                               s_total_loss_nepers_2d :=
                                 s_total_loss_nepers_2d st + alpha_v * path_length_m\<rparr>
                  in if x > max_distance_km then Inl (result_2d_abs st' ''stops'')
                     else Inr st')"

definition init_2d_abs :: ray_state_2d_abs where
  "init_2d_abs =
     \<lparr>s_r = R_E, s_theta = 0.0, s_going_up = True, s_distances = [0.0], s_altitudes = [0.0],
      s_x = 0.0, s_phi = 0.0, s_azimuths = [0.0], s_total_loss_nepers_2d = 0.0\<rparr>"

definition run_2d_abs ::
  "real \<Rightarrow> real \<Rightarrow> real \<Rightarrow> real \<Rightarrow> real \<Rightarrow> real \<Rightarrow> string
     \<Rightarrow> nat \<times> (RayTraceResult + ray_state_2d_abs)" where
  "run_2d_abs freq_MHz elevation_deg foF2_at_tx foF2_at_distance tilt_distance max_distance_km
       season =
     (let freq_Hz = freq_MHz * 1000000;
          psi_0 = elevation_deg * pi / 180.0;
          b = ray_parameter_2D freq_Hz psi_0 foF2_at_tx foF2_at_distance tilt_distance season;
          max_steps = \<lfloor>max_distance_km / step_km\<rfloor>
      in for_loop max_steps
           (body_2d_abs freq_Hz b foF2_at_tx foF2_at_distance tilt_distance season max_distance_km)
           0 init_2d_abs)"

definition traceRay2DWithAbsorption ::
  "real \<Rightarrow> real \<Rightarrow> real \<Rightarrow> real \<Rightarrow> real \<Rightarrow> real \<Rightarrow> string \<Rightarrow> RayTraceResult" where
  "traceRay2DWithAbsorption freq_MHz elevation_deg foF2_at_tx foF2_at_distance tilt_distance
       max_distance_km season =
     (case snd (run_2d_abs freq_MHz elevation_deg foF2_at_tx foF2_at_distance tilt_distance
                   max_distance_km season) of
        Inl res \<Rightarrow> res
      | Inr st \<Rightarrow> result_2d_abs st ''stops'')"

section \<open>The refractive index and the path tracer on numbers with Infinity and NaN\<close>

text \<open>
  A second embedding of \<^verbatim>\<open>collisionFrequency\<close>, \<^verbatim>\<open>plasmaFrequencyFromNe\<close>,
  \<^verbatim>\<open>refractiveIndex\<close> and \<^verbatim>\<open>traceRaySphericalWithPath\<close>, on JavaScript numbers with
  their special values: a number is a real number, \<^verbatim>\<open>Infinity\<close>, \<^verbatim>\<open>-Infinity\<close> or
  \<^verbatim>\<open>NaN\<close>. An operation whose exact result is larger than the largest double gives
  an infinity, a division by zero gives an infinity or \<^verbatim>\<open>NaN\<close>, a comparison with
  \<^verbatim>\<open>NaN\<close> is false. Rounding, underflow and the sign of zero are not modelled (zero
  is \<open>+0\<close>).
\<close>

datatype js_number = Fin real | PInf | NInf | NaN

definition max_double :: real where
  "max_double = (2 - 1 / 2 ^ 52) * 2 ^ 1023"

text \<open>A finite exact result as a double: an infinity when it is out of range.\<close>

definition overflow :: "real \<Rightarrow> js_number" where
  "overflow x = (if x > max_double then PInf else if x < - max_double then NInf else Fin x)"

fun js_neg :: "js_number \<Rightarrow> js_number" where
  "js_neg (Fin a) = Fin (- a)"
| "js_neg PInf = NInf"
| "js_neg NInf = PInf"
| "js_neg NaN = NaN"

fun js_add :: "js_number \<Rightarrow> js_number \<Rightarrow> js_number" where
  "js_add NaN y = NaN"
| "js_add x NaN = NaN"
| "js_add (Fin a) (Fin b) = overflow (a + b)"
| "js_add PInf NInf = NaN"
| "js_add NInf PInf = NaN"
| "js_add PInf y = PInf"
| "js_add NInf y = NInf"
| "js_add x PInf = PInf"
| "js_add x NInf = NInf"

definition js_sub :: "js_number \<Rightarrow> js_number \<Rightarrow> js_number" where
  "js_sub x y = js_add x (js_neg y)"

fun js_mul :: "js_number \<Rightarrow> js_number \<Rightarrow> js_number" where
  "js_mul NaN y = NaN"
| "js_mul x NaN = NaN"
| "js_mul (Fin a) (Fin b) = overflow (a * b)"
| "js_mul (Fin a) PInf = (if a = 0 then NaN else if 0 < a then PInf else NInf)"
| "js_mul (Fin a) NInf = (if a = 0 then NaN else if 0 < a then NInf else PInf)"
| "js_mul PInf (Fin b) = (if b = 0 then NaN else if 0 < b then PInf else NInf)"
| "js_mul NInf (Fin b) = (if b = 0 then NaN else if 0 < b then NInf else PInf)"
| "js_mul PInf PInf = PInf"
| "js_mul PInf NInf = NInf"
| "js_mul NInf PInf = NInf"
| "js_mul NInf NInf = PInf"

fun js_div :: "js_number \<Rightarrow> js_number \<Rightarrow> js_number" where
  "js_div NaN y = NaN"
| "js_div x NaN = NaN"
| "js_div (Fin a) (Fin b) =
     (if b = 0 then (if a = 0 then NaN else if 0 < a then PInf else NInf)
      else overflow (a / b))"
| "js_div (Fin a) PInf = Fin 0"
| "js_div (Fin a) NInf = Fin 0"
| "js_div PInf (Fin b) = (if 0 \<le> b then PInf else NInf)"
| "js_div NInf (Fin b) = (if 0 \<le> b then NInf else PInf)"
| "js_div PInf PInf = NaN"
| "js_div PInf NInf = NaN"
| "js_div NInf PInf = NaN"
| "js_div NInf NInf = NaN"

text \<open>\<^verbatim>\<open>Math.pow(v, 2)\<close>.\<close>

definition js_pow2 :: "js_number \<Rightarrow> js_number" where
  "js_pow2 v = js_mul v v"

fun js_sqrt :: "js_number \<Rightarrow> js_number" where
  "js_sqrt (Fin a) = (if a < 0 then NaN else Fin (sqrt a))"
| "js_sqrt PInf = PInf"
| "js_sqrt NInf = NaN"
| "js_sqrt NaN = NaN"

fun js_abs :: "js_number \<Rightarrow> js_number" where
  "js_abs (Fin a) = Fin \<bar>a\<bar>"
| "js_abs PInf = PInf"
| "js_abs NInf = PInf"
| "js_abs NaN = NaN"

fun js_sign :: "js_number \<Rightarrow> js_number" where
  "js_sign (Fin a) = Fin (sgn a)"
| "js_sign PInf = Fin 1"
| "js_sign NInf = Fin (- 1)"
| "js_sign NaN = NaN"

fun js_exp :: "js_number \<Rightarrow> js_number" where
  "js_exp (Fin a) = overflow (exp a)"
| "js_exp PInf = PInf"
| "js_exp NInf = Fin 0"
| "js_exp NaN = NaN"

fun js_sin :: "js_number \<Rightarrow> js_number" where
  "js_sin (Fin a) = Fin (sin a)"
| "js_sin x = NaN"

fun js_cos :: "js_number \<Rightarrow> js_number" where
  "js_cos (Fin a) = Fin (cos a)"
| "js_cos x = NaN"

fun js_atan2 :: "js_number \<Rightarrow> js_number \<Rightarrow> js_number" where
  "js_atan2 NaN x = NaN"
| "js_atan2 y NaN = NaN"
| "js_atan2 (Fin y) (Fin x) = Fin (atan2 y x)"
| "js_atan2 (Fin y) PInf = Fin 0"
| "js_atan2 (Fin y) NInf = (if 0 \<le> y then Fin pi else Fin (- pi))"
| "js_atan2 PInf (Fin x) = Fin (pi / 2)"
| "js_atan2 NInf (Fin x) = Fin (- (pi / 2))"
| "js_atan2 PInf PInf = Fin (pi / 4)"
| "js_atan2 PInf NInf = Fin (3 * pi / 4)"
| "js_atan2 NInf PInf = Fin (- (pi / 4))"
| "js_atan2 NInf NInf = Fin (- (3 * pi / 4))"

text \<open>The comparisons \<^verbatim>\<open><\<close> and \<^verbatim>\<open><=\<close>; \<^verbatim>\<open>x > y\<close> is \<open>js_lt y x\<close>, \<^verbatim>\<open>x >= y\<close> is \<open>js_le y x\<close>.\<close>

fun js_lt :: "js_number \<Rightarrow> js_number \<Rightarrow> bool" where
  "js_lt (Fin a) (Fin b) = (a < b)"
| "js_lt (Fin a) PInf = True"
| "js_lt NInf (Fin b) = True"
| "js_lt NInf PInf = True"
| "js_lt x y = False"

fun js_le :: "js_number \<Rightarrow> js_number \<Rightarrow> bool" where
  "js_le (Fin a) (Fin b) = (a \<le> b)"
| "js_le (Fin a) PInf = True"
| "js_le NInf (Fin b) = True"
| "js_le NInf PInf = True"
| "js_le PInf PInf = True"
| "js_le NInf NInf = True"
| "js_le x y = False"

fun js_max :: "js_number \<Rightarrow> js_number \<Rightarrow> js_number" where
  "js_max NaN y = NaN"
| "js_max x NaN = NaN"
| "js_max x y = (if js_lt x y then y else x)"

definition collisionFrequency_js :: "js_number \<Rightarrow> js_number" where
  "collisionFrequency_js z =
     (if js_lt z (Fin 90.0) then
        js_mul (Fin 350000) (js_exp (js_div (js_neg (js_sub z (Fin 70.0))) (Fin 8.0)))
      else if js_lt z (Fin 150.0) then
        js_mul (Fin 100000) (js_exp (js_div (js_neg (js_sub z (Fin 90.0))) (Fin 20.0)))
      else Fin 1000)"

definition plasmaFrequencyFromNe_js :: "js_number \<Rightarrow> js_number" where
  "plasmaFrequencyFromNe_js Ne =
     (let e = Fin (1.602176634 / 10 ^ 19);
          m_e = Fin (9.1093837015 / 10 ^ 31);
          eps_0 = Fin (8.8541878128 / 10 ^ 12)
      in js_div (js_sqrt (js_div (js_mul (js_mul Ne e) e) (js_mul eps_0 m_e)))
           (js_mul (Fin 2.0) (Fin pi)))"

record js_complex =
  real_j :: js_number
  imag_j :: js_number

definition refractiveIndex_js :: "js_number \<Rightarrow> js_number \<Rightarrow> js_number \<Rightarrow> js_complex" where
  "refractiveIndex_js Ne freq_Hz nu =
     (let omega = js_mul (js_mul (Fin 2.0) (Fin pi)) freq_Hz;
          omega_p = js_mul (js_mul (Fin 2.0) (Fin pi)) (plasmaFrequencyFromNe_js Ne);
          X = js_pow2 (js_div omega_p omega);
          Z = js_div nu omega;
          denom = js_add (Fin 1.0) (js_mul Z Z);
          n_sq_real = js_sub (Fin 1.0) (js_div X denom);
          n_sq_imag = js_div (js_mul X Z) denom;
          magnitude = js_sqrt (js_sqrt (js_add (js_mul n_sq_real n_sq_real)
                                              (js_mul n_sq_imag n_sq_imag)));
          phase = js_div (js_atan2 n_sq_imag n_sq_real) (Fin 2.0)
      in \<lparr>real_j = js_mul magnitude (js_cos phase), imag_j = js_mul magnitude (js_sin phase)\<rparr>)"

record js_ray_state =
  j_r :: js_number
  j_theta :: js_number
  j_going_up :: bool
  j_distances :: "js_number list"
  j_altitudes :: "js_number list"

record js_result =
  distances_js :: "js_number list"
  altitudes_js :: "js_number list"
  status_js :: string

definition result_path_js :: "js_ray_state \<Rightarrow> string \<Rightarrow> js_result" where
  "result_path_js st s =
     \<lparr>distances_js = j_distances st, altitudes_js = j_altitudes st, status_js = s\<rparr>"

definition body_path_js ::
  "js_number \<Rightarrow> js_number \<Rightarrow> (js_number \<Rightarrow> js_number) \<Rightarrow> js_number \<Rightarrow> nat \<Rightarrow> js_ray_state
     \<Rightarrow> js_result + js_ray_state" where
  "body_path_js freq_Hz b ionosphere_func max_distance_km step st =
     (let z = js_sub (j_r st) (Fin R_E)
      in if js_lt z (Fin 0.0) \<and> step > 10 then Inl (result_path_js st ''returns'')
         else
           let Ne = (if js_le (Fin 0) z then ionosphere_func z else Fin 0);
               nu = collisionFrequency_js (js_max (Fin 0) z);
               n_complex = refractiveIndex_js Ne freq_Hz nu;
               n_real = real_j n_complex;
               n2_real = js_sub (js_mul (real_j n_complex) (real_j n_complex))
                           (js_mul (imag_j n_complex) (imag_j n_complex));
               (going_up, sin_psi) =
                 (if js_lt (js_abs n_real) (Fin (1 / 10 ^ 8)) then (False, Fin 1.0)
                  else (if js_le n2_real (Fin 0) then False else j_going_up st,
                        js_div b (js_mul n_real (j_r st))))
           in if js_le (Fin 1.0) (js_abs sin_psi) \<and> js_lt (Fin 600) z \<and> going_up then
                Inl (result_path_js st ''escapes'')
              else
                let (going_up, sin_psi) =
                      (if js_le (Fin 1.0) (js_abs sin_psi) then
                         (False, js_mul (js_sign sin_psi) (Fin 0.999))
                       else (going_up, sin_psi))
                in if js_lt (Fin 800) z \<and> going_up then Inl (result_path_js st ''escapes'')
                   else
                     let cos_psi = js_sqrt (js_sub (Fin 1) (js_mul sin_psi sin_psi));
                         adaptive_step_v =
                           (if js_lt n_real (Fin 0.1) \<or> js_lt (Fin 0.95) (js_abs sin_psi) then
                              js_mul (Fin step_km) (Fin 0.5)
                            else Fin step_km);
                         dr = js_mul (js_mul adaptive_step_v cos_psi)
                                (if going_up then Fin 1 else Fin (- 1));
                         d_theta = js_div (js_mul adaptive_step_v sin_psi) (j_r st);
                         r = js_add (j_r st) dr;
                         theta = js_add (j_theta st) d_theta;
                         st' = st\<lparr>j_r := r, j_theta := theta, j_going_up := going_up,
                                  j_distances := j_distances st @ [js_mul theta (Fin R_E)],
                                  j_altitudes := j_altitudes st @ [js_sub r (Fin R_E)]\<rparr>
                     in if js_lt max_distance_km (js_mul theta (Fin R_E)) then
                          Inl (result_path_js st' ''stops'')
                        else Inr st')"

text \<open>
  The tracer; \<open>max_distance_km\<close> is a finite number here, so that \<^verbatim>\<open>max_steps\<close> is an
  integer and the loop is the \<open>for_loop\<close> of the other embedding.
\<close>

definition traceRaySphericalWithPath_js ::
  "js_number \<Rightarrow> js_number \<Rightarrow> (js_number \<Rightarrow> js_number) \<Rightarrow> real \<Rightarrow> js_result" where
  "traceRaySphericalWithPath_js freq_MHz elevation_deg ionosphere_func max_distance_km =
     (let freq_Hz = js_mul freq_MHz (Fin 1000000);
          psi_0 = js_div (js_mul elevation_deg (Fin pi)) (Fin 180.0);
          r = Fin R_E;
          theta = Fin 0.0;
          z0 = Fin 0.0;
          Ne0 = ionosphere_func z0;
          nu0 = collisionFrequency_js z0;
          n0 = real_j (refractiveIndex_js Ne0 freq_Hz nu0);
          b = js_mul (js_mul n0 r) (js_sin psi_0);
          max_steps = \<lfloor>max_distance_km / step_km\<rfloor>
      in case snd (for_loop max_steps
                     (body_path_js freq_Hz b ionosphere_func (Fin max_distance_km)) 0
                     \<lparr>j_r = r, j_theta = theta, j_going_up = True, j_distances = [Fin 0.0],
                      j_altitudes = [Fin 0.0]\<rparr>) of
           Inl res \<Rightarrow> res
         | Inr st \<Rightarrow> result_path_js st ''stops'')"

section \<open>Predicates used in the proofs\<close>

text \<open>
  One completed iteration, as the four loop bodies perform it on the variables they
  share: the ground test did not fire, \<open>ray_step\<close> was run on a refractive index with
  a non-negative real part and produced the new \<^verbatim>\<open>going_up\<close>, \<^verbatim>\<open>r\<close> and \<^verbatim>\<open>theta\<close>, and
  one sample was pushed onto \<^verbatim>\<open>distances\<close> and onto \<^verbatim>\<open>altitudes\<close>.
\<close>

definition advances :: "real \<Rightarrow> nat \<Rightarrow> 'a ray_state_scheme \<Rightarrow> 'a ray_state_scheme \<Rightarrow> bool" where
  "advances b step st st' \<longleftrightarrow>
     \<not> (s_r st - R_E < 0 \<and> step > 10) \<and>
     (\<exists>n_real n2_real sin_psi a.
        0 \<le> n_real \<and>
        ray_step (s_r st - R_E) b (s_r st) (s_theta st) (s_going_up st) n_real n2_real
          = Some (s_going_up st', sin_psi, a, s_r st', s_theta st')) \<and>
     s_distances st' = s_distances st @ [s_theta st' * R_E] \<and>
     s_altitudes st' = s_altitudes st @ [s_r st' - R_E]"

text \<open>The path arrays run in parallel and start at the launch point.\<close>

definition shape_inv :: "'a ray_state_scheme \<Rightarrow> bool" where
  "shape_inv st \<longleftrightarrow>
     length (s_altitudes st) = length (s_distances st) \<and> s_distances st \<noteq> [] \<and>
     hd (s_distances st) = 0 \<and> hd (s_altitudes st) = 0"

definition azimuth_inv :: "'a ray_state_2d_scheme \<Rightarrow> bool" where
  "azimuth_inv st \<longleftrightarrow>
     length (s_azimuths st) = length (s_distances st) \<and> hd (s_azimuths st) = 0"

text \<open>
  At the start of iteration \<open>step\<close> the ray is at a positive radius (it can be below
  the ground only in the first iterations), the recorded distances are sorted and
  the last one is \<^verbatim>\<open>theta * R_E\<close>.
\<close>

definition mono_inv :: "nat \<Rightarrow> 'a ray_state_scheme \<Rightarrow> bool" where
  "mono_inv step st \<longleftrightarrow>
     R_E - real (min step 11) \<le> s_r st \<and> sorted (s_distances st) \<and>
     s_distances st \<noteq> [] \<and> last (s_distances st) = s_theta st * R_E"

section \<open>Properties of the physics model\<close>

lemma atan2_range: "- pi < atan2 y x \<and> atan2 y x \<le> pi"
proof -
  have lo: "- (pi / 2) < arctan (y / x)" and hi: "arctan (y / x) < pi / 2"
    by (rule arctan_lbound, rule arctan_ubound)
  show ?thesis
  proof (cases "x > 0")
    case True
    with lo hi show ?thesis by (simp add: atan2_def)
  next
    case False
    note nx = this
    show ?thesis
    proof (cases "x < 0")
      case xneg: True
      show ?thesis
      proof (cases "y \<ge> 0")
        case True
        with xneg have "y / x \<le> 0" by (simp add: divide_nonneg_neg)
        then have "arctan (y / x) \<le> 0" by (simp add: arctan_le_zero_iff)
        moreover have "atan2 y x = arctan (y / x) + pi"
          using True xneg by (simp add: atan2_def)
        ultimately show ?thesis using lo pi_gt_zero by linarith
      next
        case False
        with xneg have "0 < y / x" by (simp add: divide_neg_neg)
        then have "0 < arctan (y / x)" by (simp add: zero_less_arctan_iff)
        moreover have "atan2 y x = arctan (y / x) - pi"
          using False xneg by (simp add: atan2_def)
        ultimately show ?thesis using hi pi_gt_zero by linarith
      qed
    next
      case False
      with nx have "x = 0" by simp
      then have eq: "atan2 y x = (if y > 0 then pi / 2 else if y < 0 then - (pi / 2) else 0)"
        by (simp add: atan2_def)
      consider "y > 0" | "y < 0" | "y = 0" by linarith
      then show ?thesis
      proof cases
        case 1
        with eq have "atan2 y x = pi / 2" by simp
        then show ?thesis using pi_gt_zero by linarith
      next
        case 2
        with eq have "atan2 y x = - (pi / 2)" by simp
        then show ?thesis using pi_gt_zero by linarith
      next
        case 3
        with eq have "atan2 y x = 0" by simp
        then show ?thesis using pi_gt_zero by linarith
      qed
    qed
  qed
qed

lemma cos_half_atan2_nonneg: "0 \<le> cos (atan2 y x / 2)"
proof -
  from atan2_range [of y x] have "- (pi / 2) \<le> atan2 y x / 2" "atan2 y x / 2 \<le> pi / 2"
    by simp_all
  then show ?thesis by (rule cos_ge_zero)
qed

lemma principal_root_real_nonneg:
  "0 \<le> sqrt (sqrt (a * a + b * b)) * cos (atan2 b a / 2.0)"
  using cos_half_atan2_nonneg [of b a] by (intro mult_nonneg_nonneg) simp_all

lemma refractiveIndex_real_nonneg: "0 \<le> real_c (refractiveIndex Ne freq_Hz nu)"
  by (simp only: refractiveIndex_def Let_def complex_n.simps) (rule principal_root_real_nonneg)

lemma plasmaFrequencyFromNe_zero: "plasmaFrequencyFromNe 0 = 0"
  by (simp add: plasmaFrequencyFromNe_def)

lemma atan2_zero_one: "atan2 0 1 = 0"
  by (simp add: atan2_def)

lemma refractiveIndex_no_plasma:
  "refractiveIndex 0 freq_Hz nu = \<lparr>real_c = 1, imag_c = 0\<rparr>"
  by (simp add: refractiveIndex_def plasmaFrequencyFromNe_zero atan2_zero_one)

text \<open>
  C6. For every altitude array, every foF2 and every season string other than
  \<open>''winter''\<close> and \<open>''summer''\<close>, \<open>makeIonosphereForFoF2\<close> returns the densities it
  returns for \<open>''equinox''\<close>.
\<close>

theorem C6_unrecognized_season_is_equinox:
  "season \<noteq> ''winter'' \<Longrightarrow> season \<noteq> ''summer'' \<Longrightarrow>
   makeIonosphereForFoF2 z foF2 season = makeIonosphereForFoF2 z foF2 ''equinox''"
  by (simp add: makeIonosphereForFoF2_def h_F2_def seasonal_offset_def F2_scale_height_def)

theorem C6_unrecognized_season_is_equinox_witness:
  "''spring'' \<noteq> ''winter'' \<and> ''spring'' \<noteq> ''summer'' \<and>
   makeIonosphereForFoF2 [0, 110, 300] 12 ''spring''
     = makeIonosphereForFoF2 [0, 110, 300] 12 ''equinox''"
  using C6_unrecognized_season_is_equinox [of "''spring''" "[0, 110, 300]" 12] by simp

lemma chapmanLayer_zero_peak: "chapmanLayer z 0 z_peak H = map (\<lambda>altitude. 0) z"
  by (simp add: chapmanLayer_def)

lemma chapmanLayer_nth:
  "i < length z \<Longrightarrow> chapmanLayer z N_peak z_peak H ! i = chapmanLayerSingle (z ! i) N_peak z_peak H"
  by (simp add: chapmanLayer_def chapmanLayerSingle_def)

lemma length_chapmanLayer: "length (chapmanLayer z N_peak z_peak H) = length z"
  by (simp add: chapmanLayer_def)

lemma chapmanLayerSingle_zero_peak: "chapmanLayerSingle a 0 z_peak H = 0"
  by (simp add: chapmanLayerSingle_def)

lemma makeIonosphereForFoF2_layers:
  "makeIonosphereForFoF2 z foF2 season =
     map (\<lambda>altitude.
            chapmanLayerSingle altitude (Ne_D_peak foF2) 75.0 8.0
          + chapmanLayerSingle altitude (Ne_E_peak foF2) 110.0 15.0
          + chapmanLayerSingle altitude (Ne_F1_peak foF2) 190.0 30.0
          + chapmanLayerSingle altitude (Ne_F2_peak foF2) (h_F2 foF2 season)
              (F2_scale_height foF2 season)) z"
  by (rule nth_equalityI) (simp_all add: makeIonosphereForFoF2_def Let_def chapmanLayer_nth length_chapmanLayer)

text \<open>
  C7. At \<open>foF2 = 4.0\<close> MHz (night), \<open>D_factor\<close> and \<open>F1_factor\<close> are exactly 0, the D
  layer and the F1 layer are zero at every altitude, and the total density is the
  sum of the E-layer and the F2-layer Chapman evaluations alone.
\<close>

theorem C7_night_regime_no_D_no_F1:
  "D_factor 4.0 = 0 \<and> F1_factor 4.0 = 0
   \<and> chapmanLayer z (Ne_D_peak 4.0) 75.0 8.0 = map (\<lambda>altitude. 0) z
   \<and> chapmanLayer z (Ne_F1_peak 4.0) 190.0 30.0 = map (\<lambda>altitude. 0) z
   \<and> makeIonosphereForFoF2 z 4.0 season =
       map (\<lambda>altitude.
              chapmanLayerSingle altitude (Ne_E_peak 4.0) 110.0 15.0
            + chapmanLayerSingle altitude (Ne_F2_peak 4.0) (h_F2 4.0 season)
                (F2_scale_height 4.0 season)) z"
proof -
  have D: "D_factor 4 = 0" and F1: "F1_factor 4 = 0"
    by (simp_all add: D_factor_def F1_factor_def)
  have DP: "Ne_D_peak 4 = 0" and F1P: "Ne_F1_peak 4 = 0"
    using D F1 by (simp_all add: Ne_D_peak_def Ne_F1_peak_def)
  show ?thesis
    using D F1
    by (simp add: makeIonosphereForFoF2_layers DP F1P chapmanLayer_zero_peak
        chapmanLayerSingle_zero_peak)
qed

section \<open>The refractive index on numbers with Infinity and NaN\<close>

text \<open>
  The largest double lies between \<open>10\<^sup>300\<close> and \<open>10\<^sup>309\<close>; an exact result of magnitude
  at most \<open>10\<^sup>100\<close> is the result.
\<close>

lemma max_double_ge: "10 ^ 300 \<le> max_double"
  by (simp add: max_double_def)

lemma max_double_lt: "max_double < 10 ^ 309"
  by (simp add: max_double_def)

lemma max_double_ge_small: "10 ^ 100 \<le> max_double"
proof -
  have "(10::real) ^ 100 \<le> 10 ^ 300" by (rule power_increasing) simp_all
  then show ?thesis using max_double_ge by (rule order_trans)
qed

lemma max_double_pos: "0 < max_double"
proof -
  have "(0::real) < 10 ^ 100" by (rule zero_less_power) simp
  then show ?thesis using max_double_ge_small by (rule less_le_trans)
qed

lemma overflow_Fin: "\<bar>x\<bar> \<le> 10 ^ 100 \<Longrightarrow> overflow x = Fin x"
proof -
  assume "\<bar>x\<bar> \<le> 10 ^ 100"
  then have "\<bar>x\<bar> \<le> max_double" using max_double_ge_small by (rule order_trans)
  then show ?thesis by (auto simp add: overflow_def abs_le_iff)
qed

lemma overflow_PInf: "max_double < x \<Longrightarrow> overflow x = PInf"
  by (simp add: overflow_def)

lemma overflow_0 [simp]: "overflow 0 = Fin 0"
  using max_double_pos by (simp add: overflow_def)

lemma overflow_1 [simp]: "overflow 1 = Fin 1"
  by (rule overflow_Fin) simp

lemma overflow_pos: "0 < x \<Longrightarrow> overflow x = Fin x \<or> overflow x = PInf"
  using max_double_pos by (auto simp add: overflow_def)

lemma overflow_nonneg: "0 \<le> x \<Longrightarrow> overflow x = Fin x \<or> overflow x = PInf"
  using max_double_pos by (auto simp add: overflow_def)

lemma overflow_nonneg_le [simp]: "0 \<le> x \<Longrightarrow> js_le (Fin 0) (overflow x)"
  using overflow_nonneg [of x] by auto

lemma js_add_NaN_right [simp]: "js_add x NaN = NaN"
  by (cases x) simp_all

lemma js_mul_NaN_right [simp]: "js_mul x NaN = NaN"
  by (cases x) simp_all

lemma js_div_NaN_right [simp]: "js_div x NaN = NaN"
  by (cases x) simp_all

lemma js_sub_NaN [simp]: "js_sub x NaN = NaN" "js_sub NaN y = NaN"
  by (simp_all add: js_sub_def)

lemma two_pi_le: "2 * pi \<le> 8" "0 < 2 * pi"
  using pi_less_4 pi_gt_zero by simp_all

lemma overflow_two_pi [simp]: "overflow (2 * pi) = Fin (2 * pi)"
  using two_pi_le by (intro overflow_Fin) simp

lemma two_pi_js: "js_mul (Fin 2.0) (Fin pi) = Fin (2 * pi)"
  by simp

text \<open>The angular frequency of a frequency in \<open>(0, 1]\<close> Hz.\<close>

lemma omega_js_small:
  assumes "0 < f" and "f \<le> 1"
  shows "js_mul (js_mul (Fin 2.0) (Fin pi)) (Fin f) = Fin (2 * pi * f)"
    and "0 < 2 * pi * f" and "2 * pi * f \<le> 8 * f"
proof -
  show pos: "0 < 2 * pi * f" using assms two_pi_le by simp
  show le: "2 * pi * f \<le> 8 * f" using assms two_pi_le by (intro mult_right_mono) simp_all
  have "2 * pi * f \<le> 8" using le assms(2) by linarith
  then have "\<bar>2 * pi * f\<bar> \<le> 8" using pos by (simp only: abs_of_pos)
  also have "(8::real) \<le> 10 ^ 100" by simp
  finally have "\<bar>2 * pi * f\<bar> \<le> 10 ^ 100" .
  then show "js_mul (js_mul (Fin 2.0) (Fin pi)) (Fin f) = Fin (2 * pi * f)"
    by (simp add: overflow_Fin)
qed

text \<open>Facts about the numbers \<open>1 / 10 ^ 300\<close> and \<open>10 ^ 309\<close>, with the powers not evaluated.\<close>

lemma tiny_pos: "(0::real) < 1 / 10 ^ 300"
  by (simp only: zero_less_divide_1_iff zero_less_power zero_less_numeral)

lemma tiny_le_1: "(1::real) / 10 ^ 300 \<le> 1"
proof -
  have "(1::real) \<le> 10 ^ 300" by (rule one_le_power) simp
  then show ?thesis by (simp only: divide_le_eq_1_pos zero_less_power zero_less_numeral)
qed

lemma pow_309: "(10::real) ^ 309 = 10 ^ 9 * 10 ^ 300"
proof -
  have "(10::real) ^ 309 = 10 ^ (9 + 300)" by (rule arg_cong [where f = "\<lambda>n. 10 ^ n"]) simp
  then show ?thesis by (simp only: power_add)
qed

lemma max_double_lt_ratio:
  assumes "10 ^ 9 \<le> a / c" and "0 < c"
  shows "max_double < a / (c * (1 / 10 ^ 300))"
    and "max_double < a / (c * (1 / 10 ^ 300) * (1 / 10 ^ 300))"
proof -
  define p :: real where "p = 10 ^ 300"
  have p: "1 \<le> p" unfolding p_def by (rule one_le_power) simp
  have ac: "0 \<le> a / c" using assms(1) by simp
  have 1: "max_double < 10 ^ 9 * p" using max_double_lt unfolding pow_309 p_def .
  have 2: "10 ^ 9 * p \<le> a / c * p" using assms(1) p by (intro mult_right_mono) simp_all
  have "0 \<le> a / c * p" using ac p by (intro mult_nonneg_nonneg) simp_all
  from mult_left_mono [OF p this] have 3: "a / c * p \<le> a / c * p * p"
    by (simp only: mult_1_right)
  have "max_double < a / c * p" using 1 2 by (rule less_le_trans)
  moreover have "a / c * p = a / (c * (1 / p))" using p assms(2) by simp
  ultimately have "max_double < a / (c * (1 / p))" by simp
  then show "max_double < a / (c * (1 / 10 ^ 300))" unfolding p_def .
  have "max_double < a / c * p * p" using 1 2 3 by linarith
  moreover have "a / c * p * p = a / (c * (1 / p) * (1 / p))" using p assms(2) by simp
  ultimately have "max_double < a / (c * (1 / p) * (1 / p))" by simp
  then show "max_double < a / (c * (1 / 10 ^ 300) * (1 / 10 ^ 300))" unfolding p_def .
qed

lemma plasmaFrequencyFromNe_js_zero: "plasmaFrequencyFromNe_js (Fin 0) = Fin 0"
proof -
  have "js_div (Fin 0) (Fin (2 * pi)) = Fin 0" using two_pi_le by simp
  then show ?thesis
    by (simp add: plasmaFrequencyFromNe_js_def two_pi_js overflow_Fin)
qed

lemma omega_p_js_zero:
  "js_mul (js_mul (Fin 2.0) (Fin pi)) (plasmaFrequencyFromNe_js (Fin 0)) = Fin 0"
  by (simp add: plasmaFrequencyFromNe_js_zero two_pi_js)

text \<open>The tail of \<open>refractiveIndex_js\<close> once \<open>X = 0\<close> and \<open>Z\<close> is a finite number.\<close>

lemma vacuum_tail:
  assumes "0 \<le> zeta"
  shows "(let X = Fin 0; Z = Fin zeta;
              denom = js_add (Fin 1.0) (js_mul Z Z);
              n_sq_real = js_sub (Fin 1.0) (js_div X denom);
              n_sq_imag = js_div (js_mul X Z) denom;
              magnitude = js_sqrt (js_sqrt (js_add (js_mul n_sq_real n_sq_real)
                                                  (js_mul n_sq_imag n_sq_imag)));
              phase = js_div (js_atan2 n_sq_imag n_sq_real) (Fin 2.0)
          in \<lparr>real_j = js_mul magnitude (js_cos phase), imag_j = js_mul magnitude (js_sin phase)\<rparr>)
         = \<lparr>real_j = Fin 1, imag_j = Fin 0\<rparr>"
proof -
  have zz: "js_mul (Fin zeta) (Fin zeta) = Fin (zeta * zeta) \<or> js_mul (Fin zeta) (Fin zeta) = PInf"
    using overflow_nonneg [of "zeta * zeta"] by simp
  have d: "(\<exists>d. 1 \<le> d \<and> js_add (Fin 1.0) (js_mul (Fin zeta) (Fin zeta)) = Fin d)
         \<or> js_add (Fin 1.0) (js_mul (Fin zeta) (Fin zeta)) = PInf"
  proof -
    from zz show ?thesis
    proof
      assume e: "js_mul (Fin zeta) (Fin zeta) = Fin (zeta * zeta)"
      have "1 \<le> 1 + zeta * zeta" by simp
      with overflow_pos [of "1 + zeta * zeta"] e show ?thesis by auto
    next
      assume "js_mul (Fin zeta) (Fin zeta) = PInf"
      then show ?thesis by simp
    qed
  qed
  have q: "js_div (Fin 0) (js_add (Fin 1.0) (js_mul (Fin zeta) (Fin zeta))) = Fin 0"
    using d by auto
  have xz: "js_mul (Fin 0) (Fin zeta) = Fin 0" by simp
  have at: "atan2 0 1 = 0" by (simp add: atan2_def)
  show ?thesis
    unfolding Let_def xz q
    by (simp add: js_sub_def at)
qed

lemma vacuum_finite:
  assumes "0 < f" and "0 < nu"
    and "js_div (Fin nu) (js_mul (js_mul (Fin 2.0) (Fin pi)) (Fin f)) \<noteq> PInf"
  shows "refractiveIndex_js (Fin 0) (Fin f) (Fin nu) = \<lparr>real_j = Fin 1.0, imag_j = Fin 0.0\<rparr>"
proof -
  define w where "w = 2 * pi * f"
  have pos: "0 < w" using assms(1) two_pi_le by (simp add: w_def)
  have om: "js_mul (js_mul (Fin 2.0) (Fin pi)) (Fin f) = overflow w"
    by (simp add: w_def)
  from overflow_pos [OF pos]
  obtain zeta where zeta: "0 \<le> zeta"
    and X: "js_pow2 (js_div (Fin 0) (overflow w)) = Fin 0"
    and Z: "js_div (Fin nu) (overflow w) = Fin zeta"
  proof
    assume e: "overflow w = Fin w"
    have "0 < nu / w" using assms(2) pos by simp
    from overflow_pos [OF this] assms(3) e pos
    have "js_div (Fin nu) (overflow w) = Fin (nu / w)"
      unfolding om by auto
    moreover have "js_pow2 (js_div (Fin 0) (overflow w)) = Fin 0"
      using e pos by (simp add: js_pow2_def)
    moreover have "0 \<le> nu / w" using assms(2) pos by simp
    ultimately show ?thesis using that by blast
  next
    assume e: "overflow w = PInf"
    then have "js_div (Fin nu) (overflow w) = Fin 0"
      and "js_pow2 (js_div (Fin 0) (overflow w)) = Fin 0"
      by (simp_all add: js_pow2_def)
    then show ?thesis using that [of 0] by simp
  qed
  show ?thesis
    unfolding refractiveIndex_js_def omega_p_js_zero om
    using vacuum_tail [OF zeta] X Z
    by (simp add: Let_def)
qed

lemma vacuum_infinite:
  assumes "0 < f"
    and "js_div (Fin nu) (js_mul (js_mul (Fin 2.0) (Fin pi)) (Fin f)) = PInf"
  shows "refractiveIndex_js (Fin 0) (Fin f) (Fin nu) = \<lparr>real_j = NaN, imag_j = NaN\<rparr>"
proof -
  define w where "w = 2 * pi * f"
  have pos: "0 < w" using assms(1) two_pi_le by (simp add: w_def)
  have om: "js_mul (js_mul (Fin 2.0) (Fin pi)) (Fin f) = overflow w"
    by (simp add: w_def)
  have fin: "overflow w = Fin w"
    using overflow_pos [OF pos] assms(2) unfolding om by auto
  have X: "js_pow2 (js_div (Fin 0) (Fin w)) = Fin 0"
    using pos by (simp add: js_pow2_def)
  show ?thesis
    unfolding refractiveIndex_js_def omega_p_js_zero om fin Let_def X
      assms(2) [unfolded om fin]
    by simp
qed

text \<open>
  C4, as amended. For every frequency \<open>f > 0\<close> and collision frequency \<open>\<nu> > 0\<close>,
  \<^verbatim>\<open>refractiveIndex(0, f, nu)\<close> is exactly \<^verbatim>\<open>{real: 1.0, imag: 0.0}\<close>, unless the
  quotient \<^verbatim>\<open>Z = nu / omega\<close> overflows to \<^verbatim>\<open>Infinity\<close>: then \<^verbatim>\<open>X * Z\<close> is
  \<^verbatim>\<open>0 * Infinity\<close> and the result is \<^verbatim>\<open>{real: NaN, imag: NaN}\<close>.
\<close>

theorem C4_refractiveIndex_vacuum:
  assumes "0 < f" and "0 < nu"
  shows "refractiveIndex_js (Fin 0) (Fin f) (Fin nu)
      = (if js_div (Fin nu) (js_mul (js_mul (Fin 2.0) (Fin pi)) (Fin f)) = PInf
         then \<lparr>real_j = NaN, imag_j = NaN\<rparr>
         else \<lparr>real_j = Fin 1.0, imag_j = Fin 0.0\<rparr>)"
  using vacuum_finite [OF assms] vacuum_infinite [OF assms(1), of nu]
  by (simp only: if_split simp_thms) blast

theorem C4_refractiveIndex_vacuum_witness:
  "(0::real) < 14000000 \<and> (0::real) < 1000
   \<and> refractiveIndex_js (Fin 0) (Fin 14000000) (Fin 1000) = \<lparr>real_j = Fin 1.0, imag_j = Fin 0.0\<rparr>"
proof -
  have a: "\<bar>2 * pi * 14000000\<bar> \<le> 10 ^ 100" using two_pi_le by simp
  have "1000 / (2 * pi * 14000000) \<le> 1000 / 1"
    using pi_ge_two by (intro divide_left_mono) simp_all
  then have b: "\<bar>1000 / (2 * pi * 14000000)\<bar> \<le> 10 ^ 100" by simp
  have nz: "js_div (Fin 1000) (js_mul (js_mul (Fin 2.0) (Fin pi)) (Fin 14000000)) \<noteq> PInf"
    using overflow_Fin [OF a] overflow_Fin [OF b] by (simp add: two_pi_js)
  have p: "(0::real) < 14000000" "(0::real) < 1000" by simp_all
  from C4_refractiveIndex_vacuum [OF p] nz p show ?thesis by (simp only: if_False simp_thms)
qed

lemma vacuum_overflow:
  assumes "0 < f" and "f \<le> 1" and "max_double < nu / (8 * f)"
  shows "refractiveIndex_js (Fin 0) (Fin f) (Fin nu) = \<lparr>real_j = NaN, imag_j = NaN\<rparr>"
proof -
  define w where "w = 2 * pi * f"
  note om = omega_js_small [OF assms(1,2), folded w_def]
  have nu: "0 < nu"
  proof (rule ccontr)
    assume "\<not> 0 < nu"
    then have "nu / (8 * f) \<le> 0" using assms(1) by (simp add: divide_nonpos_pos)
    then show False using assms(3) max_double_pos by linarith
  qed
  have "nu / (8 * f) \<le> nu / w"
    using om(2,3) nu assms(1) by (intro divide_left_mono) simp_all
  then have "max_double < nu / w" using assms(3) by linarith
  then have "js_div (Fin nu) (Fin w) = PInf"
    using om(2) by (simp add: overflow_PInf)
  then show ?thesis
    by (intro vacuum_infinite [OF assms(1)]) (simp only: om(1))
qed

text \<open>
  C4, as stated, fails: the frequency \<open>10\<^sup>-\<^sup>3\<^sup>0\<^sup>0\<close> Hz and the collision frequency
  \<open>10\<^sup>1\<^sup>0\<close> Hz are positive, \<^verbatim>\<open>Z\<close> would be about \<open>1.6 \<times> 10\<^sup>3\<^sup>0\<^sup>9\<close>, beyond the largest
  double, and both parts of the result are \<^verbatim>\<open>NaN\<close>.
\<close>

theorem C4_overflow_counterexample:
  "refractiveIndex_js (Fin 0) (Fin (1 / 10 ^ 300)) (Fin (10 ^ 10)) = \<lparr>real_j = NaN, imag_j = NaN\<rparr>"
proof -
  have "(10::real) ^ 9 \<le> 10 ^ 10 / 8" by simp
  then have "max_double < 10 ^ 10 / (8 * (1 / 10 ^ 300))"
    by (rule max_double_lt_ratio(1)) simp
  with tiny_pos tiny_le_1 show ?thesis by (rule vacuum_overflow)
qed

lemma js_sqrt_range: "js_sqrt x = NaN \<or> js_sqrt x = PInf \<or> (\<exists>r. 0 \<le> r \<and> js_sqrt x = Fin r)"
  by (cases x) auto

lemma js_atan2_range: "js_atan2 y x = NaN \<or> (\<exists>t. - pi \<le> t \<and> t \<le> pi \<and> js_atan2 y x = Fin t)"
proof -
  have fin: "\<exists>t. - pi \<le> t \<and> t \<le> pi \<and> Fin u = Fin t" if "- pi \<le> u" "u \<le> pi" for u
    using that by blast
  have a: "- pi \<le> atan2 a b" "atan2 a b \<le> pi" for a b
    using atan2_range [of a b] by simp_all
  have b: "- pi \<le> 3 * pi / 4" "3 * pi / 4 \<le> pi" "- pi \<le> - (3 * pi / 4)" "- (3 * pi / 4) \<le> pi"
    "- pi \<le> pi / 4" "pi / 4 \<le> pi" "- pi \<le> - (pi / 4)" "- (pi / 4) \<le> pi"
    "- pi \<le> pi / 2" "pi / 2 \<le> pi" "- pi \<le> - (pi / 2)" "- (pi / 2) \<le> pi"
    "- pi \<le> 0" "0 \<le> pi" "- pi \<le> pi" "- pi \<le> - pi"
    using pi_gt_zero by linarith+
  show ?thesis
    by (cases y; cases x) (simp_all only: js_atan2.simps fin a b simp_thms if_split, auto intro: fin a b)
qed

lemma js_half_angle_cos:
  "js_cos (js_div (js_atan2 y x) (Fin 2.0)) = NaN
   \<or> (\<exists>c. 0 \<le> c \<and> js_cos (js_div (js_atan2 y x) (Fin 2.0)) = Fin c)"
proof -
  from js_atan2_range [of y x] show ?thesis
  proof
    assume "js_atan2 y x = NaN"
    then show ?thesis by simp
  next
    assume "\<exists>t. - pi \<le> t \<and> t \<le> pi \<and> js_atan2 y x = Fin t"
    then obtain t where t: "- pi \<le> t" "t \<le> pi" "js_atan2 y x = Fin t" by blast
    have "\<bar>t / 2\<bar> \<le> 10 ^ 100" using t pi_less_4 by (simp add: abs_le_iff)
    then have "js_div (js_atan2 y x) (Fin 2.0) = Fin (t / 2)"
      using t(3) by (simp add: overflow_Fin)
    moreover have "0 \<le> cos (t / 2)" using t by (intro cos_ge_zero) simp_all
    ultimately show ?thesis by simp
  qed
qed

lemma js_mul_nonneg:
  assumes "m = NaN \<or> m = PInf \<or> (\<exists>r. 0 \<le> r \<and> m = Fin r)"
    and "c = NaN \<or> (\<exists>r. 0 \<le> r \<and> c = Fin r)"
  shows "js_mul m c = NaN \<or> js_le (Fin 0) (js_mul m c)"
  using assms by (auto split: if_splits)

lemma real_j_never_negative:
  "real_j (refractiveIndex_js Ne freq_Hz nu) = NaN
   \<or> js_le (Fin 0) (real_j (refractiveIndex_js Ne freq_Hz nu))"
  unfolding refractiveIndex_js_def Let_def js_complex.simps
  by (rule js_mul_nonneg [OF js_sqrt_range js_half_angle_cos])

text \<open>
  The arithmetic of \<open>refractiveIndex_js\<close> on ordinary arguments: every intermediate
  result stays below \<open>10\<^sup>100\<close>.
\<close>

lemma js_mul_Fin:
  assumes "\<bar>a\<bar> \<le> A" and "\<bar>b\<bar> \<le> B" and "A * B \<le> 10 ^ 100"
  shows "js_mul (Fin a) (Fin b) = Fin (a * b)" and "\<bar>a * b\<bar> \<le> A * B"
proof -
  have "\<bar>a\<bar> * \<bar>b\<bar> \<le> A * B" using assms(1,2) by (intro mult_mono) simp_all
  then show b: "\<bar>a * b\<bar> \<le> A * B" by (simp add: abs_mult)
  from b assms(3) have "\<bar>a * b\<bar> \<le> 10 ^ 100" by (rule order_trans)
  then show "js_mul (Fin a) (Fin b) = Fin (a * b)" by (simp add: overflow_Fin)
qed

lemma js_div_Fin:
  assumes "\<bar>a\<bar> \<le> A" and "1 \<le> b" and "A \<le> 10 ^ 100"
  shows "js_div (Fin a) (Fin b) = Fin (a / b)" and "\<bar>a / b\<bar> \<le> A"
proof -
  have "\<bar>a\<bar> / b \<le> \<bar>a\<bar> / 1" using assms(2) by (intro divide_left_mono) simp_all
  then show b: "\<bar>a / b\<bar> \<le> A" using assms(1,2) by simp
  from b assms(3) have "\<bar>a / b\<bar> \<le> 10 ^ 100" by (rule order_trans)
  then show "js_div (Fin a) (Fin b) = Fin (a / b)" using assms(2) by (simp add: overflow_Fin)
qed

lemma js_add_Fin:
  assumes "\<bar>a\<bar> \<le> A" and "\<bar>b\<bar> \<le> B" and "A + B \<le> 10 ^ 100"
  shows "js_add (Fin a) (Fin b) = Fin (a + b)" and "\<bar>a + b\<bar> \<le> A + B"
proof -
  have "\<bar>a + b\<bar> \<le> \<bar>a\<bar> + \<bar>b\<bar>" by (rule abs_triangle_ineq)
  also have "\<dots> \<le> A + B" using assms(1,2) by (rule add_mono)
  finally show b: "\<bar>a + b\<bar> \<le> A + B" .
  from b assms(3) have "\<bar>a + b\<bar> \<le> 10 ^ 100" by (rule order_trans)
  then show "js_add (Fin a) (Fin b) = Fin (a + b)" by (simp add: overflow_Fin)
qed

lemma js_sub_Fin:
  assumes "\<bar>a\<bar> \<le> A" and "\<bar>b\<bar> \<le> B" and "A + B \<le> 10 ^ 100"
  shows "js_sub (Fin a) (Fin b) = Fin (a - b)" and "\<bar>a - b\<bar> \<le> A + B"
  using js_add_Fin [of a A "- b" B] assms by (simp_all add: js_sub_def)

lemma sqrt_le_pow:
  assumes "0 \<le> x" and "x \<le> 10 ^ (2 * n)"
  shows "sqrt x \<le> 10 ^ n"
proof (rule real_le_lsqrt)
  show "0 \<le> (10::real) ^ n" by simp
  show "x \<le> (10 ^ n)\<^sup>2" using assms(2) by (simp add: power_mult [symmetric] mult.commute)
qed

text \<open>
  The plasma frequency of a density in \<open>[0, 10\<^sup>15]\<close> is computed without a special
  value.
\<close>

lemma plasmaFrequencyFromNe_js_finite:
  assumes "0 \<le> Ne" and "Ne \<le> 10 ^ 15"
  shows "plasmaFrequencyFromNe_js (Fin Ne) = Fin (plasmaFrequencyFromNe Ne)"
    and "0 \<le> plasmaFrequencyFromNe Ne" and "plasmaFrequencyFromNe Ne \<le> 10 ^ 10"
proof -
  define e :: real where "e = 1.602176634 / 10 ^ 19"
  define m_e :: real where "m_e = 9.1093837015 / 10 ^ 31"
  define eps_0 :: real where "eps_0 = 8.8541878128 / 10 ^ 12"
  define k where "k = e * e / (eps_0 * m_e)"
  define v where "v = Ne * e * e / (eps_0 * m_e)"
  have e: "0 \<le> e" "e \<le> 1" by (simp_all add: e_def)
  have k: "0 \<le> k" "k \<le> 10 ^ 4" by (simp_all add: k_def e_def m_e_def eps_0_def)
  have vk: "v = Ne * k" by (simp add: v_def k_def)
  have v0: "0 \<le> v" using assms(1) k(1) by (simp add: vk)
  have "Ne * k \<le> 10 ^ 15 * 10 ^ 4" using assms k by (intro mult_mono) simp_all
  then have v1: "v \<le> 10 ^ 19" by (simp add: vk)
  have v2: "v \<le> 10 ^ (2 * 10)" using v1 by simp
  have a1: "\<bar>Ne\<bar> \<le> 10 ^ 15" using assms by simp
  have a2: "\<bar>e\<bar> \<le> 1" using e by simp
  have m1: "js_mul (Fin Ne) (Fin e) = Fin (Ne * e)"
    by (rule js_mul_Fin(1) [OF a1 a2]) simp
  have m1b: "\<bar>Ne * e\<bar> \<le> 10 ^ 15" using js_mul_Fin(2) [OF a1 a2] by simp
  have m2: "js_mul (Fin (Ne * e)) (Fin e) = Fin (Ne * e * e)"
    by (rule js_mul_Fin(1) [OF m1b a2]) simp
  have "\<bar>eps_0 * m_e\<bar> \<le> 10 ^ 100" by (simp add: eps_0_def m_e_def)
  then have em: "js_mul (Fin eps_0) (Fin m_e) = Fin (eps_0 * m_e)"
    by (simp add: overflow_Fin)
  have ne: "eps_0 * m_e \<noteq> 0" by (simp add: eps_0_def m_e_def)
  have "\<bar>v\<bar> \<le> 10 ^ 100" using v0 v1 by simp
  then have dv: "js_div (Fin (Ne * e * e)) (Fin (eps_0 * m_e)) = Fin v"
    using ne by (simp add: v_def overflow_Fin)
  have sq: "js_sqrt (Fin v) = Fin (sqrt v)" using v0 by simp
  have s0: "0 \<le> sqrt v" using v0 by simp
  have s1: "sqrt v \<le> 10 ^ 10" using sqrt_le_pow [OF v0 v2] .
  have s2: "\<bar>sqrt v\<bar> \<le> 10 ^ 10" using s0 s1 by simp
  have tp: "1 \<le> 2 * pi" using pi_ge_two by simp
  have d: "js_div (Fin (sqrt v)) (Fin (2 * pi)) = Fin (sqrt v / (2 * pi))"
    by (rule js_div_Fin(1) [OF s2 tp]) simp
  have db: "\<bar>sqrt v / (2 * pi)\<bar> \<le> 10 ^ 10"
    by (rule js_div_Fin(2) [OF s2 tp]) simp
  have pf: "plasmaFrequencyFromNe Ne = sqrt v / (2 * pi)"
    by (simp add: plasmaFrequencyFromNe_def v_def e_def m_e_def eps_0_def)
  have "plasmaFrequencyFromNe_js (Fin Ne)
      = js_div (js_sqrt (js_div (js_mul (js_mul (Fin Ne) (Fin e)) (Fin e))
                           (js_mul (Fin eps_0) (Fin m_e))))
          (js_mul (Fin 2.0) (Fin pi))"
    by (simp only: plasmaFrequencyFromNe_js_def Let_def e_def m_e_def eps_0_def)
  also have "\<dots> = Fin (sqrt v / (2 * pi))"
    unfolding m1 m2 em dv sq two_pi_js d ..
  finally show "plasmaFrequencyFromNe_js (Fin Ne) = Fin (plasmaFrequencyFromNe Ne)"
    unfolding pf .
  show "0 \<le> plasmaFrequencyFromNe Ne" unfolding pf using s0 pi_gt_zero by simp
  have "sqrt v / (2 * pi) \<le> \<bar>sqrt v / (2 * pi)\<bar>" by (rule abs_ge_self)
  then show "plasmaFrequencyFromNe Ne \<le> 10 ^ 10" unfolding pf using db by (rule order_trans)
qed

text \<open>
  In a box of ordinary arguments \<open>refractiveIndex_js\<close> meets no special value, and its
  result is the one of \<open>refractiveIndex\<close>.
\<close>

lemma refractiveIndex_js_finite:
  assumes "0 \<le> Ne" and "Ne \<le> 10 ^ 15" and "1 \<le> f" and "f \<le> 10 ^ 12"
    and "0 \<le> nu" and "nu \<le> 10 ^ 12"
  shows "refractiveIndex_js (Fin Ne) (Fin f) (Fin nu)
      = \<lparr>real_j = Fin (real_c (refractiveIndex Ne f nu)),
         imag_j = Fin (imag_c (refractiveIndex Ne f nu))\<rparr>"
proof -
  define pf where "pf = plasmaFrequencyFromNe Ne"
  define om where "om = 2 * pi * f"
  define omp where "omp = 2 * pi * pf"
  define q where "q = omp / om"
  define X where "X = q * q"
  define Z where "Z = nu / om"
  define dn where "dn = 1 + Z * Z"
  define xr where "xr = 1 - X / dn"
  define yi where "yi = X * Z / dn"
  define s where "s = xr * xr + yi * yi"
  define mag where "mag = sqrt (sqrt s)"
  define ph where "ph = atan2 yi xr / 2"
  note P = plasmaFrequencyFromNe_js_finite [OF assms(1,2), folded pf_def]
  have tp: "\<bar>2 * pi\<bar> \<le> 10" using pi_less_4 pi_gt_zero by simp
  have fb: "\<bar>f\<bar> \<le> 10 ^ 12" using assms by simp
  have J2: "js_mul (Fin (2 * pi)) (Fin f) = Fin om"
    unfolding om_def by (rule js_mul_Fin(1) [OF tp fb]) simp
  have om1: "1 \<le> om"
  proof -
    have "1 * 1 \<le> 2 * pi * f" using pi_ge_two assms(3) by (intro mult_mono) simp_all
    then show ?thesis by (simp add: om_def)
  qed
  have pb: "\<bar>pf\<bar> \<le> 10 ^ 10" using P by simp
  have J3: "js_mul (Fin (2 * pi)) (Fin pf) = Fin omp"
    unfolding omp_def by (rule js_mul_Fin(1) [OF tp pb]) simp
  have ompb: "\<bar>omp\<bar> \<le> 10 ^ 11"
    unfolding omp_def using js_mul_Fin(2) [OF tp pb] by simp
  have Jq: "js_div (Fin omp) (Fin om) = Fin q"
    unfolding q_def by (rule js_div_Fin(1) [OF ompb om1]) simp
  have qb: "\<bar>q\<bar> \<le> 10 ^ 11"
    unfolding q_def by (rule js_div_Fin(2) [OF ompb om1]) simp
  have J4: "js_pow2 (Fin q) = Fin X"
    unfolding X_def js_pow2_def by (rule js_mul_Fin(1) [OF qb qb]) simp
  have Xb: "\<bar>X\<bar> \<le> 10 ^ 22"
    unfolding X_def using js_mul_Fin(2) [OF qb qb] by simp
  have X0: "0 \<le> X" by (simp add: X_def)
  have nb: "\<bar>nu\<bar> \<le> 10 ^ 12" using assms by simp
  have J5: "js_div (Fin nu) (Fin om) = Fin Z"
    unfolding Z_def by (rule js_div_Fin(1) [OF nb om1]) simp
  have Zb: "\<bar>Z\<bar> \<le> 10 ^ 12"
    unfolding Z_def by (rule js_div_Fin(2) [OF nb om1]) simp
  have Jzz: "js_mul (Fin Z) (Fin Z) = Fin (Z * Z)"
    by (rule js_mul_Fin(1) [OF Zb Zb]) simp
  have zzb: "\<bar>Z * Z\<bar> \<le> 10 ^ 24"
    using js_mul_Fin(2) [OF Zb Zb] by simp
  have one: "\<bar>1 :: real\<bar> \<le> 1" by simp
  have J6: "js_add (Fin 1) (Fin (Z * Z)) = Fin dn"
    unfolding dn_def by (rule js_add_Fin(1) [OF one zzb]) simp
  have dn1: "1 \<le> dn" by (simp add: dn_def)
  have Jxd: "js_div (Fin X) (Fin dn) = Fin (X / dn)"
    by (rule js_div_Fin(1) [OF Xb dn1]) simp
  have xdb: "\<bar>X / dn\<bar> \<le> 10 ^ 22"
    by (rule js_div_Fin(2) [OF Xb dn1]) simp
  have J7: "js_sub (Fin 1) (Fin (X / dn)) = Fin xr"
    unfolding xr_def by (rule js_sub_Fin(1) [OF one xdb]) simp
  have xrb: "\<bar>xr\<bar> \<le> 10 ^ 23"
    unfolding xr_def using js_sub_Fin(2) [OF one xdb] by simp
  have Jxz: "js_mul (Fin X) (Fin Z) = Fin (X * Z)"
    by (rule js_mul_Fin(1) [OF Xb Zb]) simp
  have xzb: "\<bar>X * Z\<bar> \<le> 10 ^ 34"
    using js_mul_Fin(2) [OF Xb Zb] by simp
  have J8: "js_div (Fin (X * Z)) (Fin dn) = Fin yi"
    unfolding yi_def by (rule js_div_Fin(1) [OF xzb dn1]) simp
  have yib: "\<bar>yi\<bar> \<le> 10 ^ 34"
    unfolding yi_def by (rule js_div_Fin(2) [OF xzb dn1]) simp
  have Jxx: "js_mul (Fin xr) (Fin xr) = Fin (xr * xr)"
    by (rule js_mul_Fin(1) [OF xrb xrb]) simp
  have xxb: "\<bar>xr * xr\<bar> \<le> 10 ^ 46"
    using js_mul_Fin(2) [OF xrb xrb] by simp
  have Jyy: "js_mul (Fin yi) (Fin yi) = Fin (yi * yi)"
    by (rule js_mul_Fin(1) [OF yib yib]) simp
  have yyb: "\<bar>yi * yi\<bar> \<le> 10 ^ 68"
    using js_mul_Fin(2) [OF yib yib] by simp
  have Js: "js_add (Fin (xr * xr)) (Fin (yi * yi)) = Fin s"
    unfolding s_def by (rule js_add_Fin(1) [OF xxb yyb]) simp
  have s0: "0 \<le> s" by (simp add: s_def)
  have "\<bar>s\<bar> \<le> 10 ^ 46 + 10 ^ 68" unfolding s_def by (rule js_add_Fin(2) [OF xxb yyb]) simp
  then have sb: "s \<le> 10 ^ (2 * 36)" by simp
  have ss0: "0 \<le> sqrt s" using s0 by simp
  have ssb: "sqrt s \<le> 10 ^ (2 * 18)" using sqrt_le_pow [OF s0 sb] by simp
  have J9: "js_sqrt (js_sqrt (Fin s)) = Fin mag"
    using s0 by (simp add: mag_def)
  have m0: "0 \<le> mag" using s0 by (simp add: mag_def)
  have mb: "\<bar>mag\<bar> \<le> 10 ^ 18"
    using sqrt_le_pow [OF ss0 ssb] m0 by (simp add: mag_def)
  have "\<bar>atan2 yi xr / 2\<bar> \<le> 10 ^ 100"
    using atan2_range [of yi xr] pi_less_4 by (simp add: abs_le_iff)
  then have J10: "js_div (js_atan2 (Fin yi) (Fin xr)) (Fin 2) = Fin ph"
    by (simp add: ph_def overflow_Fin)
  have cb: "\<bar>cos ph\<bar> \<le> 1" "\<bar>sin ph\<bar> \<le> 1" by simp_all
  have J11: "js_mul (Fin mag) (js_cos (Fin ph)) = Fin (mag * cos ph)"
    unfolding js_cos.simps by (rule js_mul_Fin(1) [OF mb cb(1)]) simp
  have J12: "js_mul (Fin mag) (js_sin (Fin ph)) = Fin (mag * sin ph)"
    unfolding js_sin.simps by (rule js_mul_Fin(1) [OF mb cb(2)]) simp
  have lit: "(2.0::real) = 2" "(1.0::real) = 1" by simp_all
  have tpj: "js_mul (Fin 2) (Fin pi) = Fin (2 * pi)" by simp
  have r: "refractiveIndex Ne f nu = \<lparr>real_c = mag * cos ph, imag_c = mag * sin ph\<rparr>"
    unfolding refractiveIndex_def Let_def lit power2_eq_square pf_def [symmetric]
      om_def [symmetric] omp_def [symmetric] q_def [symmetric] X_def [symmetric]
      Z_def [symmetric] dn_def [symmetric] xr_def [symmetric] yi_def [symmetric]
      s_def [symmetric] mag_def [symmetric] ph_def [symmetric] ..
  have "refractiveIndex_js (Fin Ne) (Fin f) (Fin nu)
      = \<lparr>real_j = Fin (mag * cos ph), imag_j = Fin (mag * sin ph)\<rparr>"
    unfolding refractiveIndex_js_def Let_def lit tpj P(1) J2 J3 Jq J4 J5 Jzz J6 Jxd J7 Jxz J8
      Jxx Jyy Js J9 J10 J11 J12 ..
  then show ?thesis unfolding r by simp
qed

text \<open>
  C5, as amended. The real part of \<^verbatim>\<open>refractiveIndex(Ne, f, nu)\<close> is never negative:
  for all arguments whatever, special values included, it is \<^verbatim>\<open>NaN\<close> or it is
  \<open>\<ge> 0\<close>. For \<open>0 \<le> Ne \<le> 10\<^sup>15\<close>, \<open>1 \<le> f \<le> 10\<^sup>12\<close> and \<open>0 \<le> \<nu> \<le> 10\<^sup>12\<close> no special value
  arises: the real part is the number computed on the reals, and that number is not
  negative.
\<close>

theorem C5_refractiveIndex_real_nonneg:
  "(real_j (refractiveIndex_js Ne_j freq_j nu_j) = NaN
      \<or> js_le (Fin 0) (real_j (refractiveIndex_js Ne_j freq_j nu_j)))
   \<and> (0 \<le> Ne \<and> Ne \<le> 10 ^ 15 \<and> 1 \<le> freq_Hz \<and> freq_Hz \<le> 10 ^ 12 \<and> 0 \<le> nu \<and> nu \<le> 10 ^ 12 \<longrightarrow>
        real_j (refractiveIndex_js (Fin Ne) (Fin freq_Hz) (Fin nu))
          = Fin (real_c (refractiveIndex Ne freq_Hz nu))
        \<and> 0 \<le> real_c (refractiveIndex Ne freq_Hz nu))"
proof -
  have "real_j (refractiveIndex_js (Fin Ne) (Fin freq_Hz) (Fin nu))
          = Fin (real_c (refractiveIndex Ne freq_Hz nu))"
    if "0 \<le> Ne" "Ne \<le> 10 ^ 15" "1 \<le> freq_Hz" "freq_Hz \<le> 10 ^ 12" "0 \<le> nu" "nu \<le> 10 ^ 12"
    using refractiveIndex_js_finite [OF that] by simp
  then show ?thesis
    using real_j_never_negative [of Ne_j freq_j nu_j] refractiveIndex_real_nonneg [of Ne freq_Hz nu]
    by blast
qed

theorem C5_refractiveIndex_real_nonneg_witness:
  "(0::real) \<le> 10 ^ 11 \<and> (10::real) ^ 11 \<le> 10 ^ 15 \<and> (1::real) \<le> 14000000
   \<and> (14000000::real) \<le> 10 ^ 12 \<and> (0::real) \<le> 1000 \<and> (1000::real) \<le> 10 ^ 12
   \<and> real_j (refractiveIndex_js (Fin (10 ^ 11)) (Fin 14000000) (Fin 1000))
       = Fin (real_c (refractiveIndex (10 ^ 11) 14000000 1000))
   \<and> 0 \<le> real_c (refractiveIndex (10 ^ 11) 14000000 1000)"
proof -
  have h: "(0::real) \<le> 10 ^ 11 \<and> (10::real) ^ 11 \<le> 10 ^ 15 \<and> (1::real) \<le> 14000000
      \<and> (14000000::real) \<le> 10 ^ 12 \<and> (0::real) \<le> 1000 \<and> (1000::real) \<le> 10 ^ 12"
    by simp
  from h C5_refractiveIndex_real_nonneg [of _ _ _ "10 ^ 11" 14000000 1000]
  show ?thesis by blast
qed

lemma dense_overflow:
  assumes "0 < f" and "f \<le> 1" and "max_double < 10 ^ 15 / (64 * f * f)"
  shows "real_j (refractiveIndex_js (Fin (10 ^ 12)) (Fin f) (Fin 0)) = NaN"
proof -
  define v :: real where
    "v = 10 ^ 12 * (1.602176634 / 10 ^ 19) * (1.602176634 / 10 ^ 19)
           / (8.8541878128 / 10 ^ 12 * (9.1093837015 / 10 ^ 31))"
  have v: "10 ^ 15 \<le> v" "v \<le> 10 ^ 16" by (simp_all add: v_def)
  have sv: "0 \<le> sqrt v" "sqrt v \<le> 10 ^ 8" "sqrt v * sqrt v = v"
  proof -
    show "0 \<le> sqrt v" using v by simp
    show "sqrt v \<le> 10 ^ 8" using v by (intro real_le_lsqrt) simp_all
    show "sqrt v * sqrt v = v" using v by simp
  qed
  have pf: "plasmaFrequencyFromNe_js (Fin (10 ^ 12)) = Fin (sqrt v / (2 * pi))"
  proof -
    have "sqrt v / (2 * pi) \<le> sqrt v / 1" using sv pi_ge_two by (intro divide_left_mono) simp_all
    then have "\<bar>sqrt v / (2 * pi)\<bar> \<le> 10 ^ 100" using sv pi_gt_zero by simp
    from overflow_Fin [OF this] two_pi_le show ?thesis
      by (simp add: plasmaFrequencyFromNe_js_def overflow_Fin v_def)
  qed
  have op: "js_mul (js_mul (Fin 2.0) (Fin pi)) (plasmaFrequencyFromNe_js (Fin (10 ^ 12)))
      = Fin (sqrt v)"
  proof -
    have "\<bar>sqrt v\<bar> \<le> 10 ^ 100" using sv by simp
    from overflow_Fin [OF this] pi_gt_zero show ?thesis unfolding pf two_pi_js by simp
  qed
  define w where "w = 2 * pi * f"
  note om = omega_js_small [OF assms(1,2), folded w_def]
  have X: "js_pow2 (js_div (Fin (sqrt v)) (Fin w)) = PInf"
  proof -
    have sp: "0 < sqrt v" using v by simp
    have rho: "0 < sqrt v / w" using sp om(2) by simp
    have ww: "w * w \<le> 64 * f * f"
    proof -
      have "w * w \<le> (8 * f) * (8 * f)" using om(2,3) by (intro mult_mono) simp_all
      then show ?thesis by simp
    qed
    have "10 ^ 15 / (64 * f * f) \<le> v / (64 * f * f)"
      using v(1) assms(1) by (intro divide_right_mono) simp_all
    also have "\<dots> \<le> v / (w * w)"
      using ww v(1) om(2) assms(1) by (intro divide_left_mono) simp_all
    also have "v / (w * w) = (sqrt v / w) * (sqrt v / w)" using sv(3) by simp
    finally have big: "max_double < (sqrt v / w) * (sqrt v / w)" using assms(3) by linarith
    from overflow_pos [OF rho] show ?thesis
    proof
      assume "overflow (sqrt v / w) = Fin (sqrt v / w)"
      then show ?thesis using om(2) overflow_PInf [OF big] by (simp add: js_pow2_def)
    next
      assume "overflow (sqrt v / w) = PInf"
      then show ?thesis using om(2) by (simp add: js_pow2_def)
    qed
  qed
  have Z: "js_div (Fin 0) (Fin w) = Fin 0" using om(2) by simp
  show ?thesis
    unfolding refractiveIndex_js_def op om(1) Let_def X Z
    by simp
qed

text \<open>
  C5, as stated, fails: \<open>Ne = 10\<^sup>12\<close>, \<open>f = 10\<^sup>-\<^sup>3\<^sup>0\<^sup>0\<close> and \<open>\<nu> = 0\<close> satisfy its hypotheses;
  \<^verbatim>\<open>X\<close> overflows to \<^verbatim>\<open>Infinity\<close>, \<^verbatim>\<open>Z\<close> is 0, \<^verbatim>\<open>X * Z\<close> is \<^verbatim>\<open>NaN\<close>, and so is the real
  part, of which \<open>\<ge> 0\<close> is false.
\<close>

theorem C5_overflow_counterexample:
  "real_j (refractiveIndex_js (Fin (10 ^ 12)) (Fin (1 / 10 ^ 300)) (Fin 0)) = NaN
   \<and> \<not> js_le (Fin 0) NaN"
proof -
  have "(10::real) ^ 9 \<le> 10 ^ 15 / 64" by simp
  then have "max_double < 10 ^ 15 / (64 * (1 / 10 ^ 300) * (1 / 10 ^ 300))"
    by (rule max_double_lt_ratio(2)) simp
  with tiny_pos tiny_le_1
  have "real_j (refractiveIndex_js (Fin (10 ^ 12)) (Fin (1 / 10 ^ 300)) (Fin 0)) = NaN"
    by (rule dense_overflow)
  then show ?thesis by (simp only: js_le.simps simp_thms)
qed

text \<open>At the frequency 0 the quotient \<^verbatim>\<open>omega_p / omega\<close> is \<^verbatim>\<open>0 / 0\<close>.\<close>

lemma refractiveIndex_js_zero_frequency:
  "refractiveIndex_js (Fin 0) (Fin 0) nu = \<lparr>real_j = NaN, imag_j = NaN\<rparr>"
proof -
  have om: "js_mul (js_mul (Fin 2.0) (Fin pi)) (Fin 0) = Fin 0" by (simp add: two_pi_js)
  show ?thesis
    unfolding refractiveIndex_js_def omega_p_js_zero om Let_def
    by (simp add: js_pow2_def)
qed

section \<open>The shared step and the loop\<close>

lemma ray_direction_unfold:
  "ray_direction z b r g n n2 =
     (let g1 = (if \<bar>n\<bar> < 1 / 10 ^ 8 then False else if n2 \<le> 0 then False else g);
          s1 = (if \<bar>n\<bar> < 1 / 10 ^ 8 then 1 else b / (n * r))
      in if \<bar>s1\<bar> \<ge> 1 then (if z > 600 \<and> g1 then None else Some (False, sgn s1 * 0.999))
         else Some (g1, s1))"
  by (simp add: ray_direction_def Let_def)

lemma abs_sgn_clamp: "\<bar>sgn t * 0.999\<bar> < (1::real)"
  by (cases "t = 0") (simp_all add: abs_mult)

lemma ray_direction_SomeD:
  assumes "ray_direction z b r g n n2 = Some (g', s)"
  shows "\<bar>s\<bar> < 1" and "g' \<Longrightarrow> g" and "0 \<le> b \<Longrightarrow> 0 \<le> n \<Longrightarrow> 0 < r \<Longrightarrow> 0 \<le> s"
proof -
  define g1 where "g1 = (if \<bar>n\<bar> < 1 / 10 ^ 8 then False else if n2 \<le> 0 then False else g)"
  define s1 where "s1 = (if \<bar>n\<bar> < 1 / 10 ^ 8 then 1 else b / (n * r))"
  have rd: "ray_direction z b r g n n2 =
     (if \<bar>s1\<bar> \<ge> 1 then (if z > 600 \<and> g1 then None else Some (False, sgn s1 * 0.999))
      else Some (g1, s1))"
    unfolding ray_direction_unfold g1_def s1_def Let_def ..
  have g1: "g1 \<Longrightarrow> g" by (simp add: g1_def split: if_splits)
  have cases: "(g' = False \<and> s = sgn s1 * 0.999 \<and> \<bar>s1\<bar> \<ge> 1) \<or> (g' = g1 \<and> s = s1 \<and> \<bar>s1\<bar> < 1)"
    using assms unfolding rd by (simp split: if_splits)
  then show "\<bar>s\<bar> < 1" using abs_sgn_clamp [of s1] by auto
  from cases show "g' \<Longrightarrow> g" using g1 by auto
  show "0 \<le> s" if "0 \<le> b" "0 \<le> n" "0 < r"
  proof -
    have "0 \<le> b / (n * r)" using that by simp
    then have s1: "0 \<le> s1" by (simp add: s1_def)
    then have "0 \<le> sgn s1 * 0.999" by (simp add: sgn_if)
    with s1 cases show ?thesis by auto
  qed
qed

lemma ray_direction_NoneD:
  "ray_direction z b r g n n2 = None \<Longrightarrow> g \<and> z > 600"
  unfolding ray_direction_unfold Let_def by (simp split: if_splits)

lemma adaptive_step_cases: "adaptive_step n s = 1 / 2 \<or> adaptive_step n s = 1"
  by (simp add: adaptive_step_def step_km_def)

lemma ray_step_NoneD:
  assumes "ray_step z b r th g n n2 = None"
  shows "g" and "z > 600"
proof -
  show "g"
  proof (cases "ray_direction z b r g n n2")
    case None
    then show ?thesis using ray_direction_NoneD by blast
  next
    case (Some p)
    obtain g0 s0 where p: "p = (g0, s0)" by (cases p)
    with Some assms have "g0" by (simp add: ray_step_def Let_def split: if_splits)
    then show ?thesis using ray_direction_SomeD(2) [OF Some [unfolded p]] by simp
  qed
  show "z > 600"
  proof (cases "ray_direction z b r g n n2")
    case None
    then show ?thesis using ray_direction_NoneD by blast
  next
    case (Some p)
    obtain g0 s0 where p: "p = (g0, s0)" by (cases p)
    with Some assms have "z > 800" by (simp add: ray_step_def Let_def split: if_splits)
    then show ?thesis by simp
  qed
qed

lemma ray_step_SomeD:
  assumes "ray_step z b r th g n n2 = Some (g', s, a, r', th')"
  shows "g' \<Longrightarrow> g"
    and "\<bar>s\<bar> < 1"
    and "a = 1 / 2 \<or> a = 1"
    and "\<bar>r' - r\<bar> \<le> 1"
    and "\<not> g' \<Longrightarrow> r' \<le> r"
    and "th' = th + a * s / r"
    and "0 \<le> b \<Longrightarrow> 0 \<le> n \<Longrightarrow> 0 < r \<Longrightarrow> th \<le> th'"
    and "\<not> (z > 800 \<and> g')"
proof -
  obtain p where Some: "ray_direction z b r g n n2 = Some p"
    using assms by (cases "ray_direction z b r g n n2") (simp_all add: ray_step_def)
  obtain g0 s0 where p: "p = (g0, s0)" by (cases p)
  note dir0 = Some [unfolded p]
  have nz: "\<not> (z > 800 \<and> g0)"
    using assms dir0 by (simp add: ray_step_def Let_def split: if_splits)
  have g0: "g0 = g'" and s0: "s0 = s" and a: "a = adaptive_step n s"
    using assms dir0 nz by (auto simp add: ray_step_def Let_def split: if_splits)
  have r': "r' = r + a * sqrt (1 - s * s) * (if g' then 1 else - 1)"
    and th': "th' = th + a * s / r"
    using assms dir0 nz by (auto simp add: ray_step_def Let_def split: if_splits)
  note dir = dir0 [unfolded g0 s0]
  show "\<not> (z > 800 \<and> g')" using nz g0 by simp
  show "g' \<Longrightarrow> g" using ray_direction_SomeD(2) [OF dir] .
  show s1: "\<bar>s\<bar> < 1" using ray_direction_SomeD(1) [OF dir] .
  show a12: "a = 1 / 2 \<or> a = 1" using a adaptive_step_cases by simp
  have ss: "s * s < 1" using s1 by (simp add: abs_square_less_1 power2_eq_square [symmetric])
  then have c0: "0 \<le> sqrt (1 - s * s)" by simp
  have "1 - s * s \<le> 1" by simp
  then have c1: "sqrt (1 - s * s) \<le> 1" using real_sqrt_le_1_iff by blast
  have a0: "0 \<le> a" "a \<le> 1" using a12 by auto
  have ac: "0 \<le> a * sqrt (1 - s * s)" "a * sqrt (1 - s * s) \<le> 1"
    using a0 c0 c1 by (simp_all add: mult_le_one)
  show "\<bar>r' - r\<bar> \<le> 1" using r' ac by (simp split: if_splits)
  show "\<not> g' \<Longrightarrow> r' \<le> r" using r' ac by simp
  show "th' = th + a * s / r" by (rule th')
  show "th \<le> th'" if "0 \<le> b" "0 \<le> n" "0 < r"
  proof -
    have "0 \<le> s" using ray_direction_SomeD(3) [OF dir that] .
    then have "0 \<le> a * s / r" using a0 that by simp
    then show ?thesis using th' by simp
  qed
qed

lemma for_loop_invariant_aux:
  "(\<forall>k s s'. I k s \<longrightarrow> int k < ms \<longrightarrow> body k s = Inr s' \<longrightarrow> I (Suc k) s') \<Longrightarrow> I step st \<Longrightarrow>
   (case for_loop ms body step st of
      (k, Inl res) \<Rightarrow> \<exists>s. I k s \<and> int k < ms \<and> body k s = Inl res
    | (k, Inr s) \<Rightarrow> I k s \<and> \<not> int k < ms)"
proof (induction ms body step st rule: for_loop.induct)
  case (1 max_steps body step st)
  show ?case
  proof (cases "int step < max_steps")
    case False
    with "1.prems" show ?thesis by (simp add: for_loop.simps [of max_steps body step st])
  next
    case True
    show ?thesis
    proof (cases "body step st")
      case (Inl res)
      with True "1.prems" show ?thesis
        by (auto simp add: for_loop.simps [of max_steps body step st])
    next
      case (Inr st')
      have "I (Suc step) st'" using "1.prems" True Inr by blast
      from "1.IH" [OF True Inr "1.prems"(1) this] show ?thesis
        using True Inr by (simp add: for_loop.simps [of max_steps body step st])
    qed
  qed
qed

lemma for_loop_invariant:
  assumes "I step st"
    and "\<And>k s s'. I k s \<Longrightarrow> int k < ms \<Longrightarrow> body k s = Inr s' \<Longrightarrow> I (Suc k) s'"
  shows "case for_loop ms body step st of
           (k, Inl res) \<Rightarrow> \<exists>s. I k s \<and> int k < ms \<and> body k s = Inl res
         | (k, Inr s) \<Rightarrow> I k s \<and> \<not> int k < ms"
proof (rule for_loop_invariant_aux)
  show "\<forall>k s s'. I k s \<longrightarrow> int k < ms \<longrightarrow> body k s = Inr s' \<longrightarrow> I (Suc k) s'"
    using assms(2) by blast
  show "I step st" by fact
qed

section \<open>The loop bodies\<close>

lemma n_complex_1D_real_nonneg: "0 \<le> real_c (n_complex_1D f ion z)"
  by (simp add: n_complex_1D_def Let_def refractiveIndex_real_nonneg)

lemma getRefractiveIndex_real_nonneg: "0 \<le> real_c (getRefractiveIndex f a d t se z x)"
  by (simp add: getRefractiveIndex_def Let_def refractiveIndex_real_nonneg)

lemma advancesI:
  assumes "\<not> (s_r st - R_E < 0 \<and> step > 10)"
    and "0 \<le> n"
    and "ray_step (s_r st - R_E) b (s_r st) (s_theta st) (s_going_up st) n n2 = Some (g, s, a, r, th)"
    and "s_going_up st' = g" "s_r st' = r" "s_theta st' = th"
    and "s_distances st' = s_distances st @ [th * R_E]"
    and "s_altitudes st' = s_altitudes st @ [r - R_E]"
  shows "advances b step st st'"
  unfolding advances_def using assms by blast

lemma body_path_cases:
  obtains (returns) "s_r st - R_E < 0" "10 < k"
      "body_path f b ion m k st = Inl (result_path st ''returns'')"
  | (escapes) "s_going_up st" "s_r st - R_E > 600"
      "body_path f b ion m k st = Inl (result_path st ''escapes'')"
  | (stops) st' where "advances b k st st'" "s_theta st' * R_E > m"
      "body_path f b ion m k st = Inl (result_path st' ''stops'')"
  | (continues) st' where "advances b k st st'" "\<not> s_theta st' * R_E > m"
      "body_path f b ion m k st = Inr st'"
proof (cases "s_r st - R_E < 0 \<and> 10 < k")
  case True
  then show ?thesis by (intro returns) (simp_all add: body_path_def Let_def)
next
  case nr: False
  let ?z = "s_r st - R_E"
  let ?n = "n_complex_1D f ion ?z"
  show ?thesis
  proof (cases "ray_step ?z b (s_r st) (s_theta st) (s_going_up st) (real_c ?n) (real_c (n_squared ?n))")
    case None
    note ray_step_NoneD [OF None]
    moreover have "body_path f b ion m k st = Inl (result_path st ''escapes'')"
      using nr None by (auto simp add: body_path_def Let_def)
    ultimately show ?thesis by (intro escapes)
  next
    case (Some p)
    obtain g s a r th where p: "p = (g, s, a, r, th)" by (cases p)
    define st' where "st' = st\<lparr>s_r := r, s_theta := th, s_going_up := g,
                               s_distances := s_distances st @ [th * R_E],
                               s_altitudes := s_altitudes st @ [r - R_E]\<rparr>"
    have adv: "advances b k st st'"
      by (rule advancesI [OF nr n_complex_1D_real_nonneg Some [unfolded p]])
        (simp_all add: st'_def)
    have body: "body_path f b ion m k st =
        (if th * R_E > m then Inl (result_path st' ''stops'') else Inr st')"
      using nr Some p by (auto simp add: body_path_def Let_def st'_def)
    show ?thesis
    proof (cases "th * R_E > m")
      case True
      with body adv show ?thesis by (intro stops [of st']) (simp_all add: st'_def)
    next
      case False
      with body adv show ?thesis by (intro continues [of st']) (simp_all add: st'_def)
    qed
  qed
qed

lemma body_abs_cases:
  obtains (returns) "s_r st - R_E < 0" "10 < k"
      "body_abs f b ion m k st = Inl (result_abs st ''returns'')"
  | (escapes) "s_going_up st" "s_r st - R_E > 600"
      "body_abs f b ion m k st = Inl (result_abs st ''escapes'')"
  | (stops) st' where "advances b k st st'" "s_theta st' * R_E > m"
      "body_abs f b ion m k st = Inl (result_abs st' ''stops'')"
  | (continues) st' where "advances b k st st'" "\<not> s_theta st' * R_E > m"
      "body_abs f b ion m k st = Inr st'"
proof (cases "s_r st - R_E < 0 \<and> 10 < k")
  case True
  then show ?thesis by (intro returns) (simp_all add: body_abs_def Let_def)
next
  case nr: False
  let ?z = "s_r st - R_E"
  let ?n = "n_complex_1D f ion ?z"
  show ?thesis
  proof (cases "ray_step ?z b (s_r st) (s_theta st) (s_going_up st) (real_c ?n) (real_c (n_squared ?n))")
    case None
    note ray_step_NoneD [OF None]
    moreover have "body_abs f b ion m k st = Inl (result_abs st ''escapes'')"
      using nr None by (auto simp add: body_abs_def Let_def)
    ultimately show ?thesis by (intro escapes)
  next
    case (Some p)
    obtain g s a r th where p: "p = (g, s, a, r, th)" by (cases p)
    define st' where "st' = st\<lparr>s_r := r, s_theta := th, s_going_up := g,
                               s_distances := s_distances st @ [th * R_E],
                               s_altitudes := s_altitudes st @ [r - R_E],
                               s_total_loss_nepers := s_total_loss_nepers st
                                 + alpha (2.0 * pi * f) ?n * (a * 1000.0)\<rparr>"
    have adv: "advances b k st st'"
      by (rule advancesI [OF nr n_complex_1D_real_nonneg Some [unfolded p]])
        (simp_all add: st'_def)
    have body: "body_abs f b ion m k st =
        (if th * R_E > m then Inl (result_abs st' ''stops'') else Inr st')"
      using nr Some p by (auto simp add: body_abs_def Let_def st'_def)
    show ?thesis
    proof (cases "th * R_E > m")
      case True
      with body adv show ?thesis by (intro stops [of st']) (simp_all add: st'_def)
    next
      case False
      with body adv show ?thesis by (intro continues [of st']) (simp_all add: st'_def)
    qed
  qed
qed

lemma body_tilts_cases:
  obtains (returns) "s_r st - R_E < 0" "10 < k"
      "body_tilts f b tx di td se m k st = Inl (result_tilts st ''returns'')"
  | (escapes) "s_going_up st" "s_r st - R_E > 600"
      "body_tilts f b tx di td se m k st = Inl (result_tilts st ''escapes'')"
  | (stops) st' where "advances b k st st'" "s_azimuths st' = s_azimuths st @ [s_phi st']"
      "s_x st' > m" "body_tilts f b tx di td se m k st = Inl (result_tilts st' ''stops'')"
      "s_x st' = s_x st + \<bar>(s_theta st' - s_theta st) * R_E\<bar>"
  | (continues) st' where "advances b k st st'" "s_azimuths st' = s_azimuths st @ [s_phi st']"
      "\<not> s_x st' > m" "body_tilts f b tx di td se m k st = Inr st'"
      "s_x st' = s_x st + \<bar>(s_theta st' - s_theta st) * R_E\<bar>"
proof (cases "s_r st - R_E < 0 \<and> 10 < k")
  case True
  then show ?thesis by (intro returns) (simp_all add: body_tilts_def Let_def)
next
  case nr: False
  let ?z = "s_r st - R_E"
  let ?gri = "getRefractiveIndex f tx di td se"
  let ?n = "?gri ?z (s_x st)"
  show ?thesis
  proof (cases "ray_step ?z b (s_r st) (s_theta st) (s_going_up st) (real_c ?n) (real_c (n_squared ?n))")
    case None
    note ray_step_NoneD [OF None]
    moreover have "body_tilts f b tx di td se m k st = Inl (result_tilts st ''escapes'')"
      using nr None by (auto simp add: body_tilts_def Let_def)
    ultimately show ?thesis by (intro escapes)
  next
    case (Some p)
    obtain g s a r th where p: "p = (g, s, a, r, th)" by (cases p)
    define x where "x = s_x st + \<bar>a * s / s_r st * R_E\<bar>"
    define phi where "phi = s_phi st + dphi (dn_dx ?gri ?z (s_x st) (real_c ?n)) (real_c ?n) s a"
    define st' where "st' = st\<lparr>s_r := r, s_theta := th, s_going_up := g,
                               s_distances := s_distances st @ [th * R_E],
                               s_altitudes := s_altitudes st @ [r - R_E],
                               s_x := x, s_phi := phi,
                               s_azimuths := s_azimuths st @ [phi]\<rparr>"
    have adv: "advances b k st st'"
      by (rule advancesI [OF nr getRefractiveIndex_real_nonneg Some [unfolded p]])
        (simp_all add: st'_def)
    have body: "body_tilts f b tx di td se m k st =
        (if x > m then Inl (result_tilts st' ''stops'') else Inr st')"
      using nr Some p by (auto simp add: body_tilts_def Let_def st'_def x_def phi_def)
    have "th = s_theta st + a * s / s_r st"
      using ray_step_SomeD(6) [OF Some [unfolded p]] .
    then have xs: "s_x st' = s_x st + \<bar>(s_theta st' - s_theta st) * R_E\<bar>"
      by (simp add: st'_def x_def)
    show ?thesis
    proof (cases "x > m")
      case True
      with body adv xs show ?thesis by (intro stops [of st']) (simp_all add: st'_def)
    next
      case False
      with body adv xs show ?thesis by (intro continues [of st']) (simp_all add: st'_def)
    qed
  qed
qed

lemma body_2d_abs_cases:
  obtains (returns) "s_r st - R_E < 0" "10 < k"
      "body_2d_abs f b tx di td se m k st = Inl (result_2d_abs st ''returns'')"
  | (escapes) "s_going_up st" "s_r st - R_E > 600"
      "body_2d_abs f b tx di td se m k st = Inl (result_2d_abs st ''escapes'')"
  | (stops) st' where "advances b k st st'" "s_azimuths st' = s_azimuths st @ [s_phi st']"
      "s_x st' > m" "body_2d_abs f b tx di td se m k st = Inl (result_2d_abs st' ''stops'')"
      "s_x st' = s_x st + \<bar>(s_theta st' - s_theta st) * R_E\<bar>"
  | (continues) st' where "advances b k st st'" "s_azimuths st' = s_azimuths st @ [s_phi st']"
      "\<not> s_x st' > m" "body_2d_abs f b tx di td se m k st = Inr st'"
      "s_x st' = s_x st + \<bar>(s_theta st' - s_theta st) * R_E\<bar>"
proof (cases "s_r st - R_E < 0 \<and> 10 < k")
  case True
  then show ?thesis by (intro returns) (simp_all add: body_2d_abs_def Let_def)
next
  case nr: False
  let ?z = "s_r st - R_E"
  let ?gri = "getRefractiveIndex f tx di td se"
  let ?n = "?gri ?z (s_x st)"
  show ?thesis
  proof (cases "ray_step ?z b (s_r st) (s_theta st) (s_going_up st) (real_c ?n) (real_c (n_squared ?n))")
    case None
    note ray_step_NoneD [OF None]
    moreover have "body_2d_abs f b tx di td se m k st = Inl (result_2d_abs st ''escapes'')"
      using nr None by (auto simp add: body_2d_abs_def Let_def)
    ultimately show ?thesis by (intro escapes)
  next
    case (Some p)
    obtain g s a r th where p: "p = (g, s, a, r, th)" by (cases p)
    define x where "x = s_x st + \<bar>a * s / s_r st * R_E\<bar>"
    define phi where "phi = s_phi st + dphi (dn_dx ?gri ?z (s_x st) (real_c ?n)) (real_c ?n) s a"
    define st' where "st' = st\<lparr>s_r := r, s_theta := th, s_going_up := g,
                               s_distances := s_distances st @ [th * R_E],
                               s_altitudes := s_altitudes st @ [r - R_E],
                               s_x := x, s_phi := phi,
                               s_azimuths := s_azimuths st @ [phi],
                               s_total_loss_nepers_2d := s_total_loss_nepers_2d st
                                 + alpha (2.0 * pi * f) ?n * (a * 1000.0)\<rparr>"
    have adv: "advances b k st st'"
      by (rule advancesI [OF nr getRefractiveIndex_real_nonneg Some [unfolded p]])
        (simp_all add: st'_def)
    have body: "body_2d_abs f b tx di td se m k st =
        (if x > m then Inl (result_2d_abs st' ''stops'') else Inr st')"
      using nr Some p by (auto simp add: body_2d_abs_def Let_def st'_def x_def phi_def)
    have "th = s_theta st + a * s / s_r st"
      using ray_step_SomeD(6) [OF Some [unfolded p]] .
    then have xs: "s_x st' = s_x st + \<bar>(s_theta st' - s_theta st) * R_E\<bar>"
      by (simp add: st'_def x_def)
    show ?thesis
    proof (cases "x > m")
      case True
      with body adv xs show ?thesis by (intro stops [of st']) (simp_all add: st'_def)
    next
      case False
      with body adv xs show ?thesis by (intro continues [of st']) (simp_all add: st'_def)
    qed
  qed
qed

lemma advances_shape: "advances b k st st' \<Longrightarrow> shape_inv st \<Longrightarrow> shape_inv st'"
  by (cases "s_altitudes st") (auto simp add: advances_def shape_inv_def)

lemma advances_azimuth:
  "advances b k st st' \<Longrightarrow> s_azimuths st' = s_azimuths st @ [p] \<Longrightarrow> shape_inv st
     \<Longrightarrow> azimuth_inv st \<Longrightarrow> azimuth_inv st'"
  by (cases "s_azimuths st") (auto simp add: advances_def shape_inv_def azimuth_inv_def)

lemma sorted_le_last: "sorted xs \<Longrightarrow> x \<in> set xs \<Longrightarrow> x \<le> last (xs :: real list)"
  by (induction xs) (auto simp add: last_in_set)

lemma R_E_pos: "0 < R_E"
  by (simp add: R_E_def)

lemma advances_mono:
  assumes "advances b k st st'" and "0 \<le> b" and "mono_inv k st"
  shows "mono_inv (Suc k) st'"
proof -
  from assms(1) obtain n n2 s a where n: "0 \<le> n"
    and rs: "ray_step (s_r st - R_E) b (s_r st) (s_theta st) (s_going_up st) n n2
               = Some (s_going_up st', s, a, s_r st', s_theta st')"
    and d: "s_distances st' = s_distances st @ [s_theta st' * R_E]"
    and nr: "\<not> (s_r st - R_E < 0 \<and> k > 10)"
    unfolding advances_def by blast
  from assms(3) have lo: "R_E - real (min k 11) \<le> s_r st" and so: "sorted (s_distances st)"
    and ne: "s_distances st \<noteq> []" and la: "last (s_distances st) = s_theta st * R_E"
    by (simp_all add: mono_inv_def)
  have rpos: "0 < s_r st" using lo by (simp add: R_E_def min_def split: if_splits)
  have th: "s_theta st \<le> s_theta st'" using ray_step_SomeD(7) [OF rs assms(2) n rpos] .
  have dr: "\<bar>s_r st' - s_r st\<bar> \<le> 1" using ray_step_SomeD(4) [OF rs] .
  have lo': "R_E - real (min (Suc k) 11) \<le> s_r st'"
  proof (cases "k > 10")
    case True
    with nr have "R_E \<le> s_r st" by simp
    with dr True show ?thesis by (simp add: min_def)
  next
    case False
    with lo dr show ?thesis by (simp add: min_def split: if_splits)
  qed
  have "\<forall>x\<in>set (s_distances st). x \<le> s_theta st' * R_E"
  proof
    fix x assume "x \<in> set (s_distances st)"
    then have "x \<le> last (s_distances st)" using so by (rule sorted_le_last [rotated])
    also have "\<dots> \<le> s_theta st' * R_E" using la th R_E_pos by simp
    finally show "x \<le> s_theta st' * R_E" .
  qed
  then have "sorted (s_distances st')" using so d by (simp add: sorted_append)
  with lo' d show ?thesis by (simp add: mono_inv_def)
qed


section \<open>What every trace satisfies\<close>

lemma loop_post:
  fixes body :: "nat \<Rightarrow> 'a ray_state_scheme \<Rightarrow> RayTraceResult + 'a ray_state_scheme"
    and result :: "'a ray_state_scheme \<Rightarrow> string \<Rightarrow> RayTraceResult"
  assumes cases: "\<And>k st.
        body k st = Inl (result st ''returns'')
      \<or> (s_going_up st \<and> body k st = Inl (result st ''escapes''))
      \<or> (\<exists>st'. advances b k st st' \<and> extra st st' \<and>
            (body k st = Inl (result st' ''stops'') \<or> body k st = Inr st'))"
    and init: "shape_inv st0" "mono_inv 0 st0" "J st0"
    and extra: "\<And>k st st'. advances b k st st' \<Longrightarrow> extra st st' \<Longrightarrow> shape_inv st \<Longrightarrow> J st \<Longrightarrow> J st'"
  shows "\<exists>st s. (case snd (for_loop ms body 0 st0) of Inl res \<Rightarrow> res | Inr st \<Rightarrow> result st ''stops'')
             = result st s
           \<and> (s = ''returns'' \<or> s = ''escapes'' \<or> s = ''stops'')
           \<and> shape_inv st \<and> J st \<and> (0 \<le> b \<longrightarrow> (\<exists>k. mono_inv k st))"
proof -
  let ?I = "\<lambda>k st. shape_inv st \<and> J st \<and> (0 \<le> b \<longrightarrow> mono_inv k st)"
  have adv: "?I (Suc k) st'" if "?I k st" "advances b k st st'" "extra st st'" for k st st'
    using that advances_shape [of b k st st'] advances_mono [of b k st st'] extra [of k st st']
    by blast
  have step: "?I (Suc k) s'" if "?I k s" "int k < ms" "body k s = Inr s'" for k s s'
  proof -
    from cases [of k s] that(3) obtain st' where "advances b k s st'" "extra s st'"
      "body k s = Inr st'" by auto
    with that(3) have "advances b k s s'" "extra s s'" by simp_all
    with adv [OF that(1)] show ?thesis by blast
  qed
  have I0: "?I 0 st0" using init by simp
  have L: "case for_loop ms body 0 st0 of
              (k, Inl res) \<Rightarrow> \<exists>s. ?I k s \<and> int k < ms \<and> body k s = Inl res
            | (k, Inr s) \<Rightarrow> ?I k s \<and> \<not> int k < ms"
  proof (rule for_loop_invariant [where I = ?I])
    show "?I 0 st0" by (rule I0)
    show "?I (Suc k) s'" if "?I k s" "int k < ms" "body k s = Inr s'" for k s s'
      using that by (rule step)
  qed
  obtain k out where out: "for_loop ms body 0 st0 = (k, out)"
    by (cases "for_loop ms body 0 st0")
  show ?thesis
  proof (cases out)
    case (Inr st)
    with L out have "?I k st" by simp
    with out Inr show ?thesis by auto
  next
    case (Inl res)
    with L out obtain s where s: "?I k s" "body k s = Inl res" by auto
    from cases [of k s] s(2) consider
        "res = result s ''returns''" | "res = result s ''escapes''"
      | st' where "advances b k s st'" "extra s st'" "res = result st' ''stops''"
      by auto
    then show ?thesis
    proof cases
      case 1
      with s(1) out Inl show ?thesis by auto
    next
      case 2
      with s(1) out Inl show ?thesis by auto
    next
      case 3
      from adv [OF s(1) 3(1,2)] have "?I (Suc k) st'" .
      with 3(3) out Inl show ?thesis by auto
    qed
  qed
qed

lemma init_invs:
  "shape_inv init_path" "mono_inv 0 init_path"
  "shape_inv init_abs" "mono_inv 0 init_abs"
  "shape_inv init_tilts" "mono_inv 0 init_tilts" "azimuth_inv init_tilts"
  "shape_inv init_2d_abs" "mono_inv 0 init_2d_abs" "azimuth_inv init_2d_abs"
  by (simp_all add: shape_inv_def mono_inv_def azimuth_inv_def init_path_def init_abs_def
      init_tilts_def init_2d_abs_def)

lemma body_path_disj:
  "body_path f b ion m k st = Inl (result_path st ''returns'')
   \<or> (s_going_up st \<and> body_path f b ion m k st = Inl (result_path st ''escapes''))
   \<or> (\<exists>st'. advances b k st st' \<and> True \<and>
         (body_path f b ion m k st = Inl (result_path st' ''stops'')
          \<or> body_path f b ion m k st = Inr st'))"
  by (rule body_path_cases [of st k f b ion m]) blast+

lemma body_abs_disj:
  "body_abs f b ion m k st = Inl (result_abs st ''returns'')
   \<or> (s_going_up st \<and> body_abs f b ion m k st = Inl (result_abs st ''escapes''))
   \<or> (\<exists>st'. advances b k st st' \<and> True \<and>
         (body_abs f b ion m k st = Inl (result_abs st' ''stops'')
          \<or> body_abs f b ion m k st = Inr st'))"
  by (rule body_abs_cases [of st k f b ion m]) blast+

lemma body_tilts_disj:
  "body_tilts f b tx di td se m k st = Inl (result_tilts st ''returns'')
   \<or> (s_going_up st \<and> body_tilts f b tx di td se m k st = Inl (result_tilts st ''escapes''))
   \<or> (\<exists>st'. advances b k st st' \<and> s_azimuths st' = s_azimuths st @ [s_phi st'] \<and>
         (body_tilts f b tx di td se m k st = Inl (result_tilts st' ''stops'')
          \<or> body_tilts f b tx di td se m k st = Inr st'))"
  by (rule body_tilts_cases [of st k f b tx di td se m]) blast+

lemma body_2d_abs_disj:
  "body_2d_abs f b tx di td se m k st = Inl (result_2d_abs st ''returns'')
   \<or> (s_going_up st \<and> body_2d_abs f b tx di td se m k st = Inl (result_2d_abs st ''escapes''))
   \<or> (\<exists>st'. advances b k st st' \<and> s_azimuths st' = s_azimuths st @ [s_phi st'] \<and>
         (body_2d_abs f b tx di td se m k st = Inl (result_2d_abs st' ''stops'')
          \<or> body_2d_abs f b tx di td se m k st = Inr st'))"
  by (rule body_2d_abs_cases [of st k f b tx di td se m]) blast+

lemma trace_path_post:
  "\<exists>st s. traceRaySphericalWithPath f e ion m = result_path st s
     \<and> (s = ''returns'' \<or> s = ''escapes'' \<or> s = ''stops'') \<and> shape_inv st
     \<and> (0 \<le> ray_parameter_1D (f * 1000000) (e * pi / 180.0) ion \<longrightarrow> (\<exists>k. mono_inv k st))"
  unfolding traceRaySphericalWithPath_def run_path_def Let_def
  using loop_post [of "body_path (f * 1000000) (ray_parameter_1D (f * 1000000) (e * pi / 180.0) ion) ion m"
      result_path "ray_parameter_1D (f * 1000000) (e * pi / 180.0) ion" "\<lambda>st st'. True"
      init_path "\<lambda>st. True" "\<lfloor>m / step_km\<rfloor>",
      OF body_path_disj init_invs(1,2)]
  by simp

lemma trace_abs_post:
  "\<exists>st s. traceRayWithAbsorption f e ion m = result_abs st s
     \<and> (s = ''returns'' \<or> s = ''escapes'' \<or> s = ''stops'') \<and> shape_inv st
     \<and> (0 \<le> ray_parameter_1D (f * 1000000) (e * pi / 180.0) ion \<longrightarrow> (\<exists>k. mono_inv k st))"
  unfolding traceRayWithAbsorption_def run_abs_def Let_def
  using loop_post [of "body_abs (f * 1000000) (ray_parameter_1D (f * 1000000) (e * pi / 180.0) ion) ion m"
      result_abs "ray_parameter_1D (f * 1000000) (e * pi / 180.0) ion" "\<lambda>st st'. True"
      init_abs "\<lambda>st. True" "\<lfloor>m / step_km\<rfloor>",
      OF body_abs_disj init_invs(3,4)]
  by simp

lemma trace_tilts_post:
  "\<exists>st s. traceRay2DWithTilts f e tx di td m se = result_tilts st s
     \<and> (s = ''returns'' \<or> s = ''escapes'' \<or> s = ''stops'') \<and> shape_inv st \<and> azimuth_inv st
     \<and> (0 \<le> ray_parameter_2D (f * 1000000) (e * pi / 180.0) tx di td se \<longrightarrow> (\<exists>k. mono_inv k st))"
  unfolding traceRay2DWithTilts_def run_tilts_def Let_def
  using loop_post [of "body_tilts (f * 1000000) (ray_parameter_2D (f * 1000000) (e * pi / 180.0) tx di td se) tx di td se m"
      result_tilts "ray_parameter_2D (f * 1000000) (e * pi / 180.0) tx di td se"
      "\<lambda>st st'. s_azimuths st' = s_azimuths st @ [s_phi st']"
      init_tilts azimuth_inv "\<lfloor>m / step_km\<rfloor>",
      OF body_tilts_disj init_invs(5,6,7) advances_azimuth]
  by simp

lemma trace_2d_abs_post:
  "\<exists>st s. traceRay2DWithAbsorption f e tx di td m se = result_2d_abs st s
     \<and> (s = ''returns'' \<or> s = ''escapes'' \<or> s = ''stops'') \<and> shape_inv st \<and> azimuth_inv st
     \<and> (0 \<le> ray_parameter_2D (f * 1000000) (e * pi / 180.0) tx di td se \<longrightarrow> (\<exists>k. mono_inv k st))"
  unfolding traceRay2DWithAbsorption_def run_2d_abs_def Let_def
  using loop_post [of "body_2d_abs (f * 1000000) (ray_parameter_2D (f * 1000000) (e * pi / 180.0) tx di td se) tx di td se m"
      result_2d_abs "ray_parameter_2D (f * 1000000) (e * pi / 180.0) tx di td se"
      "\<lambda>st st'. s_azimuths st' = s_azimuths st @ [s_phi st']"
      init_2d_abs azimuth_inv "\<lfloor>m / step_km\<rfloor>",
      OF body_2d_abs_disj init_invs(8,9,10) advances_azimuth]
  by simp

section \<open>The claims about the tracers\<close>

lemma result_fields:
  "distances (result_path st s) = s_distances st" "altitudes (result_path st s) = s_altitudes st"
  "azimuths (result_path st s) = None" "status (result_path st s) = s"
  "distances (result_abs sa s) = s_distances sa" "altitudes (result_abs sa s) = s_altitudes sa"
  "azimuths (result_abs sa s) = None" "status (result_abs sa s) = s"
  "distances (result_tilts st2 s) = s_distances st2" "altitudes (result_tilts st2 s) = s_altitudes st2"
  "azimuths (result_tilts st2 s) = Some (map (\<lambda>a. a * 180.0 / pi) (s_azimuths st2))"
  "status (result_tilts st2 s) = s"
  "distances (result_2d_abs st3 s) = s_distances st3" "altitudes (result_2d_abs st3 s) = s_altitudes st3"
  "azimuths (result_2d_abs st3 s) = Some (map (\<lambda>a. a * 180.0 / pi) (s_azimuths st3))"
  "status (result_2d_abs st3 s) = s"
  by (simp_all add: result_path_def result_abs_def result_tilts_def result_2d_abs_def)

lemma azimuths_shape:
  assumes "shape_inv st" "azimuth_inv st"
  shows "map_option length (Some (map (\<lambda>a. a * 180.0 / pi) (s_azimuths st)))
           = Some (length (s_distances st))"
    and "map_option hd (Some (map (\<lambda>a. a * 180.0 / pi) (s_azimuths st))) = Some 0"
proof -
  from assms have ne: "s_azimuths st \<noteq> []" and len: "length (s_azimuths st) = length (s_distances st)"
    and h: "hd (s_azimuths st) = 0"
    by (auto simp add: shape_inv_def azimuth_inv_def)
  show "map_option length (Some (map (\<lambda>a. a * 180.0 / pi) (s_azimuths st)))
           = Some (length (s_distances st))" using len by simp
  show "map_option hd (Some (map (\<lambda>a. a * 180.0 / pi) (s_azimuths st))) = Some 0"
    using ne h by (simp add: hd_map)
qed

text \<open>
  C10. Every result of every tracer, for every input and every status, has a
  \<open>distances\<close> and an \<open>altitudes\<close> array of the same length, not empty and
  starting with 0; in the 2D tracers the \<open>azimuths\<close> array is present, has that
  length and starts with 0 too.
\<close>

theorem C10_parallel_path_arrays:
  "(let res = traceRaySphericalWithPath freq_MHz elevation_deg ionosphere_func max_distance_km
    in length (altitudes res) = length (distances res) \<and> distances res \<noteq> [] \<and>
       hd (distances res) = 0.0 \<and> hd (altitudes res) = 0.0)
   \<and> (let res = traceRayWithAbsorption freq_MHz elevation_deg ionosphere_func max_distance_km
    in length (altitudes res) = length (distances res) \<and> distances res \<noteq> [] \<and>
       hd (distances res) = 0.0 \<and> hd (altitudes res) = 0.0)
   \<and> (let res = traceRay2DWithTilts freq_MHz elevation_deg foF2_at_tx foF2_at_distance
                  tilt_distance max_distance_km season
    in length (altitudes res) = length (distances res) \<and> distances res \<noteq> [] \<and>
       hd (distances res) = 0.0 \<and> hd (altitudes res) = 0.0 \<and>
       map_option length (azimuths res) = Some (length (distances res)) \<and>
       map_option hd (azimuths res) = Some 0.0)
   \<and> (let res = traceRay2DWithAbsorption freq_MHz elevation_deg foF2_at_tx foF2_at_distance
                  tilt_distance max_distance_km season
    in length (altitudes res) = length (distances res) \<and> distances res \<noteq> [] \<and>
       hd (distances res) = 0.0 \<and> hd (altitudes res) = 0.0 \<and>
       map_option length (azimuths res) = Some (length (distances res)) \<and>
       map_option hd (azimuths res) = Some 0.0)"
proof -
  obtain st1 s1 where 1: "traceRaySphericalWithPath freq_MHz elevation_deg ionosphere_func
      max_distance_km = result_path st1 s1" "shape_inv st1"
    using trace_path_post by blast
  obtain st2 s2 where 2: "traceRayWithAbsorption freq_MHz elevation_deg ionosphere_func
      max_distance_km = result_abs st2 s2" "shape_inv st2"
    using trace_abs_post by blast
  obtain st3 s3 where 3: "traceRay2DWithTilts freq_MHz elevation_deg foF2_at_tx foF2_at_distance
      tilt_distance max_distance_km season = result_tilts st3 s3" "shape_inv st3" "azimuth_inv st3"
    using trace_tilts_post by blast
  obtain st4 s4 where 4: "traceRay2DWithAbsorption freq_MHz elevation_deg foF2_at_tx
      foF2_at_distance tilt_distance max_distance_km season = result_2d_abs st4 s4"
      "shape_inv st4" "azimuth_inv st4"
    using trace_2d_abs_post by blast
  have a: "length (s_altitudes st) = length (s_distances st) \<and> s_distances st \<noteq> [] \<and>
           hd (s_distances st) = 0 \<and> hd (s_altitudes st) = 0"
    if "shape_inv st" for st :: "'a ray_state_scheme"
    using that by (simp add: shape_inv_def)
  show ?thesis
    unfolding Let_def 1(1) 2(1) 3(1) 4(1) result_fields
    using a [OF 1(2)] a [OF 2(2)] a [OF 3(2)] a [OF 4(2)]
      azimuths_shape [OF 3(2,3)] azimuths_shape [OF 4(2,3)]
    by simp
qed

lemma sin_elevation_nonneg:
  assumes "0 < e" "e < 90"
  shows "0 \<le> sin (e * pi / 180.0)"
proof (rule sin_ge_zero)
  show "0 \<le> e * pi / 180.0" using assms by simp
  have "e * pi / 180.0 \<le> 90 * pi / 180" using assms by simp
  also have "\<dots> \<le> pi" by simp
  finally show "e * pi / 180.0 \<le> pi" .
qed

lemma ray_parameter_nonneg:
  assumes "0 < e" "e < 90"
  shows "0 \<le> ray_parameter_1D fHz (e * pi / 180.0) ion"
    and "0 \<le> ray_parameter_2D fHz (e * pi / 180.0) tx di td se"
  using sin_elevation_nonneg [OF assms] refractiveIndex_real_nonneg
    getRefractiveIndex_real_nonneg R_E_pos
  by (simp_all add: ray_parameter_1D_def ray_parameter_2D_def Let_def)

lemma chapmanLayerSingle_bounds:
  assumes "0 \<le> N_peak"
  shows "0 \<le> chapmanLayerSingle z N_peak z_peak H"
    and "chapmanLayerSingle z N_peak z_peak H \<le> N_peak"
proof -
  define rz where "rz = (z - z_peak) / H"
  have "1 + (- rz) \<le> exp (- rz)" by (rule exp_ge_add_one_self)
  then have "exp (1 - rz - exp (- rz)) \<le> 1" by simp
  then have "N_peak * exp (1 - rz - exp (- rz)) \<le> N_peak * 1"
    using assms by (intro mult_left_mono)
  then show "chapmanLayerSingle z N_peak z_peak H \<le> N_peak"
    by (simp add: chapmanLayerSingle_def rz_def Let_def)
  show "0 \<le> chapmanLayerSingle z N_peak z_peak H"
    using assms by (simp add: chapmanLayerSingle_def Let_def)
qed

lemma ionosphere_12_bounds:
  "0 \<le> makeIonosphereForFoF2 [z] 12 ''equinox'' ! 0"
  "makeIonosphereForFoF2 [z] 12 ''equinox'' ! 0 \<le> 10 ^ 15"
proof -
  have D: "Ne_D_peak 12 = 1500000000" by (simp add: Ne_D_peak_def D_factor_def)
  have E: "Ne_E_peak 12 = 80000000000" by (simp add: Ne_E_peak_def E_factor_def)
  have F1: "Ne_F1_peak 12 = 600000000000" by (simp add: Ne_F1_peak_def F1_factor_def)
  have F2: "0 \<le> Ne_F2_peak 12" "Ne_F2_peak 12 \<le> 2 * 10 ^ 12"
    by (simp_all add: Ne_F2_peak_def power2_eq_square)
  note d = chapmanLayerSingle_bounds [of "Ne_D_peak 12" z "75.0" "8.0", unfolded D]
  note e = chapmanLayerSingle_bounds [of "Ne_E_peak 12" z "110.0" "15.0", unfolded E]
  note f1 = chapmanLayerSingle_bounds [of "Ne_F1_peak 12" z "190.0" "30.0", unfolded F1]
  note f2 = chapmanLayerSingle_bounds [OF F2(1), of z "h_F2 12 ''equinox''"
      "F2_scale_height 12 ''equinox''"]
  have eq: "makeIonosphereForFoF2 [z] 12 ''equinox'' ! 0
      = chapmanLayerSingle z 1500000000 75.0 8.0
        + chapmanLayerSingle z 80000000000 110.0 15.0
        + chapmanLayerSingle z 600000000000 190.0 30.0
        + chapmanLayerSingle z (Ne_F2_peak 12) (h_F2 12 ''equinox'')
            (F2_scale_height 12 ''equinox'')"
    unfolding makeIonosphereForFoF2_layers D E F1 by simp
  show "0 \<le> makeIonosphereForFoF2 [z] 12 ''equinox'' ! 0"
    unfolding eq using d(1) e(1) f1(1) f2(1) by simp
  show "makeIonosphereForFoF2 [z] 12 ''equinox'' ! 0 \<le> 10 ^ 15"
    unfolding eq using d e f1 f2 F2(2) by simp
qed

text \<open>
  C3, as amended. For every trace launched with an elevation in \<open>(0, 90)\<close> degrees, a
  frequency in \<open>[10\<^sup>-\<^sup>6, 10\<^sup>12]\<close> MHz, a density function with values in \<open>[0, 10\<^sup>15]\<close>,
  foF2 values of magnitude at most \<open>10\<^sup>6\<close>, a tilt distance of magnitude in
  \<open>[10\<^sup>-\<^sup>6, 10\<^sup>9]\<close> and a maximum distance of magnitude at most \<open>10\<^sup>9\<close>, in each of the
  four tracers, the \<open>distances\<close> of the result are non-decreasing: the ray parameter
  is not negative, the radius stays positive, so \<open>sin_psi\<close> and with it each advance
  of \<open>theta\<close> is not negative. (The ranges keep the code away from a division by
  zero, from the square root of a negative number and from an overflow, where the
  real numbers of this embedding are not the numbers of the code.)
\<close>

theorem C3_distances_non_decreasing:
  assumes "0 < elevation_deg" and "elevation_deg < 90"
    and "1 / 10 ^ 6 \<le> freq_MHz" and "freq_MHz \<le> 10 ^ 12"
    and "\<forall>z. 0 \<le> ionosphere_func z \<and> ionosphere_func z \<le> 10 ^ 15"
    and "\<bar>foF2_at_tx\<bar> \<le> 10 ^ 6" and "\<bar>foF2_at_distance\<bar> \<le> 10 ^ 6"
    and "1 / 10 ^ 6 \<le> \<bar>tilt_distance\<bar>" and "\<bar>tilt_distance\<bar> \<le> 10 ^ 9"
    and "\<bar>max_distance_km\<bar> \<le> 10 ^ 9"
  shows "sorted (distances (traceRaySphericalWithPath freq_MHz elevation_deg ionosphere_func
                               max_distance_km))
       \<and> sorted (distances (traceRayWithAbsorption freq_MHz elevation_deg ionosphere_func
                               max_distance_km))
       \<and> sorted (distances (traceRay2DWithTilts freq_MHz elevation_deg foF2_at_tx
                               foF2_at_distance tilt_distance max_distance_km season))
       \<and> sorted (distances (traceRay2DWithAbsorption freq_MHz elevation_deg foF2_at_tx
                               foF2_at_distance tilt_distance max_distance_km season))"
proof -
  note b = ray_parameter_nonneg [OF assms(1,2)]
  obtain st1 s1 k1 where 1: "traceRaySphericalWithPath freq_MHz elevation_deg ionosphere_func
      max_distance_km = result_path st1 s1" "mono_inv k1 st1"
    using trace_path_post [of freq_MHz elevation_deg ionosphere_func max_distance_km] b(1)
    by blast
  obtain st2 s2 k2 where 2: "traceRayWithAbsorption freq_MHz elevation_deg ionosphere_func
      max_distance_km = result_abs st2 s2" "mono_inv k2 st2"
    using trace_abs_post [of freq_MHz elevation_deg ionosphere_func max_distance_km] b(1)
    by blast
  obtain st3 s3 k3 where 3: "traceRay2DWithTilts freq_MHz elevation_deg foF2_at_tx foF2_at_distance
      tilt_distance max_distance_km season = result_tilts st3 s3" "mono_inv k3 st3"
    using trace_tilts_post [of freq_MHz elevation_deg foF2_at_tx foF2_at_distance
        tilt_distance max_distance_km season] b(2)
    by blast
  obtain st4 s4 k4 where 4: "traceRay2DWithAbsorption freq_MHz elevation_deg foF2_at_tx
      foF2_at_distance tilt_distance max_distance_km season = result_2d_abs st4 s4"
      "mono_inv k4 st4"
    using trace_2d_abs_post [of freq_MHz elevation_deg foF2_at_tx foF2_at_distance
        tilt_distance max_distance_km season] b(2)
    by blast
  show ?thesis
    unfolding 1(1) 2(1) 3(1) 4(1) result_fields
    using 1(2) 2(2) 3(2) 4(2) by (simp add: mono_inv_def)
qed

theorem C3_distances_non_decreasing_witness:
  "(0::real) < 30 \<and> (30::real) < 90 \<and> 1 / 10 ^ 6 \<le> (14::real) \<and> (14::real) \<le> 10 ^ 12
   \<and> (\<forall>z. 0 \<le> makeIonosphereForFoF2 [z] 12 ''equinox'' ! 0
           \<and> makeIonosphereForFoF2 [z] 12 ''equinox'' ! 0 \<le> 10 ^ 15)
   \<and> \<bar>15 :: real\<bar> \<le> 10 ^ 6 \<and> \<bar>4 :: real\<bar> \<le> 10 ^ 6
   \<and> 1 / 10 ^ 6 \<le> \<bar>3000 :: real\<bar> \<and> \<bar>3000 :: real\<bar> \<le> 10 ^ 9
   \<and> \<bar>10000 :: real\<bar> \<le> 10 ^ 9
   \<and> sorted (distances (traceRaySphericalWithPath 14 30
                          (\<lambda>z. makeIonosphereForFoF2 [z] 12 ''equinox'' ! 0) 10000))
   \<and> sorted (distances (traceRayWithAbsorption 14 30
                          (\<lambda>z. makeIonosphereForFoF2 [z] 12 ''equinox'' ! 0) 10000))
   \<and> sorted (distances (traceRay2DWithTilts 14 30 15 4 3000 10000 ''equinox''))
   \<and> sorted (distances (traceRay2DWithAbsorption 14 30 15 4 3000 10000 ''equinox''))"
proof -
  have ion: "\<forall>z. 0 \<le> makeIonosphereForFoF2 [z] 12 ''equinox'' ! 0
           \<and> makeIonosphereForFoF2 [z] 12 ''equinox'' ! 0 \<le> 10 ^ 15"
    using ionosphere_12_bounds by blast
  have n: "(0::real) < 30" "(30::real) < 90" "1 / 10 ^ 6 \<le> (14::real)" "(14::real) \<le> 10 ^ 12"
    "\<bar>15 :: real\<bar> \<le> 10 ^ 6" "\<bar>4 :: real\<bar> \<le> 10 ^ 6"
    "1 / 10 ^ 6 \<le> \<bar>3000 :: real\<bar>" "\<bar>3000 :: real\<bar> \<le> 10 ^ 9" "\<bar>10000 :: real\<bar> \<le> 10 ^ 9"
    by simp_all
  note t = C3_distances_non_decreasing [OF n(1,2,3,4) ion n(5,6,7,8,9), of "''equinox''"]
  show ?thesis
    by (intro conjI) (fact n ion t [THEN conjunct1] t [THEN conjunct2, THEN conjunct1]
        t [THEN conjunct2, THEN conjunct2, THEN conjunct1]
        t [THEN conjunct2, THEN conjunct2, THEN conjunct2])+
qed

text \<open>
  C3, as stated, fails: launched at 45 degrees with the frequency 0,
  \<^verbatim>\<open>traceRaySphericalWithPath\<close> computes \<^verbatim>\<open>X\<close> from \<^verbatim>\<open>0 / 0\<close>; the refractive index, the
  ray parameter and \<^verbatim>\<open>theta\<close> are \<^verbatim>\<open>NaN\<close>, the second distance is \<^verbatim>\<open>NaN\<close>, and
  \<^verbatim>\<open>NaN >= 0\<close> is false.
\<close>

theorem C3_zero_frequency_counterexample:
  "distances_js (traceRaySphericalWithPath_js (Fin 0) (Fin 45) (\<lambda>z. Fin 0) 1) = [Fin 0, NaN]
   \<and> \<not> js_le (Fin 0) NaN"
proof -
  have f: "js_mul (Fin 0) (Fin 1000000) = Fin 0" by simp
  have z: "js_sub (Fin R_E) (Fin R_E) = Fin 0" by (simp add: js_sub_def)
  have body: "body_path_js (Fin 0) NaN (\<lambda>z. Fin 0) (Fin 1) 0
        \<lparr>j_r = Fin R_E, j_theta = Fin 0, j_going_up = True, j_distances = [Fin 0],
         j_altitudes = [Fin 0]\<rparr>
      = Inr \<lparr>j_r = NaN, j_theta = NaN, j_going_up = True, j_distances = [Fin 0, NaN],
             j_altitudes = [Fin 0, NaN]\<rparr>"
    unfolding body_path_js_def
    by (simp add: z refractiveIndex_js_zero_frequency step_km_def)
  have "traceRaySphericalWithPath_js (Fin 0) (Fin 45) (\<lambda>z. Fin 0) 1
      = \<lparr>distances_js = [Fin 0, NaN], altitudes_js = [Fin 0, NaN], status_js = ''stops''\<rparr>"
    unfolding traceRaySphericalWithPath_js_def Let_def f refractiveIndex_js_zero_frequency
    by (simp add: step_km_def for_loop.simps [of 1 _ 0] for_loop.simps [of 1 _ "Suc 0"] body
        result_path_js_def)
  then show ?thesis by simp
qed

lemma n_complex_1D_no_plasma:
  "n_complex_1D f (\<lambda>z. 0) z = \<lparr>real_c = 1, imag_c = 0\<rparr>"
  by (simp add: n_complex_1D_def Ne_1D_def refractiveIndex_no_plasma)

lemma n_squared_one: "n_squared \<lparr>real_c = 1, imag_c = 0\<rparr> = \<lparr>real_c = 1, imag_c = 0\<rparr>"
  by (simp add: n_squared_def)


lemma alpha_no_plasma: "alpha omega \<lparr>real_c = 1, imag_c = 0\<rparr> = 0"
  by (simp add: alpha_def n_squared_def)









lemma for_loop_count:
  "case for_loop ms body 0 st of (k, Inl res) \<Rightarrow> int k < ms | (k, Inr s) \<Rightarrow> k = nat ms"
proof -
  let ?I = "\<lambda>k s. int k \<le> max 0 ms"
  have "case for_loop ms body 0 st of
          (k, Inl res) \<Rightarrow> \<exists>s. ?I k s \<and> int k < ms \<and> body k s = Inl res
        | (k, Inr s) \<Rightarrow> ?I k s \<and> \<not> int k < ms"
    by (rule for_loop_invariant [where I = ?I]) simp_all
  then show ?thesis by (auto split: prod.splits sum.splits)
qed

lemma for_loop_iterations:
  "iterations (for_loop ms body 0 st) \<le> nat ms"
  "snd (for_loop ms body 0 st) = Inr s \<Longrightarrow> fst (for_loop ms body 0 st) = nat ms"
  using for_loop_count [of ms body st]
  by (auto simp add: iterations_def split: prod.splits sum.splits)

text \<open>
  C8. Every call of each of the four tracers terminates, and its loop body is
  entered at most \<open>\<lfloor>max_distance_km / step_km\<rfloor>\<close> times (no time when that number is
  negative); \<open>step_km\<close> is 1, which makes 10000 iterations for the default
  \<open>max_distance_km\<close>. When the loop is left through its condition, with no
  \<^verbatim>\<open>return\<close> inside, exactly that many iterations were made and the status is
  \<open>''stops''\<close>. (Termination is the totality of \<open>for_loop\<close>, whose measure is
  \<open>max_steps - step\<close>.)
\<close>

theorem C8_iteration_bound:
  "iterations (run_path freq_MHz elevation_deg ionosphere_func max_distance_km)
      \<le> nat \<lfloor>max_distance_km / step_km\<rfloor>
   \<and> (\<forall>st. snd (run_path freq_MHz elevation_deg ionosphere_func max_distance_km) = Inr st \<longrightarrow>
         fst (run_path freq_MHz elevation_deg ionosphere_func max_distance_km)
           = nat \<lfloor>max_distance_km / step_km\<rfloor>
         \<and> status (traceRaySphericalWithPath freq_MHz elevation_deg ionosphere_func
                     max_distance_km) = ''stops'')
   \<and> iterations (run_abs freq_MHz elevation_deg ionosphere_func max_distance_km)
      \<le> nat \<lfloor>max_distance_km / step_km\<rfloor>
   \<and> (\<forall>st. snd (run_abs freq_MHz elevation_deg ionosphere_func max_distance_km) = Inr st \<longrightarrow>
         fst (run_abs freq_MHz elevation_deg ionosphere_func max_distance_km)
           = nat \<lfloor>max_distance_km / step_km\<rfloor>
         \<and> status (traceRayWithAbsorption freq_MHz elevation_deg ionosphere_func
                     max_distance_km) = ''stops'')
   \<and> iterations (run_tilts freq_MHz elevation_deg foF2_at_tx foF2_at_distance tilt_distance
                   max_distance_km season)
      \<le> nat \<lfloor>max_distance_km / step_km\<rfloor>
   \<and> (\<forall>st. snd (run_tilts freq_MHz elevation_deg foF2_at_tx foF2_at_distance tilt_distance
                   max_distance_km season) = Inr st \<longrightarrow>
         fst (run_tilts freq_MHz elevation_deg foF2_at_tx foF2_at_distance tilt_distance
                max_distance_km season)
           = nat \<lfloor>max_distance_km / step_km\<rfloor>
         \<and> status (traceRay2DWithTilts freq_MHz elevation_deg foF2_at_tx foF2_at_distance
                     tilt_distance max_distance_km season) = ''stops'')
   \<and> iterations (run_2d_abs freq_MHz elevation_deg foF2_at_tx foF2_at_distance tilt_distance
                   max_distance_km season)
      \<le> nat \<lfloor>max_distance_km / step_km\<rfloor>
   \<and> (\<forall>st. snd (run_2d_abs freq_MHz elevation_deg foF2_at_tx foF2_at_distance tilt_distance
                   max_distance_km season) = Inr st \<longrightarrow>
         fst (run_2d_abs freq_MHz elevation_deg foF2_at_tx foF2_at_distance tilt_distance
                max_distance_km season)
           = nat \<lfloor>max_distance_km / step_km\<rfloor>
         \<and> status (traceRay2DWithAbsorption freq_MHz elevation_deg foF2_at_tx foF2_at_distance
                     tilt_distance max_distance_km season) = ''stops'')
   \<and> step_km = 1 \<and> nat \<lfloor>default_max_distance_km / step_km\<rfloor> = 10000"
proof -
  have i1: "iterations (run_path freq_MHz elevation_deg ionosphere_func max_distance_km)
      \<le> nat \<lfloor>max_distance_km / step_km\<rfloor>"
    unfolding run_path_def Let_def by (rule for_loop_iterations(1))
  have r1: "fst (run_path freq_MHz elevation_deg ionosphere_func max_distance_km)
           = nat \<lfloor>max_distance_km / step_km\<rfloor>
         \<and> status (traceRaySphericalWithPath freq_MHz elevation_deg ionosphere_func
                     max_distance_km) = ''stops''"
    if "snd (run_path freq_MHz elevation_deg ionosphere_func max_distance_km) = Inr st" for st
    using that for_loop_iterations(2) [of _ _ init_path st]
    by (simp add: traceRaySphericalWithPath_def result_path_def run_path_def Let_def)
  have i2: "iterations (run_abs freq_MHz elevation_deg ionosphere_func max_distance_km)
      \<le> nat \<lfloor>max_distance_km / step_km\<rfloor>"
    unfolding run_abs_def Let_def by (rule for_loop_iterations(1))
  have r2: "fst (run_abs freq_MHz elevation_deg ionosphere_func max_distance_km)
           = nat \<lfloor>max_distance_km / step_km\<rfloor>
         \<and> status (traceRayWithAbsorption freq_MHz elevation_deg ionosphere_func
                     max_distance_km) = ''stops''"
    if "snd (run_abs freq_MHz elevation_deg ionosphere_func max_distance_km) = Inr st" for st
    using that for_loop_iterations(2) [of _ _ init_abs st]
    by (simp add: traceRayWithAbsorption_def result_abs_def run_abs_def Let_def)
  have i3: "iterations (run_tilts freq_MHz elevation_deg foF2_at_tx foF2_at_distance tilt_distance
                   max_distance_km season) \<le> nat \<lfloor>max_distance_km / step_km\<rfloor>"
    unfolding run_tilts_def Let_def by (rule for_loop_iterations(1))
  have r3: "fst (run_tilts freq_MHz elevation_deg foF2_at_tx foF2_at_distance tilt_distance
                max_distance_km season) = nat \<lfloor>max_distance_km / step_km\<rfloor>
         \<and> status (traceRay2DWithTilts freq_MHz elevation_deg foF2_at_tx foF2_at_distance
                     tilt_distance max_distance_km season) = ''stops''"
    if "snd (run_tilts freq_MHz elevation_deg foF2_at_tx foF2_at_distance tilt_distance
                   max_distance_km season) = Inr st" for st
    using that for_loop_iterations(2) [of _ _ init_tilts st]
    by (simp add: traceRay2DWithTilts_def result_tilts_def run_tilts_def Let_def)
  have i4: "iterations (run_2d_abs freq_MHz elevation_deg foF2_at_tx foF2_at_distance tilt_distance
                   max_distance_km season) \<le> nat \<lfloor>max_distance_km / step_km\<rfloor>"
    unfolding run_2d_abs_def Let_def by (rule for_loop_iterations(1))
  have r4: "fst (run_2d_abs freq_MHz elevation_deg foF2_at_tx foF2_at_distance tilt_distance
                max_distance_km season) = nat \<lfloor>max_distance_km / step_km\<rfloor>
         \<and> status (traceRay2DWithAbsorption freq_MHz elevation_deg foF2_at_tx foF2_at_distance
                     tilt_distance max_distance_km season) = ''stops''"
    if "snd (run_2d_abs freq_MHz elevation_deg foF2_at_tx foF2_at_distance tilt_distance
                   max_distance_km season) = Inr st" for st
    using that for_loop_iterations(2) [of _ _ init_2d_abs st]
    by (simp add: traceRay2DWithAbsorption_def result_2d_abs_def run_2d_abs_def Let_def)
  have i5: "step_km = 1 \<and> nat \<lfloor>default_max_distance_km / step_km\<rfloor> = 10000"
    by (simp add: step_km_def default_max_distance_km_def)
  from i1 r1 i2 r2 i3 r3 i4 r4 i5 show ?thesis by blast
qed

lemma advances_first_step:
  assumes "advances b k st st'" and "s_r st = R_E"
  shows "\<bar>(s_theta st' - s_theta st) * R_E\<bar> < 1"
proof -
  from assms(1) obtain n n2 s a where
    rs: "ray_step (s_r st - R_E) b (s_r st) (s_theta st) (s_going_up st) n n2
               = Some (s_going_up st', s, a, s_r st', s_theta st')"
    unfolding advances_def by blast
  have th: "s_theta st' = s_theta st + a * s / s_r st" using ray_step_SomeD(6) [OF rs] .
  have s: "\<bar>s\<bar> < 1" using ray_step_SomeD(2) [OF rs] .
  have a: "a = 1 / 2 \<or> a = 1" using ray_step_SomeD(3) [OF rs] .
  have "(s_theta st' - s_theta st) * R_E = a * s" using th assms(2) R_E_pos by simp
  moreover have "\<bar>a * s\<bar> < 1"
  proof -
    have a01: "0 \<le> a" "a \<le> 1" using a by auto
    have "\<bar>a * s\<bar> = a * \<bar>s\<bar>" using a01 by (simp add: abs_mult)
    also have "\<dots> \<le> 1 * \<bar>s\<bar>" using a01 by (intro mult_right_mono) simp_all
    finally show ?thesis using s by simp
  qed
  ultimately show ?thesis by simp
qed

lemma for_loop_once:
  "for_loop 1 body 0 st =
     (case body 0 st of Inl res \<Rightarrow> (0, Inl res) | Inr st' \<Rightarrow> (Suc 0, Inr st'))"
  by (simp add: for_loop.simps [of 1 body 0] for_loop.simps [of 1 body "Suc 0"]
      split: sum.splits)

lemma first_step_path: "\<exists>st'. body_path f b ion 1 0 init_path = Inr st'"
proof (rule body_path_cases [of init_path 0 f b ion 1])
  fix st' assume adv: "advances b 0 init_path st'" and gt: "1 < s_theta st' * R_E"
  from advances_first_step [OF adv] have "\<bar>s_theta st' * R_E\<bar> < 1"
    by (simp add: init_path_def)
  with gt show ?thesis by simp
qed (simp_all add: init_path_def)

lemma first_step_abs: "\<exists>st'. body_abs f b ion 1 0 init_abs = Inr st'"
proof (rule body_abs_cases [of init_abs 0 f b ion 1])
  fix st' assume adv: "advances b 0 init_abs st'" and gt: "1 < s_theta st' * R_E"
  from advances_first_step [OF adv] have "\<bar>s_theta st' * R_E\<bar> < 1"
    by (simp add: init_abs_def)
  with gt show ?thesis by simp
qed (simp_all add: init_abs_def)

lemma first_step_tilts: "\<exists>st'. body_tilts f b tx di td se 1 0 init_tilts = Inr st'"
proof (rule body_tilts_cases [of init_tilts 0 f b tx di td se 1])
  fix st' assume adv: "advances b 0 init_tilts st'" and gt: "1 < s_x st'"
    and x: "s_x st' = s_x init_tilts + \<bar>(s_theta st' - s_theta init_tilts) * R_E\<bar>"
  from advances_first_step [OF adv] x have "s_x st' < 1"
    by (simp add: init_tilts_def)
  with gt show ?thesis by simp
qed (simp_all add: init_tilts_def)

lemma first_step_2d_abs: "\<exists>st'. body_2d_abs f b tx di td se 1 0 init_2d_abs = Inr st'"
proof (rule body_2d_abs_cases [of init_2d_abs 0 f b tx di td se 1])
  fix st' assume adv: "advances b 0 init_2d_abs st'" and gt: "1 < s_x st'"
    and x: "s_x st' = s_x init_2d_abs + \<bar>(s_theta st' - s_theta init_2d_abs) * R_E\<bar>"
  from advances_first_step [OF adv] x have "s_x st' < 1"
    by (simp add: init_2d_abs_def)
  with gt show ?thesis by simp
qed (simp_all add: init_2d_abs_def)

lemma one_km_runs:
  "\<exists>st. run_path f e ion 1 = (1, Inr st)"
  "\<exists>st. run_abs f e ion 1 = (1, Inr st)"
  "\<exists>st. run_tilts f e tx di td 1 se = (1, Inr st)"
  "\<exists>st. run_2d_abs f e tx di td 1 se = (1, Inr st)"
proof -
  obtain st1 where "body_path (f * 1000000)
      (ray_parameter_1D (f * 1000000) (e * pi / 180.0) ion) ion 1 0 init_path = Inr st1"
    using first_step_path by blast
  then show "\<exists>st. run_path f e ion 1 = (1, Inr st)"
    by (simp add: run_path_def Let_def step_km_def for_loop_once)
  obtain st2 where "body_abs (f * 1000000)
      (ray_parameter_1D (f * 1000000) (e * pi / 180.0) ion) ion 1 0 init_abs = Inr st2"
    using first_step_abs by blast
  then show "\<exists>st. run_abs f e ion 1 = (1, Inr st)"
    by (simp add: run_abs_def Let_def step_km_def for_loop_once)
  obtain st3 where "body_tilts (f * 1000000)
      (ray_parameter_2D (f * 1000000) (e * pi / 180.0) tx di td se) tx di td se 1 0 init_tilts
        = Inr st3"
    using first_step_tilts by blast
  then show "\<exists>st. run_tilts f e tx di td 1 se = (1, Inr st)"
    by (simp add: run_tilts_def Let_def step_km_def for_loop_once)
  obtain st4 where "body_2d_abs (f * 1000000)
      (ray_parameter_2D (f * 1000000) (e * pi / 180.0) tx di td se) tx di td se 1 0 init_2d_abs
        = Inr st4"
    using first_step_2d_abs by blast
  then show "\<exists>st. run_2d_abs f e tx di td 1 se = (1, Inr st)"
    by (simp add: run_2d_abs_def Let_def step_km_def for_loop_once)
qed

theorem C8_iteration_bound_witness:
  "(\<exists>st. snd (run_path 14 30 (\<lambda>z. makeIonosphereForFoF2 [z] 12 ''equinox'' ! 0) 1) = Inr st)
   \<and> iterations (run_path 14 30 (\<lambda>z. makeIonosphereForFoF2 [z] 12 ''equinox'' ! 0) 1) \<le> 1
   \<and> fst (run_path 14 30 (\<lambda>z. makeIonosphereForFoF2 [z] 12 ''equinox'' ! 0) 1) = 1
   \<and> status (traceRaySphericalWithPath 14 30
               (\<lambda>z. makeIonosphereForFoF2 [z] 12 ''equinox'' ! 0) 1) = ''stops''
   \<and> (\<exists>st. snd (run_abs 14 30 (\<lambda>z. makeIonosphereForFoF2 [z] 12 ''equinox'' ! 0) 1) = Inr st)
   \<and> status (traceRayWithAbsorption 14 30
               (\<lambda>z. makeIonosphereForFoF2 [z] 12 ''equinox'' ! 0) 1) = ''stops''
   \<and> (\<exists>st. snd (run_tilts 14 30 15 4 3000 1 ''equinox'') = Inr st)
   \<and> status (traceRay2DWithTilts 14 30 15 4 3000 1 ''equinox'') = ''stops''
   \<and> (\<exists>st. snd (run_2d_abs 14 30 15 4 3000 1 ''equinox'') = Inr st)
   \<and> status (traceRay2DWithAbsorption 14 30 15 4 3000 1 ''equinox'') = ''stops''"
proof -
  let ?ion = "\<lambda>z. makeIonosphereForFoF2 [z] 12 ''equinox'' ! 0"
  obtain st1 where 1: "snd (run_path 14 30 ?ion 1) = Inr st1"
    using one_km_runs(1) [of 14 30 ?ion] by auto
  obtain st2 where 2: "snd (run_abs 14 30 ?ion 1) = Inr st2"
    using one_km_runs(2) [of 14 30 ?ion] by auto
  obtain st3 where 3: "snd (run_tilts 14 30 15 4 3000 1 ''equinox'') = Inr st3"
    using one_km_runs(3) [of 14 30 15 4 3000 "''equinox''"] by auto
  obtain st4 where 4: "snd (run_2d_abs 14 30 15 4 3000 1 ''equinox'') = Inr st4"
    using one_km_runs(4) [of 14 30 15 4 3000 "''equinox''"] by auto
  show ?thesis
    using C8_iteration_bound [of 14 30 ?ion 1 15 4 3000 "''equinox''"] 1 2 3 4
    by (simp add: step_km_def)
qed




lemma ray_step_vertical:
  "0 < r \<Longrightarrow> ray_step z 0 r th g 1 1 =
     (if z > 800 \<and> g then None else Some (g, 0, 1, r + (if g then 1 else - 1), th))"
  by (simp add: ray_step_def ray_direction_def adaptive_step_def step_km_def)

lemma getRefractiveIndex_no_plasma:
  "z < 0 \<or> 600 < z \<Longrightarrow> getRefractiveIndex f tx di td se z x = \<lparr>real_c = 1, imag_c = 0\<rparr>"
  by (auto simp add: getRefractiveIndex_def Ne_2D_def refractiveIndex_no_plasma)









text \<open>
  C1, as stated, fails in the 1D tracers: at the altitude 700 km they compute the
  refractive index from the value of the density function, not from 0.
\<close>

theorem C1_density_above_600_counterexample:
  "(600::real) < 700 \<and> Ne_1D (\<lambda>z. 1000000) 700 = 1000000
   \<and> n_complex_1D 14000000 (\<lambda>z. 1000000) 700
       = refractiveIndex 1000000 14000000 (collisionFrequency 700)"
  by (simp add: Ne_1D_def n_complex_1D_def)

lemma cos_atan2_nonpos: "x < 0 \<Longrightarrow> cos (atan2 y x) \<le> 0"
proof -
  assume x: "x < 0"
  have "0 < cos (arctan (y / x))"
    by (rule cos_gt_zero_pi [OF arctan_lbound arctan_ubound])
  then show ?thesis using x by (simp add: atan2_def)
qed

lemma n_squared_real:
  "real_c (n_squared \<lparr>real_c = m * cos (t / 2), imag_c = m * sin (t / 2)\<rparr>) = m * m * cos t"
proof -
  have "cos t = cos (2 * (t / 2))" by simp
  also have "\<dots> = (cos (t / 2))\<^sup>2 - (sin (t / 2))\<^sup>2" by (rule cos_double)
  finally have c: "cos t = cos (t / 2) * cos (t / 2) - sin (t / 2) * sin (t / 2)"
    by (simp only: power2_eq_square)
  have "m * cos (t / 2) * (m * cos (t / 2)) - m * sin (t / 2) * (m * sin (t / 2))
      = m * m * (cos (t / 2) * cos (t / 2) - sin (t / 2) * sin (t / 2))"
    by (simp add: algebra_simps)
  then show ?thesis unfolding c by (simp add: n_squared_def)
qed

text \<open>Where the real part of \<open>n\<^sup>2\<close> is negative, \<^verbatim>\<open>n2_real\<close> is not positive.\<close>

lemma n2_real_nonpos:
  assumes "1 - (2 * pi * plasmaFrequencyFromNe Ne / (2 * pi * f))\<^sup>2
               / (1 + nu / (2 * pi * f) * (nu / (2 * pi * f))) < 0"
  shows "real_c (n_squared (refractiveIndex Ne f nu)) \<le> 0"
proof -
  define x where "x = 1 - (2 * pi * plasmaFrequencyFromNe Ne / (2 * pi * f))\<^sup>2
               / (1 + nu / (2 * pi * f) * (nu / (2 * pi * f)))"
  define y where "y = (2 * pi * plasmaFrequencyFromNe Ne / (2 * pi * f))\<^sup>2 * (nu / (2 * pi * f))
               / (1 + nu / (2 * pi * f) * (nu / (2 * pi * f)))"
  define m where "m = sqrt (sqrt (x * x + y * y))"
  have r: "refractiveIndex Ne f nu
      = \<lparr>real_c = m * cos (atan2 y x / 2), imag_c = m * sin (atan2 y x / 2)\<rparr>"
    by (simp add: refractiveIndex_def Let_def m_def x_def y_def)
  have "m * m * cos (atan2 y x) \<le> 0"
    using cos_atan2_nonpos [of x y] assms
    by (intro mult_nonneg_nonpos) (simp_all add: x_def)
  then show ?thesis unfolding r n_squared_real .
qed

lemma dense_at_700:
  "real_c (n_squared (n_complex_1D 14000000 (\<lambda>z. if z > 600 then 10 ^ 13 else 0) 700)) \<le> 0"
proof -
  define v :: real where
    "v = 10 ^ 13 * (1.602176634 / 10 ^ 19) * (1.602176634 / 10 ^ 19)
           / (8.8541878128 / 10 ^ 12 * (9.1093837015 / 10 ^ 31))"
  define w :: real where "w = 2 * pi * 14000000"
  have v: "3 * 10 ^ 16 \<le> v" by (simp add: v_def)
  have w: "56000000 \<le> w" "w \<le> 112000000"
    using pi_ge_two pi_less_4 by (simp_all add: w_def)
  have pf: "2 * pi * plasmaFrequencyFromNe (10 ^ 13) = sqrt v"
    using pi_gt_zero by (simp add: plasmaFrequencyFromNe_def v_def)
  have X: "(sqrt v / w)\<^sup>2 = v / (w * w)"
    using v by (simp add: power_divide power2_eq_square)
  have "w * w \<le> 112000000 * 112000000" using w by (intro mult_mono) simp_all
  then have ww: "w * w \<le> 12544 * 10 ^ 12" "0 < w * w" using w by simp_all
  have "2 < 3 * 10 ^ 16 / (12544 * 10 ^ 12 :: real)" by simp
  also have "\<dots> \<le> v / (12544 * 10 ^ 12)" using v by (intro divide_right_mono) simp_all
  also have "\<dots> \<le> v / (w * w)" using ww v by (intro divide_left_mono) simp_all
  finally have X2: "2 < (sqrt v / w)\<^sup>2" unfolding X .
  define zt where "zt = 1000 / w"
  have Z: "0 \<le> zt" "zt \<le> 1"
    using w by (simp_all add: zt_def)
  have "zt * zt \<le> 1" using Z by (simp add: mult_le_one)
  moreover have "0 \<le> zt * zt" by simp
  ultimately have d: "0 < 1 + zt * zt" "1 + zt * zt \<le> 2" by linarith+
  have "1 < (sqrt v / w)\<^sup>2 / (1 + zt * zt)"
    using X2 d by (simp add: less_divide_eq)
  then have neg: "1 - (sqrt v / w)\<^sup>2 / (1 + 1000 / w * (1000 / w)) < 0"
    unfolding zt_def by simp
  have "real_c (n_squared (refractiveIndex (10 ^ 13) 14000000 1000)) \<le> 0"
    by (rule n2_real_nonpos) (use neg in \<open>simp only: pf w_def\<close>)
  then show ?thesis
    by (simp add: n_complex_1D_def Ne_1D_def collisionFrequency_def)
qed

lemma ray_step_reflects:
  assumes "n2 \<le> 0" and "ray_step z b r th g n n2 = Some (g', s, a, r', th')"
  shows "\<not> g'"
proof -
  define s1 where "s1 = (if \<bar>n\<bar> < 1 / 10 ^ 8 then 1 else b / (n * r))"
  have g1: "(if \<bar>n\<bar> < 1 / 10 ^ 8 then False else if n2 \<le> 0 then False else g) = False"
    using assms(1) by simp
  have rd: "ray_direction z b r g n n2 =
     (if \<bar>s1\<bar> \<ge> 1 then Some (False, sgn s1 * 0.999) else Some (False, s1))"
    unfolding ray_direction_unfold g1 s1_def [symmetric] Let_def by simp
  show ?thesis
    using assms(2) unfolding ray_step_def rd by (simp add: Let_def split: if_splits)
qed

lemma body_path_reflects:
  assumes "real_c (n_squared (n_complex_1D f ion (s_r st - R_E))) \<le> 0"
  shows "case body_path f b ion m k st of Inl res \<Rightarrow> True | Inr st' \<Rightarrow> \<not> s_going_up st'"
proof (cases "body_path f b ion m k st")
  case (Inl res)
  then show ?thesis by simp
next
  case (Inr st')
  then obtain g s a r th where
    rs: "ray_step (s_r st - R_E) b (s_r st) (s_theta st) (s_going_up st)
           (real_c (n_complex_1D f ion (s_r st - R_E)))
           (real_c (n_squared (n_complex_1D f ion (s_r st - R_E)))) = Some (g, s, a, r, th)"
    and g: "s_going_up st' = g"
    by (auto simp add: body_path_def Let_def split: if_splits option.splits)
  from ray_step_reflects [OF assms rs] g Inr show ?thesis by simp
qed

lemma body_abs_reflects:
  assumes "real_c (n_squared (n_complex_1D f ion (s_r st - R_E))) \<le> 0"
  shows "case body_abs f b ion m k st of Inl res \<Rightarrow> True | Inr st' \<Rightarrow> \<not> s_going_up st'"
proof (cases "body_abs f b ion m k st")
  case (Inl res)
  then show ?thesis by simp
next
  case (Inr st')
  then obtain g s a r th where
    rs: "ray_step (s_r st - R_E) b (s_r st) (s_theta st) (s_going_up st)
           (real_c (n_complex_1D f ion (s_r st - R_E)))
           (real_c (n_squared (n_complex_1D f ion (s_r st - R_E)))) = Some (g, s, a, r, th)"
    and g: "s_going_up st' = g"
    by (auto simp add: body_abs_def Let_def split: if_splits option.splits)
  from ray_step_reflects [OF assms rs] g Inr show ?thesis by simp
qed

lemma up_at_700:
  "body_path 14000000 0 (\<lambda>z. 0) 10000 700
     \<lparr>s_r = R_E + 700, s_theta = 0, s_going_up = True, s_distances = [0, 0],
      s_altitudes = [0, 700]\<rparr>
   = Inr \<lparr>s_r = R_E + 701, s_theta = 0, s_going_up = True, s_distances = [0, 0, 0],
          s_altitudes = [0, 700, 701]\<rparr>"
  "body_abs 14000000 0 (\<lambda>z. 0) 10000 700
     \<lparr>s_r = R_E + 700, s_theta = 0, s_going_up = True, s_distances = [0, 0],
      s_altitudes = [0, 700], s_total_loss_nepers = 0\<rparr>
   = Inr \<lparr>s_r = R_E + 701, s_theta = 0, s_going_up = True, s_distances = [0, 0, 0],
          s_altitudes = [0, 700, 701], s_total_loss_nepers = 0\<rparr>"
  by (simp_all add: body_path_def body_abs_def n_complex_1D_no_plasma n_squared_one
      ray_step_vertical alpha_no_plasma R_E_def)

lemma sensitive_at_700:
  "body_path 14000000 0 (\<lambda>z. if z > 600 then 10 ^ 13 else 0) 10000 700
     \<lparr>s_r = R_E + 700, s_theta = 0, s_going_up = True, s_distances = [0, 0],
      s_altitudes = [0, 700]\<rparr>
   \<noteq> body_path 14000000 0 (\<lambda>z. 0) 10000 700
     \<lparr>s_r = R_E + 700, s_theta = 0, s_going_up = True, s_distances = [0, 0],
      s_altitudes = [0, 700]\<rparr>"
  "body_abs 14000000 0 (\<lambda>z. if z > 600 then 10 ^ 13 else 0) 10000 700
     \<lparr>s_r = R_E + 700, s_theta = 0, s_going_up = True, s_distances = [0, 0],
      s_altitudes = [0, 700], s_total_loss_nepers = 0\<rparr>
   \<noteq> body_abs 14000000 0 (\<lambda>z. 0) 10000 700
     \<lparr>s_r = R_E + 700, s_theta = 0, s_going_up = True, s_distances = [0, 0],
      s_altitudes = [0, 700], s_total_loss_nepers = 0\<rparr>"
proof -
  let ?st = "\<lparr>s_r = R_E + 700, s_theta = 0, s_going_up = True, s_distances = [0, 0],
      s_altitudes = [0, 700]\<rparr>"
  let ?sta = "\<lparr>s_r = R_E + 700, s_theta = 0, s_going_up = True, s_distances = [0, 0],
      s_altitudes = [0, 700], s_total_loss_nepers = 0\<rparr>"
  have d: "real_c (n_squared (n_complex_1D 14000000 (\<lambda>z. if z > 600 then 10 ^ 13 else 0)
              (s_r ?st - R_E))) \<le> 0"
       "real_c (n_squared (n_complex_1D 14000000 (\<lambda>z. if z > 600 then 10 ^ 13 else 0)
              (s_r ?sta - R_E))) \<le> 0"
    using dense_at_700 by simp_all
  show "body_path 14000000 0 (\<lambda>z. if z > 600 then 10 ^ 13 else 0) 10000 700 ?st
        \<noteq> body_path 14000000 0 (\<lambda>z. 0) 10000 700 ?st"
    using body_path_reflects [OF d(1), of 0 10000 700] unfolding up_at_700
    by (auto split: sum.splits)
  show "body_abs 14000000 0 (\<lambda>z. if z > 600 then 10 ^ 13 else 0) 10000 700 ?sta
        \<noteq> body_abs 14000000 0 (\<lambda>z. 0) 10000 700 ?sta"
    using body_abs_reflects [OF d(2), of 0 10000 700] unfolding up_at_700
    by (auto split: sum.splits)
qed

lemma n_complex_1D_explicit:
  "n_complex_1D freq_Hz ionosphere_func z
     = refractiveIndex (if z < 0 then 0 else ionosphere_func z) freq_Hz
         (collisionFrequency (max 0 z))"
  by (simp add: n_complex_1D_def Ne_1D_def not_less)

lemma getRefractiveIndex_explicit:
  "getRefractiveIndex freq_Hz foF2_at_tx foF2_at_distance tilt_distance season
     = (\<lambda>z x_dist.
          refractiveIndex
            (if z < 0 then 0
             else if z \<le> 600 then
               electronDensity2DSingle z x_dist foF2_at_tx foF2_at_distance tilt_distance season
             else 0)
            freq_Hz (collisionFrequency (max 0 z)))"
  by (intro ext) (simp add: getRefractiveIndex_def Ne_2D_def not_less)

lemma dn_dx_cong:
  assumes "gri z = gri' z"
  shows "dn_dx gri z x n = dn_dx gri' z x n"
  unfolding dn_dx_def assms ..

lemma getRefractiveIndex_outside:
  assumes "z < 0 \<or> 600 < z"
  shows "getRefractiveIndex f tx di td se z = getRefractiveIndex f tx' di' td' se' z"
  using assms by (intro ext) (simp add: getRefractiveIndex_no_plasma)

lemma body_tilts_outside:
  assumes "s_r st - R_E < 0 \<or> 600 < s_r st - R_E"
  shows "body_tilts f b tx di td se m k st = body_tilts f b tx' di' td' se' m k st"
  unfolding body_tilts_def Let_def
    dn_dx_cong [of "getRefractiveIndex f tx di td se" "s_r st - R_E"
      "getRefractiveIndex f tx' di' td' se'",
      OF getRefractiveIndex_outside [OF assms, of f tx di td se tx' di' td' se']]
    getRefractiveIndex_outside [OF assms, of f tx di td se tx' di' td' se']
  by (rule refl)

lemma body_2d_abs_outside:
  assumes "s_r st - R_E < 0 \<or> 600 < s_r st - R_E"
  shows "body_2d_abs f b tx di td se m k st = body_2d_abs f b tx' di' td' se' m k st"
  unfolding body_2d_abs_def Let_def
    dn_dx_cong [of "getRefractiveIndex f tx di td se" "s_r st - R_E"
      "getRefractiveIndex f tx' di' td' se'",
      OF getRefractiveIndex_outside [OF assms, of f tx di td se tx' di' td' se']]
    getRefractiveIndex_outside [OF assms, of f tx di td se tx' di' td' se']
  by (rule refl)

text \<open>
  C1, as amended. In every iteration the 1D tracers (path and absorption) compute
  the refractive index from the density 0 when \<open>z < 0\<close> and from the value of the
  density function for every \<open>z \<ge> 0\<close>, also above 600 km. The 2D tracers (tilts and
  absorption) compute it, at the ray and at the two sample points of the horizontal
  gradient, from 0 when \<open>z < 0\<close>, from the 2D density when \<open>z\<close> is in \<open>[0, 600]\<close>, and
  from 0 above. The collision frequency is taken at \<open>max 0 z\<close> in all four.

  The first, second, fifth and sixth conjunct are the four loop bodies with the
  density written out. The third and fourth show a 1D iteration at 700 km that
  depends on the density there: with \<open>10\<^sup>13\<close> electrons per cubic metre above 600 km
  the ray is turned down (or the function returns), with none it goes on upwards.
  The last two state that outside \<open>[0, 600]\<close> km an iteration of a 2D tracer does not
  depend on the foF2 values, the tilt distance or the season.
\<close>

theorem C1_density_used_by_the_tracers:
  "body_path freq_Hz b ionosphere_func max_distance_km step st1
     = (let z = s_r st1 - R_E
        in if z < 0.0 \<and> step > 10 then Inl (result_path st1 ''returns'')
           else
             let Ne = (if z < 0 then 0 else ionosphere_func z);
                 n_complex = refractiveIndex Ne freq_Hz (collisionFrequency (max 0 z));
                 n_real = real_c n_complex;
                 n2_real = real_c (n_squared n_complex)
             in case ray_step z b (s_r st1) (s_theta st1) (s_going_up st1) n_real n2_real of
                  None \<Rightarrow> Inl (result_path st1 ''escapes'')
                | Some (going_up, sin_psi, adaptive_step_v, r, theta) \<Rightarrow>
                    let st' = st1\<lparr>s_r := r, s_theta := theta, s_going_up := going_up,
                                  s_distances := s_distances st1 @ [theta * R_E],
                                  s_altitudes := s_altitudes st1 @ [r - R_E]\<rparr>
                    in if theta * R_E > max_distance_km then Inl (result_path st' ''stops'')
                       else Inr st')
   \<and> body_abs freq_Hz b ionosphere_func max_distance_km step st2
     = (let omega = 2.0 * pi * freq_Hz;
            z = s_r st2 - R_E
        in if z < 0.0 \<and> step > 10 then Inl (result_abs st2 ''returns'')
           else
             let Ne = (if z < 0 then 0 else ionosphere_func z);
                 n_complex = refractiveIndex Ne freq_Hz (collisionFrequency (max 0 z));
                 n_real = real_c n_complex;
                 n2_real = real_c (n_squared n_complex);
                 alpha_v = alpha omega n_complex
             in case ray_step z b (s_r st2) (s_theta st2) (s_going_up st2) n_real n2_real of
                  None \<Rightarrow> Inl (result_abs st2 ''escapes'')
                | Some (going_up, sin_psi, adaptive_step_v, r, theta) \<Rightarrow>
                    let path_length_m = adaptive_step_v * 1000.0;
                        st' = st2\<lparr>s_r := r, s_theta := theta, s_going_up := going_up,
                                  s_distances := s_distances st2 @ [theta * R_E],
                                  s_altitudes := s_altitudes st2 @ [r - R_E],
                                  s_total_loss_nepers :=
                                    s_total_loss_nepers st2 + alpha_v * path_length_m\<rparr>
                    in if theta * R_E > max_distance_km then Inl (result_abs st' ''stops'')
                       else Inr st')
   \<and> body_path 14000000 0 (\<lambda>z. if z > 600 then 10 ^ 13 else 0) 10000 700
       \<lparr>s_r = R_E + 700, s_theta = 0, s_going_up = True, s_distances = [0, 0],
        s_altitudes = [0, 700]\<rparr>
     \<noteq> body_path 14000000 0 (\<lambda>z. 0) 10000 700
       \<lparr>s_r = R_E + 700, s_theta = 0, s_going_up = True, s_distances = [0, 0],
        s_altitudes = [0, 700]\<rparr>
   \<and> body_abs 14000000 0 (\<lambda>z. if z > 600 then 10 ^ 13 else 0) 10000 700
       \<lparr>s_r = R_E + 700, s_theta = 0, s_going_up = True, s_distances = [0, 0],
        s_altitudes = [0, 700], s_total_loss_nepers = 0\<rparr>
     \<noteq> body_abs 14000000 0 (\<lambda>z. 0) 10000 700
       \<lparr>s_r = R_E + 700, s_theta = 0, s_going_up = True, s_distances = [0, 0],
        s_altitudes = [0, 700], s_total_loss_nepers = 0\<rparr>
   \<and> body_tilts freq_Hz b foF2_at_tx foF2_at_distance tilt_distance season max_distance_km step st3
     = (let z = s_r st3 - R_E
        in if z < 0.0 \<and> step > 10 then Inl (result_tilts st3 ''returns'')
           else
             let gri = (\<lambda>z x_dist.
                          refractiveIndex
                            (if z < 0 then 0
                             else if z \<le> 600 then
                               electronDensity2DSingle z x_dist foF2_at_tx foF2_at_distance
                                 tilt_distance season
                             else 0)
                            freq_Hz (collisionFrequency (max 0 z)));
                 n_complex = gri z (s_x st3);
                 n_real = real_c n_complex;
                 n2_real = real_c (n_squared n_complex);
                 dn_dx_v = dn_dx gri z (s_x st3) n_real
             in case ray_step z b (s_r st3) (s_theta st3) (s_going_up st3) n_real n2_real of
                  None \<Rightarrow> Inl (result_tilts st3 ''escapes'')
                | Some (going_up, sin_psi, adaptive_step_v, r, theta) \<Rightarrow>
                    let dphi_v = dphi dn_dx_v n_real sin_psi adaptive_step_v;
                        d_theta = adaptive_step_v * sin_psi / s_r st3;
                        x = s_x st3 + \<bar>d_theta * R_E\<bar>;
                        phi = s_phi st3 + dphi_v;
                        st' = st3\<lparr>s_r := r, s_theta := theta, s_going_up := going_up,
                                  s_distances := s_distances st3 @ [theta * R_E],
                                  s_altitudes := s_altitudes st3 @ [r - R_E],
                                  s_x := x, s_phi := phi,
                                  s_azimuths := s_azimuths st3 @ [phi]\<rparr>
                    in if x > max_distance_km then Inl (result_tilts st' ''stops'')
                       else Inr st')
   \<and> body_2d_abs freq_Hz b foF2_at_tx foF2_at_distance tilt_distance season max_distance_km step
       st4
     = (let omega = 2.0 * pi * freq_Hz;
            z = s_r st4 - R_E
        in if z < 0.0 \<and> step > 10 then Inl (result_2d_abs st4 ''returns'')
           else
             let gri = (\<lambda>z x_dist.
                          refractiveIndex
                            (if z < 0 then 0
                             else if z \<le> 600 then
                               electronDensity2DSingle z x_dist foF2_at_tx foF2_at_distance
                                 tilt_distance season
                             else 0)
                            freq_Hz (collisionFrequency (max 0 z)));
                 n_complex = gri z (s_x st4);
                 n_real = real_c n_complex;
                 n2_real = real_c (n_squared n_complex);
                 alpha_v = alpha omega n_complex;
                 dn_dx_v = dn_dx gri z (s_x st4) n_real
             in case ray_step z b (s_r st4) (s_theta st4) (s_going_up st4) n_real n2_real of
                  None \<Rightarrow> Inl (result_2d_abs st4 ''escapes'')
                | Some (going_up, sin_psi, adaptive_step_v, r, theta) \<Rightarrow>
                    let path_length_m = adaptive_step_v * 1000.0;
                        dphi_v = dphi dn_dx_v n_real sin_psi adaptive_step_v;
                        d_theta = adaptive_step_v * sin_psi / s_r st4;
                        x = s_x st4 + \<bar>d_theta * R_E\<bar>;
                        phi = s_phi st4 + dphi_v;
                        st' = st4\<lparr>s_r := r, s_theta := theta, s_going_up := going_up,
                                  s_distances := s_distances st4 @ [theta * R_E],
                                  s_altitudes := s_altitudes st4 @ [r - R_E],
                                  s_x := x, s_phi := phi,
                                  s_azimuths := s_azimuths st4 @ [phi],
                                  s_total_loss_nepers_2d :=
                                    s_total_loss_nepers_2d st4 + alpha_v * path_length_m\<rparr>
                    in if x > max_distance_km then Inl (result_2d_abs st' ''stops'')
                       else Inr st')
   \<and> (s_r st3 - R_E < 0 \<or> 600 < s_r st3 - R_E \<longrightarrow>
        body_tilts freq_Hz b foF2_at_tx foF2_at_distance tilt_distance season max_distance_km
          step st3
        = body_tilts freq_Hz b foF2_at_tx' foF2_at_distance' tilt_distance' season'
            max_distance_km step st3)
   \<and> (s_r st4 - R_E < 0 \<or> 600 < s_r st4 - R_E \<longrightarrow>
        body_2d_abs freq_Hz b foF2_at_tx foF2_at_distance tilt_distance season max_distance_km
          step st4
        = body_2d_abs freq_Hz b foF2_at_tx' foF2_at_distance' tilt_distance' season'
            max_distance_km step st4)"
proof -
  have p: "body_path freq_Hz b ionosphere_func max_distance_km step st1
     = (let z = s_r st1 - R_E
        in if z < 0.0 \<and> step > 10 then Inl (result_path st1 ''returns'')
           else
             let Ne = (if z < 0 then 0 else ionosphere_func z);
                 n_complex = refractiveIndex Ne freq_Hz (collisionFrequency (max 0 z));
                 n_real = real_c n_complex;
                 n2_real = real_c (n_squared n_complex)
             in case ray_step z b (s_r st1) (s_theta st1) (s_going_up st1) n_real n2_real of
                  None \<Rightarrow> Inl (result_path st1 ''escapes'')
                | Some (going_up, sin_psi, adaptive_step_v, r, theta) \<Rightarrow>
                    let st' = st1\<lparr>s_r := r, s_theta := theta, s_going_up := going_up,
                                  s_distances := s_distances st1 @ [theta * R_E],
                                  s_altitudes := s_altitudes st1 @ [r - R_E]\<rparr>
                    in if theta * R_E > max_distance_km then Inl (result_path st' ''stops'')
                       else Inr st')"
    unfolding body_path_def n_complex_1D_explicit Let_def by (rule refl)
  have a: "body_abs freq_Hz b ionosphere_func max_distance_km step st2
     = (let omega = 2.0 * pi * freq_Hz;
            z = s_r st2 - R_E
        in if z < 0.0 \<and> step > 10 then Inl (result_abs st2 ''returns'')
           else
             let Ne = (if z < 0 then 0 else ionosphere_func z);
                 n_complex = refractiveIndex Ne freq_Hz (collisionFrequency (max 0 z));
                 n_real = real_c n_complex;
                 n2_real = real_c (n_squared n_complex);
                 alpha_v = alpha omega n_complex
             in case ray_step z b (s_r st2) (s_theta st2) (s_going_up st2) n_real n2_real of
                  None \<Rightarrow> Inl (result_abs st2 ''escapes'')
                | Some (going_up, sin_psi, adaptive_step_v, r, theta) \<Rightarrow>
                    let path_length_m = adaptive_step_v * 1000.0;
                        st' = st2\<lparr>s_r := r, s_theta := theta, s_going_up := going_up,
                                  s_distances := s_distances st2 @ [theta * R_E],
                                  s_altitudes := s_altitudes st2 @ [r - R_E],
                                  s_total_loss_nepers :=
                                    s_total_loss_nepers st2 + alpha_v * path_length_m\<rparr>
                    in if theta * R_E > max_distance_km then Inl (result_abs st' ''stops'')
                       else Inr st')"
    unfolding body_abs_def n_complex_1D_explicit Let_def by (rule refl)
  have t: "body_tilts freq_Hz b foF2_at_tx foF2_at_distance tilt_distance season max_distance_km step st3
     = (let z = s_r st3 - R_E
        in if z < 0.0 \<and> step > 10 then Inl (result_tilts st3 ''returns'')
           else
             let gri = (\<lambda>z x_dist.
                          refractiveIndex
                            (if z < 0 then 0
                             else if z \<le> 600 then
                               electronDensity2DSingle z x_dist foF2_at_tx foF2_at_distance
                                 tilt_distance season
                             else 0)
                            freq_Hz (collisionFrequency (max 0 z)));
                 n_complex = gri z (s_x st3);
                 n_real = real_c n_complex;
                 n2_real = real_c (n_squared n_complex);
                 dn_dx_v = dn_dx gri z (s_x st3) n_real
             in case ray_step z b (s_r st3) (s_theta st3) (s_going_up st3) n_real n2_real of
                  None \<Rightarrow> Inl (result_tilts st3 ''escapes'')
                | Some (going_up, sin_psi, adaptive_step_v, r, theta) \<Rightarrow>
                    let dphi_v = dphi dn_dx_v n_real sin_psi adaptive_step_v;
                        d_theta = adaptive_step_v * sin_psi / s_r st3;
                        x = s_x st3 + \<bar>d_theta * R_E\<bar>;
                        phi = s_phi st3 + dphi_v;
                        st' = st3\<lparr>s_r := r, s_theta := theta, s_going_up := going_up,
                                  s_distances := s_distances st3 @ [theta * R_E],
                                  s_altitudes := s_altitudes st3 @ [r - R_E],
                                  s_x := x, s_phi := phi,
                                  s_azimuths := s_azimuths st3 @ [phi]\<rparr>
                    in if x > max_distance_km then Inl (result_tilts st' ''stops'')
                       else Inr st')"
    unfolding body_tilts_def getRefractiveIndex_explicit Let_def by (rule refl)
  have d: "body_2d_abs freq_Hz b foF2_at_tx foF2_at_distance tilt_distance season max_distance_km step
       st4
     = (let omega = 2.0 * pi * freq_Hz;
            z = s_r st4 - R_E
        in if z < 0.0 \<and> step > 10 then Inl (result_2d_abs st4 ''returns'')
           else
             let gri = (\<lambda>z x_dist.
                          refractiveIndex
                            (if z < 0 then 0
                             else if z \<le> 600 then
                               electronDensity2DSingle z x_dist foF2_at_tx foF2_at_distance
                                 tilt_distance season
                             else 0)
                            freq_Hz (collisionFrequency (max 0 z)));
                 n_complex = gri z (s_x st4);
                 n_real = real_c n_complex;
                 n2_real = real_c (n_squared n_complex);
                 alpha_v = alpha omega n_complex;
                 dn_dx_v = dn_dx gri z (s_x st4) n_real
             in case ray_step z b (s_r st4) (s_theta st4) (s_going_up st4) n_real n2_real of
                  None \<Rightarrow> Inl (result_2d_abs st4 ''escapes'')
                | Some (going_up, sin_psi, adaptive_step_v, r, theta) \<Rightarrow>
                    let path_length_m = adaptive_step_v * 1000.0;
                        dphi_v = dphi dn_dx_v n_real sin_psi adaptive_step_v;
                        d_theta = adaptive_step_v * sin_psi / s_r st4;
                        x = s_x st4 + \<bar>d_theta * R_E\<bar>;
                        phi = s_phi st4 + dphi_v;
                        st' = st4\<lparr>s_r := r, s_theta := theta, s_going_up := going_up,
                                  s_distances := s_distances st4 @ [theta * R_E],
                                  s_altitudes := s_altitudes st4 @ [r - R_E],
                                  s_x := x, s_phi := phi,
                                  s_azimuths := s_azimuths st4 @ [phi],
                                  s_total_loss_nepers_2d :=
                                    s_total_loss_nepers_2d st4 + alpha_v * path_length_m\<rparr>
                    in if x > max_distance_km then Inl (result_2d_abs st' ''stops'')
                       else Inr st')"
    unfolding body_2d_abs_def getRefractiveIndex_explicit Let_def by (rule refl)
  note s = sensitive_at_700
  have o3: "s_r st3 - R_E < 0 \<or> 600 < s_r st3 - R_E \<longrightarrow>
        body_tilts freq_Hz b foF2_at_tx foF2_at_distance tilt_distance season max_distance_km
          step st3
        = body_tilts freq_Hz b foF2_at_tx' foF2_at_distance' tilt_distance' season'
            max_distance_km step st3"
    using body_tilts_outside by blast
  have o4: "s_r st4 - R_E < 0 \<or> 600 < s_r st4 - R_E \<longrightarrow>
        body_2d_abs freq_Hz b foF2_at_tx foF2_at_distance tilt_distance season max_distance_km
          step st4
        = body_2d_abs freq_Hz b foF2_at_tx' foF2_at_distance' tilt_distance' season'
            max_distance_km step st4"
    using body_2d_abs_outside by blast
  show ?thesis
    by (intro conjI) (fact p a t d s o3 o4)+
qed

theorem C1_density_used_by_the_tracers_witness:
  "600 < s_r \<lparr>s_r = R_E + 700, s_theta = 0, s_going_up = True, s_distances = [0, 0],
              s_altitudes = [0, 700], s_x = 0, s_phi = 0, s_azimuths = [0, 0]\<rparr> - R_E
   \<and> body_tilts 14000000 0 15 4 3000 ''equinox'' 10000 700
       \<lparr>s_r = R_E + 700, s_theta = 0, s_going_up = True, s_distances = [0, 0],
        s_altitudes = [0, 700], s_x = 0, s_phi = 0, s_azimuths = [0, 0]\<rparr>
     = body_tilts 14000000 0 2 25 100 ''winter'' 10000 700
       \<lparr>s_r = R_E + 700, s_theta = 0, s_going_up = True, s_distances = [0, 0],
        s_altitudes = [0, 700], s_x = 0, s_phi = 0, s_azimuths = [0, 0]\<rparr>
   \<and> 600 < s_r \<lparr>s_r = R_E + 700, s_theta = 0, s_going_up = True, s_distances = [0, 0],
                s_altitudes = [0, 700], s_x = 0, s_phi = 0, s_azimuths = [0, 0],
                s_total_loss_nepers_2d = 0\<rparr> - R_E
   \<and> body_2d_abs 14000000 0 15 4 3000 ''equinox'' 10000 700
       \<lparr>s_r = R_E + 700, s_theta = 0, s_going_up = True, s_distances = [0, 0],
        s_altitudes = [0, 700], s_x = 0, s_phi = 0, s_azimuths = [0, 0],
        s_total_loss_nepers_2d = 0\<rparr>
     = body_2d_abs 14000000 0 2 25 100 ''winter'' 10000 700
       \<lparr>s_r = R_E + 700, s_theta = 0, s_going_up = True, s_distances = [0, 0],
        s_altitudes = [0, 700], s_x = 0, s_phi = 0, s_azimuths = [0, 0],
        s_total_loss_nepers_2d = 0\<rparr>"
proof -
  have h3: "600 < s_r \<lparr>s_r = R_E + 700, s_theta = 0, s_going_up = True, s_distances = [0, 0],
              s_altitudes = [0, 700], s_x = 0, s_phi = 0, s_azimuths = [0, 0]\<rparr> - R_E"
    and h4: "600 < s_r \<lparr>s_r = R_E + 700, s_theta = 0, s_going_up = True, s_distances = [0, 0],
                s_altitudes = [0, 700], s_x = 0, s_phi = 0, s_azimuths = [0, 0],
                s_total_loss_nepers_2d = 0\<rparr> - R_E"
    by simp_all
  from h3 h4 C1_density_used_by_the_tracers [where freq_Hz = 14000000 and b = 0
      and foF2_at_tx = 15 and foF2_at_distance = 4 and tilt_distance = 3000
      and season = "''equinox''" and foF2_at_tx' = 2 and foF2_at_distance' = 25
      and tilt_distance' = 100 and season' = "''winter''" and max_distance_km = 10000
      and step = 700
      and ?st3.0 = "\<lparr>s_r = R_E + 700, s_theta = 0, s_going_up = True, s_distances = [0, 0],
        s_altitudes = [0, 700], s_x = 0, s_phi = 0, s_azimuths = [0, 0]\<rparr>"
      and ?st4.0 = "\<lparr>s_r = R_E + 700, s_theta = 0, s_going_up = True, s_distances = [0, 0],
        s_altitudes = [0, 700], s_x = 0, s_phi = 0, s_azimuths = [0, 0],
        s_total_loss_nepers_2d = 0\<rparr>"]
  show ?thesis by blast
qed

end
